theory Spec2Isabelle
  imports Main "HOL-Library.Word"
begin

unbundle bit_operations_syntax

section \<open>Values shared by every layer\<close>

text \<open>
  Identifiers (\<open>uuid.UUID\<close>) are opaque; only equality on them is used.  Instants
  (\<open>time.Time\<close>) and durations (\<open>time.Duration\<close>, an \<open>int64\<close> count of nanoseconds) are
  integers of nanoseconds.  None of the arithmetic of the modelled code comes near the
  \<open>int64\<close> range, so the additions are written on \<open>int\<close>.
\<close>

type_synonym uuid = nat
type_synonym Time = int
type_synonym Duration = int

definition Hour :: Duration where
  "Hour = 3600 * 1000000000"

definition Time_Add :: "Time \<Rightarrow> Duration \<Rightarrow> Time" where
  "Time_Add t d = t + d"

definition Time_After :: "Time \<Rightarrow> Time \<Rightarrow> bool" where
  \<comment> \<open>\<open>t.After(u)\<close>: t is strictly later than u\<close>
  "Time_After t u = (u < t)"

subsection \<open>Errors (support/errors, app/errors, eris)\<close>

text \<open>
  \<open>AppError\<close> carries Code, Message and StatusCode.  \<open>Wrap e m\<close> is \<open>eris.Wrap(e, m)\<close>
  (and \<open>eris.Wrapf\<close> with its message already formatted).  The remaining constructors
  are the root errors that the database driver, the broker, \<open>crypto/rand\<close> and
  \<open>bcrypt\<close> can hand back.
\<close>

datatype error =
    sql_ErrNoRows
  | sql_ErrConnDone
  | sql_ErrTxDone
  | driver_error string
  | rand_error
  | bcrypt_error string
  | AppError string string nat
  | Wrap error string

fun Error_msg :: "error \<Rightarrow> string" where
  "Error_msg sql_ErrNoRows = ''sql: no rows in result set''"
| "Error_msg sql_ErrConnDone = ''sql: connection is already closed''"
| "Error_msg sql_ErrTxDone = ''sql: transaction has already been committed or rolled back''"
| "Error_msg (driver_error m) = m"
| "Error_msg rand_error = ''crypto/rand: read failed''"
| "Error_msg (bcrypt_error m) = m"
| "Error_msg (AppError c m s) = m"
| "Error_msg (Wrap e m) = m @ '': '' @ Error_msg e"

fun eris_Is :: "error \<Rightarrow> error \<Rightarrow> bool" where
  \<comment> \<open>walks the chain of wrapped errors; an \<open>AppError\<close> matches by Code (\<open>AppError.Is\<close>)\<close>
  "eris_Is (Wrap e m) t = (Wrap e m = t \<or> eris_Is e t)"
| "eris_Is (AppError c m s) t = (case t of AppError c' m' s' \<Rightarrow> c = c' | _ \<Rightarrow> False)"
| "eris_Is e t = (e = t)"

definition StatusUnauthorized :: nat where "StatusUnauthorized = 401"
definition StatusNotFound :: nat where "StatusNotFound = 404"
definition StatusUnprocessableEntity :: nat where "StatusUnprocessableEntity = 422"

definition ErrInvalidCredentials :: error where
  "ErrInvalidCredentials = AppError ''INVALID_CREDENTIALS'' ''invalid credentials'' StatusUnauthorized"

definition ErrInvalidToken :: error where
  "ErrInvalidToken = AppError ''INVALID_TOKEN'' ''invalid token'' StatusUnauthorized"

definition ErrTokenExpired :: error where
  "ErrTokenExpired = AppError ''TOKEN_EXPIRED'' ''token expired'' StatusUnauthorized"

definition ErrTokenRevoked :: error where
  "ErrTokenRevoked = AppError ''TOKEN_REVOKED'' ''token revoked'' StatusUnauthorized"

definition ErrTokenAlreadyUsed :: error where
  "ErrTokenAlreadyUsed = AppError ''TOKEN_ALREADY_USED'' ''token already used'' StatusUnprocessableEntity"

definition ErrInvalidResetToken :: error where
  "ErrInvalidResetToken =
     AppError ''INVALID_RESET_TOKEN'' ''invalid or expired reset token'' StatusUnprocessableEntity"

definition ErrUserNotFound :: error where
  "ErrUserNotFound = AppError ''USER_NOT_FOUND'' ''user not found'' StatusNotFound"

definition ErrEmailAlreadyVerified :: error where
  "ErrEmailAlreadyVerified =
     AppError ''EMAIL_ALREADY_VERIFIED'' ''email already verified'' StatusUnprocessableEntity"

definition ErrDeletionAlreadyScheduled :: error where
  "ErrDeletionAlreadyScheduled =
     AppError ''DELETION_ALREADY_SCHEDULED'' ''account deletion is already scheduled''
       StatusUnprocessableEntity"

text \<open>A Go call either returns or panics; a panic unwinds through every caller that does not recover.\<close>

datatype 'a outcome = Return 'a | Panic string

section \<open>The persisted schema (db/migrations) and the SQL statements (db/queries)\<close>

record User =
  u_ID :: uuid
  u_Name :: string
  u_Email :: string
  u_PasswordHash :: string
  u_EmailVerifiedAt :: "Time option"
  u_DeletionScheduledAt :: "Time option"
  u_CreatedAt :: Time
  u_UpdatedAt :: Time

record AuthToken =
  at_ID :: uuid
  at_UserID :: uuid
  at_TokenHash :: string
  at_ExpiresAt :: Time
  at_RevokedAt :: "Time option"
  at_CreatedAt :: Time

record PasswordReset =
  pr_ID :: uuid
  pr_UserID :: uuid
  pr_TokenHash :: string
  pr_ExpiresAt :: Time
  pr_UsedAt :: "Time option"
  pr_CreatedAt :: Time

record EmailVerification =
  ev_ID :: uuid
  ev_UserID :: uuid
  ev_TokenHash :: string
  ev_ExpiresAt :: Time
  ev_UsedAt :: "Time option"
  ev_CreatedAt :: Time

record database =
  users :: "User list"
  auth_tokens :: "AuthToken list"
  password_resets :: "PasswordReset list"
  email_verifications :: "EmailVerification list"

text \<open>
  Each statement is a function on the tables.  A \<open>:one\<close> query answers
  \<open>sql.ErrNoRows\<close> when no row matches; \<open>:exec\<close> statements answer nothing;
  \<open>:execrows\<close> statements answer the number of rows they touched.
\<close>

subsection \<open>users.sql\<close>

definition GetUserByID :: "uuid \<Rightarrow> database \<Rightarrow> (error + User) \<times> database" where
  "GetUserByID i d =
     (case find (\<lambda>u. u_ID u = i) (users d) of
        None \<Rightarrow> (Inl sql_ErrNoRows, d)
      | Some u \<Rightarrow> (Inr u, d))"

definition GetUserByEmail :: "string \<Rightarrow> database \<Rightarrow> (error + User) \<times> database" where
  "GetUserByEmail e d =
     (case find (\<lambda>u. u_Email u = e) (users d) of
        None \<Rightarrow> (Inl sql_ErrNoRows, d)
      | Some u \<Rightarrow> (Inr u, d))"

definition UpdateUserPassword :: "string \<Rightarrow> Time \<Rightarrow> uuid \<Rightarrow> database \<Rightarrow> (error + unit) \<times> database" where
  "UpdateUserPassword h upd i d =
     (Inr (), d\<lparr>users := map (\<lambda>u. if u_ID u = i
                                   then u\<lparr>u_PasswordHash := h, u_UpdatedAt := upd\<rparr> else u) (users d)\<rparr>)"

definition ScheduleUserDeletion :: "Time option \<Rightarrow> Time \<Rightarrow> uuid \<Rightarrow> database \<Rightarrow> (error + unit) \<times> database" where
  "ScheduleUserDeletion at upd i d =
     (Inr (), d\<lparr>users := map (\<lambda>u. if u_ID u = i
                                   then u\<lparr>u_DeletionScheduledAt := at, u_UpdatedAt := upd\<rparr> else u) (users d)\<rparr>)"

definition CancelUserDeletion :: "Time \<Rightarrow> uuid \<Rightarrow> database \<Rightarrow> (error + unit) \<times> database" where
  "CancelUserDeletion upd i d =
     (Inr (), d\<lparr>users := map (\<lambda>u. if u_ID u = i
                                   then u\<lparr>u_DeletionScheduledAt := None, u_UpdatedAt := upd\<rparr> else u) (users d)\<rparr>)"

definition deletion_due :: "Time \<Rightarrow> User \<Rightarrow> bool" where
  \<comment> \<open>\<open>deletion_scheduled_at IS NOT NULL AND deletion_scheduled_at <= $1\<close>\<close>
  "deletion_due now u = (case u_DeletionScheduledAt u of None \<Rightarrow> False | Some t \<Rightarrow> t \<le> now)"

definition DeleteScheduledUsers :: "Time \<Rightarrow> database \<Rightarrow> (error + int) \<times> database" where
  \<comment> \<open>the three token tables reference \<open>users(id)\<close> with \<open>ON DELETE CASCADE\<close>\<close>
  "DeleteScheduledUsers now d =
     (let gone = filter (deletion_due now) (users d);
          kept = filter (\<lambda>u. \<not> deletion_due now u) (users d);
          orphan = (\<lambda>i. i \<in> u_ID ` set gone)
      in (Inr (int (length gone)),
          d\<lparr>users := kept,
            auth_tokens := filter (\<lambda>t. \<not> orphan (at_UserID t)) (auth_tokens d),
            password_resets := filter (\<lambda>t. \<not> orphan (pr_UserID t)) (password_resets d),
            email_verifications := filter (\<lambda>t. \<not> orphan (ev_UserID t)) (email_verifications d)\<rparr>))"

subsection \<open>auth_tokens.sql\<close>

definition CreateAuthToken :: "AuthToken \<Rightarrow> database \<Rightarrow> (error + unit) \<times> database" where
  "CreateAuthToken t d = (Inr (), d\<lparr>auth_tokens := auth_tokens d @ [t]\<rparr>)"

definition GetAuthTokenByHash :: "string \<Rightarrow> database \<Rightarrow> (error + AuthToken) \<times> database" where
  "GetAuthTokenByHash h d =
     (case find (\<lambda>t. at_TokenHash t = h) (auth_tokens d) of
        None \<Rightarrow> (Inl sql_ErrNoRows, d)
      | Some t \<Rightarrow> (Inr t, d))"

definition RevokeAllAuthTokensForUser :: "Time option \<Rightarrow> uuid \<Rightarrow> database \<Rightarrow> (error + unit) \<times> database" where
  "RevokeAllAuthTokensForUser at i d =
     (Inr (), d\<lparr>auth_tokens := map (\<lambda>t. if at_UserID t = i \<and> at_RevokedAt t = None
                                         then t\<lparr>at_RevokedAt := at\<rparr> else t) (auth_tokens d)\<rparr>)"

definition auth_token_stale :: "Time \<Rightarrow> AuthToken \<Rightarrow> bool" where
  \<comment> \<open>\<open>expires_at < $1 OR revoked_at IS NOT NULL\<close>\<close>
  "auth_token_stale now t = (at_ExpiresAt t < now \<or> at_RevokedAt t \<noteq> None)"

definition DeleteExpiredOrRevokedAuthTokens :: "Time \<Rightarrow> database \<Rightarrow> (error + int) \<times> database" where
  "DeleteExpiredOrRevokedAuthTokens now d =
     (Inr (int (length (filter (auth_token_stale now) (auth_tokens d)))),
      d\<lparr>auth_tokens := filter (\<lambda>t. \<not> auth_token_stale now t) (auth_tokens d)\<rparr>)"

subsection \<open>password_resets.sql\<close>

definition CreatePasswordReset :: "PasswordReset \<Rightarrow> database \<Rightarrow> (error + unit) \<times> database" where
  "CreatePasswordReset r d = (Inr (), d\<lparr>password_resets := password_resets d @ [r]\<rparr>)"

definition GetPasswordResetByTokenHash :: "string \<Rightarrow> database \<Rightarrow> (error + PasswordReset) \<times> database" where
  "GetPasswordResetByTokenHash h d =
     (case find (\<lambda>r. pr_TokenHash r = h) (password_resets d) of
        None \<Rightarrow> (Inl sql_ErrNoRows, d)
      | Some r \<Rightarrow> (Inr r, d))"

definition MarkPasswordResetUsed :: "Time option \<Rightarrow> uuid \<Rightarrow> database \<Rightarrow> (error + unit) \<times> database" where
  "MarkPasswordResetUsed at i d =
     (Inr (), d\<lparr>password_resets := map (\<lambda>r. if pr_ID r = i then r\<lparr>pr_UsedAt := at\<rparr> else r)
                                        (password_resets d)\<rparr>)"

definition InvalidateAllPasswordResetsForUser :: "Time option \<Rightarrow> uuid \<Rightarrow> database \<Rightarrow> (error + unit) \<times> database" where
  "InvalidateAllPasswordResetsForUser at i d =
     (Inr (), d\<lparr>password_resets := map (\<lambda>r. if pr_UserID r = i \<and> pr_UsedAt r = None
                                             then r\<lparr>pr_UsedAt := at\<rparr> else r) (password_resets d)\<rparr>)"

definition password_reset_stale :: "Time \<Rightarrow> PasswordReset \<Rightarrow> bool" where
  \<comment> \<open>\<open>expires_at < $1 OR used_at IS NOT NULL\<close>\<close>
  "password_reset_stale now r = (pr_ExpiresAt r < now \<or> pr_UsedAt r \<noteq> None)"

definition DeleteExpiredOrUsedPasswordResets :: "Time \<Rightarrow> database \<Rightarrow> (error + int) \<times> database" where
  "DeleteExpiredOrUsedPasswordResets now d =
     (Inr (int (length (filter (password_reset_stale now) (password_resets d)))),
      d\<lparr>password_resets := filter (\<lambda>r. \<not> password_reset_stale now r) (password_resets d)\<rparr>)"

subsection \<open>email_verifications.sql\<close>

definition CreateEmailVerification :: "EmailVerification \<Rightarrow> database \<Rightarrow> (error + unit) \<times> database" where
  "CreateEmailVerification v d = (Inr (), d\<lparr>email_verifications := email_verifications d @ [v]\<rparr>)"

definition InvalidateAllEmailVerificationsForUser :: "Time option \<Rightarrow> uuid \<Rightarrow> database \<Rightarrow> (error + unit) \<times> database" where
  "InvalidateAllEmailVerificationsForUser at i d =
     (Inr (), d\<lparr>email_verifications := map (\<lambda>v. if ev_UserID v = i \<and> ev_UsedAt v = None
                                                 then v\<lparr>ev_UsedAt := at\<rparr> else v) (email_verifications d)\<rparr>)"

definition email_verification_stale :: "Time \<Rightarrow> EmailVerification \<Rightarrow> bool" where
  \<comment> \<open>\<open>expires_at < $1 OR used_at IS NOT NULL\<close>\<close>
  "email_verification_stale now v = (ev_ExpiresAt v < now \<or> ev_UsedAt v \<noteq> None)"

definition DeleteExpiredOrUsedEmailVerifications :: "Time \<Rightarrow> database \<Rightarrow> (error + int) \<times> database" where
  "DeleteExpiredOrUsedEmailVerifications now d =
     (Inr (int (length (filter (email_verification_stale now) (email_verifications d)))),
      d\<lparr>email_verifications := filter (\<lambda>v. \<not> email_verification_stale now v) (email_verifications d)\<rparr>)"

section \<open>The world outside the process\<close>

text \<open>
  Everything the services touch outside their own memory is one explicit state:
  \<^item> \<open>store\<close> holds the committed rows, \<open>pending\<close> the working copy of the open
    transaction (\<open>None\<close> when none is open);
  \<^item> \<open>faults\<close> scripts the calls to the database driver and to the broker, in program
    order: \<open>Some e\<close> makes the next call fail with \<open>e\<close> and leave the rows alone, \<open>None\<close>
    (and an exhausted script) lets it through.  A fault stands for every reason a call
    can fail that the rows themselves do not decide: a lost connection, a timeout, a
    violated constraint;
  \<^item> \<open>clock\<close> is the wall clock, \<open>ticks\<close> the time that passes after each reading;
  \<^item> \<open>next_uuid\<close> feeds \<open>uuid.New\<close>, \<open>entropy\<close> feeds \<open>crypto/rand\<close>;
  \<^item> \<open>outbox\<close> is the broker's queue, \<open>sentry\<close> the error-reporting sink;
  \<^item> \<open>journal\<close> records, in order, each statement sent to the driver (with the handle
    it was sent on), each transaction command and each enqueue attempt.
\<close>

datatype conn = Pool | Tx

datatype event = Stmt conn string | TxBegin | TxCommit | TxRollback | Enqueue string

datatype data_value =
    Str string
  | Date_02_01_2006 Time     \<comment> \<open>\<open>t.Format("02/01/2006")\<close>, kept symbolic\<close>
  | Hours_div_24 Duration    \<comment> \<open>\<open>int(d.Hours() / 24)\<close>, kept symbolic\<close>

record EmailPayload =
  ep_To :: string
  ep_Subject :: string
  ep_Template :: string
  ep_Data :: "(string \<times> data_value) list"

record Task =
  t_Type :: string
  t_JobID :: uuid
  t_Payload :: EmailPayload
  t_MaxRetry :: int
  t_Timeout :: Duration
  t_Retention :: Duration

record world =
  store :: database
  pending :: "database option"
  faults :: "error option list"
  clock :: Time
  ticks :: "nat list"
  next_uuid :: uuid
  entropy :: "8 word list"
  outbox :: "Task list"
  sentry :: "error list"
  journal :: "event list"

definition tick :: "world \<Rightarrow> world" where
  "tick w = (case ticks w of [] \<Rightarrow> w | n # ns \<Rightarrow> w\<lparr>clock := clock w + int n, ticks := ns\<rparr>)"

definition time_Now :: "world \<Rightarrow> Time \<times> world" where
  "time_Now w = (clock w, tick w)"

definition uuid_New :: "world \<Rightarrow> uuid \<times> world" where
  "uuid_New w = (next_uuid w, w\<lparr>next_uuid := Suc (next_uuid w)\<rparr>)"

definition rand_Read :: "nat \<Rightarrow> world \<Rightarrow> (error + 8 word list) \<times> world" where
  "rand_Read n w =
     (if length (entropy w) < n then (Inl rand_error, w)
      else (Inr (take n (entropy w)), w\<lparr>entropy := drop n (entropy w)\<rparr>))"

definition nth_fault :: "world \<Rightarrow> nat \<Rightarrow> error option" where
  \<comment> \<open>what the script holds for the k-th call from now on\<close>
  "nth_fault w k = (if k < length (faults w) then faults w ! k else None)"

definition next_fault :: "world \<Rightarrow> error option \<times> world" where
  "next_fault w = (nth_fault w 0, w\<lparr>faults := tl (faults w)\<rparr>)"

definition calls_ok :: "nat \<Rightarrow> world \<Rightarrow> bool" where
  \<comment> \<open>the script lets the next n calls through\<close>
  "calls_ok n w = list_all (\<lambda>k. nth_fault w k = None) [0..<n]"

definition run_query ::
  "conn \<Rightarrow> string \<Rightarrow> (database \<Rightarrow> (error + 'r) \<times> database) \<Rightarrow> world \<Rightarrow> (error + 'r) \<times> world" where
  "run_query c name q w =
     (case next_fault (w\<lparr>journal := journal w @ [Stmt c name]\<rparr>) of
        (Some err, w1) \<Rightarrow> (Inl err, w1)
      | (None, w1) \<Rightarrow>
          (case c of
             Pool \<Rightarrow> (case q (store w1) of (r, d) \<Rightarrow> (r, w1\<lparr>store := d\<rparr>))
           | Tx \<Rightarrow>
               (case pending w1 of
                  None \<Rightarrow> (Inl sql_ErrTxDone, w1)
                | Some p \<Rightarrow> (case q p of (r, d) \<Rightarrow> (r, w1\<lparr>pending := Some d\<rparr>)))))"

definition BeginTx :: "world \<Rightarrow> error option \<times> world" where
  "BeginTx w =
     (case next_fault (w\<lparr>journal := journal w @ [TxBegin]\<rparr>) of
        (Some err, w1) \<Rightarrow> (Some err, w1)
      | (None, w1) \<Rightarrow> (None, w1\<lparr>pending := Some (store w1)\<rparr>))"

definition Tx_Commit :: "world \<Rightarrow> error option \<times> world" where
  "Tx_Commit w =
     (case next_fault (w\<lparr>journal := journal w @ [TxCommit]\<rparr>) of
        (Some err, w1) \<Rightarrow> (Some err, w1\<lparr>pending := None\<rparr>)
      | (None, w1) \<Rightarrow>
          (case pending w1 of
             None \<Rightarrow> (Some sql_ErrTxDone, w1)
           | Some p \<Rightarrow> (None, w1\<lparr>store := p, pending := None\<rparr>)))"

definition Tx_Rollback :: "world \<Rightarrow> error option \<times> world" where
  "Tx_Rollback w =
     (case next_fault (w\<lparr>journal := journal w @ [TxRollback]\<rparr>) of
        (Some err, w1) \<Rightarrow> (Some err, w1\<lparr>pending := None\<rparr>)
      | (None, w1) \<Rightarrow>
          (case pending w1 of
             None \<Rightarrow> (Some sql_ErrTxDone, w1)
           | Some p \<Rightarrow> (None, w1\<lparr>pending := None\<rparr>)))"

section \<open>Transaction Coordinator (support/db/db.go)\<close>

text \<open>
  \<open>fn\<close> is the closure handed to \<open>RunInTx\<close>; \<open>env\<close> are the variables of the caller that
  the closure captures and may assign.  There is no \<open>defer\<close> and no \<open>recover\<close> in
  \<open>RunInTx\<close>: a panic of \<open>fn\<close> leaves through it at once.
\<close>

definition RunInTx ::
  "('c \<Rightarrow> world \<Rightarrow> error option outcome \<times> 'c \<times> world) \<Rightarrow> 'c \<Rightarrow> world
     \<Rightarrow> error option outcome \<times> 'c \<times> world" where
  "RunInTx fn env w =
     (case BeginTx w of
        (Some err, w1) \<Rightarrow> (Return (Some (Wrap err ''failed to begin transaction'')), env, w1)
      | (None, w1) \<Rightarrow>
          (case fn env w1 of
             (Panic p, env', w2) \<Rightarrow> (Panic p, env', w2)
           | (Return (Some err), env', w2) \<Rightarrow>
               (case Tx_Rollback w2 of
                  (Some rbErr, w3) \<Rightarrow>
                    (Return (Some (Wrap err (''rollback also failed: '' @ Error_msg rbErr))), env', w3)
                | (None, w3) \<Rightarrow> (Return (Some err), env', w3))
           | (Return None, env', w2) \<Rightarrow>
               (case Tx_Commit w2 of
                  (Some err, w3) \<Rightarrow> (Return (Some (Wrap err ''failed to commit transaction'')), env', w3)
                | (None, w3) \<Rightarrow> (Return None, env', w3))))"

section \<open>Repositories (app/repositories)\<close>

text \<open>
  The first argument is the handle the repository's queries are bound to: \<open>Pool\<close> for a
  repository built by \<open>New...Repository(db)\<close>, \<open>Tx\<close> for the one \<open>WithTx(tx)\<close> returns.
\<close>

subsection \<open>UserRepository\<close>

definition UserRepository_GetByID :: "conn \<Rightarrow> uuid \<Rightarrow> world \<Rightarrow> (error + User) \<times> world" where
  "UserRepository_GetByID c i w =
     (case run_query c ''GetUserByID'' (GetUserByID i) w of
        (Inl err, w1) \<Rightarrow> (Inl (Wrap err ''failed to get user by id''), w1)
      | (Inr user, w1) \<Rightarrow> (Inr user, w1))"

definition UserRepository_GetByEmail :: "conn \<Rightarrow> string \<Rightarrow> world \<Rightarrow> (error + User) \<times> world" where
  "UserRepository_GetByEmail c email w =
     (case run_query c ''GetUserByEmail'' (GetUserByEmail email) w of
        (Inl err, w1) \<Rightarrow> (Inl (Wrap err ''failed to get user by email''), w1)
      | (Inr user, w1) \<Rightarrow> (Inr user, w1))"

definition UserRepository_UpdatePassword :: "conn \<Rightarrow> uuid \<Rightarrow> string \<Rightarrow> world \<Rightarrow> error option \<times> world" where
  "UserRepository_UpdatePassword c userID passwordHash w =
     (case time_Now w of (now, w1) \<Rightarrow>
      (case run_query c ''UpdateUserPassword'' (UpdateUserPassword passwordHash now userID) w1 of
         (Inl err, w2) \<Rightarrow> (Some (Wrap err ''failed to update user password''), w2)
       | (Inr _, w2) \<Rightarrow> (None, w2)))"

definition UserRepository_ScheduleDeletion :: "conn \<Rightarrow> uuid \<Rightarrow> Time \<Rightarrow> world \<Rightarrow> error option \<times> world" where
  "UserRepository_ScheduleDeletion c userID scheduledAt w =
     (case time_Now w of (now, w1) \<Rightarrow>
      (case run_query c ''ScheduleUserDeletion'' (ScheduleUserDeletion (Some scheduledAt) now userID) w1 of
         (Inl err, w2) \<Rightarrow> (Some (Wrap err ''failed to schedule user deletion''), w2)
       | (Inr _, w2) \<Rightarrow> (None, w2)))"

definition UserRepository_CancelDeletion :: "conn \<Rightarrow> uuid \<Rightarrow> world \<Rightarrow> error option \<times> world" where
  "UserRepository_CancelDeletion c userID w =
     (case time_Now w of (now, w1) \<Rightarrow>
      (case run_query c ''CancelUserDeletion'' (CancelUserDeletion now userID) w1 of
         (Inl err, w2) \<Rightarrow> (Some (Wrap err ''failed to cancel user deletion''), w2)
       | (Inr _, w2) \<Rightarrow> (None, w2)))"

definition UserRepository_DeleteScheduledUsers :: "conn \<Rightarrow> world \<Rightarrow> (error + int) \<times> world" where
  "UserRepository_DeleteScheduledUsers c w =
     (case time_Now w of (now, w1) \<Rightarrow>
      (case run_query c ''DeleteScheduledUsers'' (DeleteScheduledUsers now) w1 of
         (Inl err, w2) \<Rightarrow> (Inl (Wrap err ''failed to delete scheduled users''), w2)
       | (Inr deleted, w2) \<Rightarrow> (Inr deleted, w2)))"

subsection \<open>AuthTokenRepository\<close>

definition AuthTokenRepository_Create ::
  "conn \<Rightarrow> uuid \<Rightarrow> string \<Rightarrow> Time \<Rightarrow> world \<Rightarrow> (error + AuthToken) \<times> world" where
  "AuthTokenRepository_Create c userID tokenHash expiresAt w =
     (case uuid_New w of (i, w1) \<Rightarrow>
      (case time_Now w1 of (now, w2) \<Rightarrow>
       (let token = \<lparr>at_ID = i, at_UserID = userID, at_TokenHash = tokenHash,
                     at_ExpiresAt = expiresAt, at_RevokedAt = None, at_CreatedAt = now\<rparr>
        in case run_query c ''CreateAuthToken'' (CreateAuthToken token) w2 of
             (Inl err, w3) \<Rightarrow> (Inl (Wrap err ''failed to create auth token''), w3)
           | (Inr _, w3) \<Rightarrow> (Inr token, w3))))"

definition AuthTokenRepository_GetByHash :: "conn \<Rightarrow> string \<Rightarrow> world \<Rightarrow> (error + AuthToken) \<times> world" where
  "AuthTokenRepository_GetByHash c tokenHash w =
     (case run_query c ''GetAuthTokenByHash'' (GetAuthTokenByHash tokenHash) w of
        (Inl err, w1) \<Rightarrow> (Inl (Wrap err ''failed to get auth token by hash''), w1)
      | (Inr token, w1) \<Rightarrow> (Inr token, w1))"

definition AuthTokenRepository_RevokeAllForUser :: "conn \<Rightarrow> uuid \<Rightarrow> world \<Rightarrow> error option \<times> world" where
  "AuthTokenRepository_RevokeAllForUser c userID w =
     (case time_Now w of (now, w1) \<Rightarrow>
      (case run_query c ''RevokeAllAuthTokensForUser'' (RevokeAllAuthTokensForUser (Some now) userID) w1 of
         (Inl err, w2) \<Rightarrow> (Some (Wrap err ''failed to revoke all auth tokens for user''), w2)
       | (Inr _, w2) \<Rightarrow> (None, w2)))"

definition AuthTokenRepository_DeleteExpiredOrRevoked :: "conn \<Rightarrow> world \<Rightarrow> (error + int) \<times> world" where
  "AuthTokenRepository_DeleteExpiredOrRevoked c w =
     (case time_Now w of (now, w1) \<Rightarrow>
      (case run_query c ''DeleteExpiredOrRevokedAuthTokens'' (DeleteExpiredOrRevokedAuthTokens now) w1 of
         (Inl err, w2) \<Rightarrow> (Inl (Wrap err ''failed to delete expired or revoked auth tokens''), w2)
       | (Inr deleted, w2) \<Rightarrow> (Inr deleted, w2)))"

subsection \<open>PasswordResetRepository\<close>

definition PasswordResetRepository_Create ::
  "conn \<Rightarrow> uuid \<Rightarrow> string \<Rightarrow> Time \<Rightarrow> world \<Rightarrow> (error + PasswordReset) \<times> world" where
  "PasswordResetRepository_Create c userID tokenHash expiresAt w =
     (case uuid_New w of (i, w1) \<Rightarrow>
      (case time_Now w1 of (now, w2) \<Rightarrow>
       (let reset = \<lparr>pr_ID = i, pr_UserID = userID, pr_TokenHash = tokenHash,
                     pr_ExpiresAt = expiresAt, pr_UsedAt = None, pr_CreatedAt = now\<rparr>
        in case run_query c ''CreatePasswordReset'' (CreatePasswordReset reset) w2 of
             (Inl err, w3) \<Rightarrow> (Inl (Wrap err ''failed to create password reset''), w3)
           | (Inr _, w3) \<Rightarrow> (Inr reset, w3))))"

definition PasswordResetRepository_GetByTokenHash ::
  "conn \<Rightarrow> string \<Rightarrow> world \<Rightarrow> (error + PasswordReset) \<times> world" where
  "PasswordResetRepository_GetByTokenHash c tokenHash w =
     (case run_query c ''GetPasswordResetByTokenHash'' (GetPasswordResetByTokenHash tokenHash) w of
        (Inl err, w1) \<Rightarrow> (Inl (Wrap err ''failed to get password reset by token hash''), w1)
      | (Inr reset, w1) \<Rightarrow> (Inr reset, w1))"

definition PasswordResetRepository_MarkUsed :: "conn \<Rightarrow> uuid \<Rightarrow> world \<Rightarrow> error option \<times> world" where
  "PasswordResetRepository_MarkUsed c i w =
     (case time_Now w of (now, w1) \<Rightarrow>
      (case run_query c ''MarkPasswordResetUsed'' (MarkPasswordResetUsed (Some now) i) w1 of
         (Inl err, w2) \<Rightarrow> (Some (Wrap err ''failed to mark password reset as used''), w2)
       | (Inr _, w2) \<Rightarrow> (None, w2)))"

definition PasswordResetRepository_InvalidateAllForUser :: "conn \<Rightarrow> uuid \<Rightarrow> world \<Rightarrow> error option \<times> world" where
  "PasswordResetRepository_InvalidateAllForUser c userID w =
     (case time_Now w of (now, w1) \<Rightarrow>
      (case run_query c ''InvalidateAllPasswordResetsForUser''
              (InvalidateAllPasswordResetsForUser (Some now) userID) w1 of
         (Inl err, w2) \<Rightarrow> (Some (Wrap err ''failed to invalidate all password resets for user''), w2)
       | (Inr _, w2) \<Rightarrow> (None, w2)))"

definition PasswordResetRepository_DeleteExpiredOrUsed :: "conn \<Rightarrow> world \<Rightarrow> (error + int) \<times> world" where
  "PasswordResetRepository_DeleteExpiredOrUsed c w =
     (case time_Now w of (now, w1) \<Rightarrow>
      (case run_query c ''DeleteExpiredOrUsedPasswordResets'' (DeleteExpiredOrUsedPasswordResets now) w1 of
         (Inl err, w2) \<Rightarrow> (Inl (Wrap err ''failed to delete expired or used password resets''), w2)
       | (Inr deleted, w2) \<Rightarrow> (Inr deleted, w2)))"

subsection \<open>EmailVerificationRepository\<close>

definition EmailVerificationRepository_Create ::
  "conn \<Rightarrow> uuid \<Rightarrow> string \<Rightarrow> Time \<Rightarrow> world \<Rightarrow> (error + EmailVerification) \<times> world" where
  "EmailVerificationRepository_Create c userID tokenHash expiresAt w =
     (case uuid_New w of (i, w1) \<Rightarrow>
      (case time_Now w1 of (now, w2) \<Rightarrow>
       (let verification = \<lparr>ev_ID = i, ev_UserID = userID, ev_TokenHash = tokenHash,
                            ev_ExpiresAt = expiresAt, ev_UsedAt = None, ev_CreatedAt = now\<rparr>
        in case run_query c ''CreateEmailVerification'' (CreateEmailVerification verification) w2 of
             (Inl err, w3) \<Rightarrow> (Inl (Wrap err ''failed to create email verification''), w3)
           | (Inr _, w3) \<Rightarrow> (Inr verification, w3))))"

definition EmailVerificationRepository_InvalidateAllForUser :: "conn \<Rightarrow> uuid \<Rightarrow> world \<Rightarrow> error option \<times> world" where
  "EmailVerificationRepository_InvalidateAllForUser c userID w =
     (case time_Now w of (now, w1) \<Rightarrow>
      (case run_query c ''InvalidateAllEmailVerificationsForUser''
              (InvalidateAllEmailVerificationsForUser (Some now) userID) w1 of
         (Inl err, w2) \<Rightarrow> (Some (Wrap err ''failed to invalidate all email verifications for user''), w2)
       | (Inr _, w2) \<Rightarrow> (None, w2)))"

definition EmailVerificationRepository_DeleteExpiredOrUsed :: "conn \<Rightarrow> world \<Rightarrow> (error + int) \<times> world" where
  "EmailVerificationRepository_DeleteExpiredOrUsed c w =
     (case time_Now w of (now, w1) \<Rightarrow>
      (case run_query c ''DeleteExpiredOrUsedEmailVerifications''
              (DeleteExpiredOrUsedEmailVerifications now) w1 of
         (Inl err, w2) \<Rightarrow> (Inl (Wrap err ''failed to delete expired or used email verifications''), w2)
       | (Inr deleted, w2) \<Rightarrow> (Inr deleted, w2)))"

section \<open>Configuration (support/config)\<close>

record AuthConfig =
  AuthTokenTTL :: Duration
  PasswordResetTokenTTL :: Duration
  EmailConfirmationTokenTTL :: Duration
  AccountDeletionDelay :: Duration
  BcryptCost :: int

record WorkerConfig =
  EmailMaxRetry :: int
  EmailTimeout :: Duration
  EmailRetention :: Duration

record Config =
  Auth :: AuthConfig
  Worker :: WorkerConfig
  App_BaseURL :: string

text \<open>
  What the configuration file and the environment set, already parsed: \<open>None\<close> is a key
  that neither of them sets.  \<open>Load\<close> registers a default for every key
  (\<open>viper.SetDefault\<close>) and unmarshals; a key that is not set takes its default.  The
  defaults are written in the source as \<open>"0"\<close>, \<open>"1h"\<close>, \<open>"24h"\<close>, \<open>"720h"\<close>, \<open>12\<close>, \<open>5\<close>,
  \<open>"30s"\<close>, \<open>"24h"\<close> and \<open>"http://localhost:3000"\<close>.
\<close>

record Settings =
  set_auth_token_ttl :: "Duration option"
  set_password_reset_token_ttl :: "Duration option"
  set_email_confirmation_token_ttl :: "Duration option"
  set_account_deletion_delay :: "Duration option"
  set_bcrypt_cost :: "int option"
  set_email_max_retry :: "int option"
  set_email_timeout :: "Duration option"
  set_email_retention :: "Duration option"
  set_base_url :: "string option"

definition or_default :: "'a option \<Rightarrow> 'a \<Rightarrow> 'a" where
  "or_default v d = (case v of None \<Rightarrow> d | Some x \<Rightarrow> x)"

definition Load :: "Settings \<Rightarrow> Config" where
  "Load s =
     \<lparr>Auth = \<lparr>AuthTokenTTL = or_default (set_auth_token_ttl s) 0,
              PasswordResetTokenTTL = or_default (set_password_reset_token_ttl s) (1 * Hour),
              EmailConfirmationTokenTTL = or_default (set_email_confirmation_token_ttl s) (24 * Hour),
              AccountDeletionDelay = or_default (set_account_deletion_delay s) (720 * Hour),
              BcryptCost = or_default (set_bcrypt_cost s) 12\<rparr>,
      Worker = \<lparr>EmailMaxRetry = or_default (set_email_max_retry s) 5,
                EmailTimeout = or_default (set_email_timeout s) (30 * 1000000000),
                EmailRetention = or_default (set_email_retention s) (24 * Hour)\<rparr>,
      App_BaseURL = or_default (set_base_url s) ''http://localhost:3000''\<rparr>"

section \<open>Token Codec (app/services/crypto.go)\<close>

text \<open>
  The digest and the password hash come from libraries outside the repository
  (\<open>crypto/sha256\<close>, \<open>golang.org/x/crypto/bcrypt\<close>); they are parameters of every
  service, and nothing is assumed about them.
\<close>

record extern =
  sha256_Sum256 :: "string \<Rightarrow> 8 word list"
  bcrypt_GenerateFromPassword :: "string \<Rightarrow> int \<Rightarrow> error + string"
  bcrypt_CompareHashAndPassword :: "string \<Rightarrow> string \<Rightarrow> error option"

definition hextable :: string where
  "hextable = ''0123456789abcdef''"

fun hex_EncodeToString :: "8 word list \<Rightarrow> string" where
  "hex_EncodeToString [] = []"
| "hex_EncodeToString (b # bs) =
     hextable ! unat (drop_bit 4 b) # hextable ! unat (b AND 15) # hex_EncodeToString bs"

definition GenerateSecureToken :: "nat \<Rightarrow> world \<Rightarrow> (error + string) \<times> world" where
  \<comment> \<open>the parameter is \<open>length\<close> in the source\<close>
  "GenerateSecureToken len w =
     (case rand_Read len w of
        (Inl err, w1) \<Rightarrow> (Inl (Wrap err ''failed to generate secure token''), w1)
      | (Inr bytes, w1) \<Rightarrow> (Inr (hex_EncodeToString bytes), w1))"

definition HashToken :: "extern \<Rightarrow> string \<Rightarrow> string" where
  "HashToken lib token = hex_EncodeToString (sha256_Sum256 lib token)"

section \<open>Task Dispatcher (support/taskqueue/client.go, app/tasks/email.go)\<close>

definition TypeEmail :: string where
  "TypeEmail = ''email:send''"

definition EmailTaskOptions :: "Config \<Rightarrow> int \<times> Duration \<times> Duration" where
  "EmailTaskOptions cfg =
     (EmailMaxRetry (Worker cfg), EmailTimeout (Worker cfg), EmailRetention (Worker cfg))"

definition EnqueueCtx :: "string \<Rightarrow> EmailPayload \<Rightarrow> int \<times> Duration \<times> Duration \<Rightarrow> world \<Rightarrow> world" where
  \<comment> \<open>fire and forget: a failed enqueue is reported to the sink and not returned\<close>
  "EnqueueCtx taskType payload opts w =
     (case uuid_New w of (jobID, w1) \<Rightarrow>
      (case next_fault (w1\<lparr>journal := journal w1 @ [Enqueue taskType]\<rparr>) of
         (Some err, w2) \<Rightarrow> w2\<lparr>sentry := sentry w2 @ [Wrap err ''failed to enqueue task'']\<rparr>
       | (None, w2) \<Rightarrow>
           (case opts of (maxRetry, timeout, retention) \<Rightarrow>
              w2\<lparr>outbox := outbox w2 @
                    [\<lparr>t_Type = taskType, t_JobID = jobID, t_Payload = payload,
                      t_MaxRetry = maxRetry, t_Timeout = timeout, t_Retention = retention\<rparr>]\<rparr>)))"

section \<open>Session Service (app/services/session_service.go)\<close>

definition DefaultAuthTokenTTL :: Duration where
  "DefaultAuthTokenTTL = 365 * 24 * Hour"

definition generateToken :: "Config \<Rightarrow> extern \<Rightarrow> uuid \<Rightarrow> world \<Rightarrow> (error + string) \<times> world" where
  "generateToken cfg lib userID w =
     (case GenerateSecureToken 32 w of
        (Inl err, w1) \<Rightarrow> (Inl (Wrap err ''failed to generate secure token''), w1)
      | (Inr token, w1) \<Rightarrow>
          (let tokenHash = HashToken lib token in
           case time_Now w1 of (now, w2) \<Rightarrow>
           (let ttl = (if AuthTokenTTL (Auth cfg) = 0 then DefaultAuthTokenTTL
                       else AuthTokenTTL (Auth cfg));
                expiresAt = Time_Add now ttl
            in case AuthTokenRepository_Create Pool userID tokenHash expiresAt w2 of
                 (Inl err, w3) \<Rightarrow> (Inl (Wrap err ''failed to create auth token''), w3)
               | (Inr _, w3) \<Rightarrow> (Inr token, w3))))"

definition SessionService_Create ::
  "Config \<Rightarrow> extern \<Rightarrow> string \<Rightarrow> string \<Rightarrow> world \<Rightarrow> (error + User \<times> string) \<times> world" where
  "SessionService_Create cfg lib email password w =
     (case UserRepository_GetByEmail Pool email w of
        (Inl err, w1) \<Rightarrow>
          (if eris_Is err sql_ErrNoRows then (Inl ErrInvalidCredentials, w1)
           else (Inl (Wrap err ''failed to get user by email''), w1))
      | (Inr user, w1) \<Rightarrow>
          (if bcrypt_CompareHashAndPassword lib (u_PasswordHash user) password \<noteq> None
           then (Inl ErrInvalidCredentials, w1)
           else
             (case (if u_DeletionScheduledAt user \<noteq> None
                    then (case UserRepository_CancelDeletion Pool (u_ID user) w1 of
                            (Some err, w2) \<Rightarrow> (Inl (Wrap err ''failed to cancel deletion''), w2)
                          | (None, w2) \<Rightarrow> (Inr (user\<lparr>u_DeletionScheduledAt := None\<rparr>), w2))
                    else (Inr user, w1)) of
                (Inl err, w2) \<Rightarrow> (Inl err, w2)
              | (Inr user', w2) \<Rightarrow>
                  (case generateToken cfg lib (u_ID user') w2 of
                     (Inl err, w3) \<Rightarrow> (Inl (Wrap err ''failed to generate token''), w3)
                   | (Inr token, w3) \<Rightarrow> (Inr (user', token), w3)))))"

definition SessionService_CreateForUser :: "Config \<Rightarrow> extern \<Rightarrow> uuid \<Rightarrow> world \<Rightarrow> (error + string) \<times> world" where
  "SessionService_CreateForUser cfg lib userID w = generateToken cfg lib userID w"

definition SessionService_ValidateToken :: "extern \<Rightarrow> string \<Rightarrow> world \<Rightarrow> (error + AuthToken) \<times> world" where
  "SessionService_ValidateToken lib token w =
     (let tokenHash = HashToken lib token in
      case AuthTokenRepository_GetByHash Pool tokenHash w of
        (Inl err, w1) \<Rightarrow>
          (if eris_Is err sql_ErrNoRows then (Inl ErrInvalidToken, w1)
           else (Inl (Wrap err ''failed to get auth token''), w1))
      | (Inr authToken, w1) \<Rightarrow>
          (if at_RevokedAt authToken \<noteq> None then (Inl ErrTokenRevoked, w1)
           else
             (case time_Now w1 of (now, w2) \<Rightarrow>
                if Time_After now (at_ExpiresAt authToken) then (Inl ErrTokenExpired, w2)
                else (Inr authToken, w2))))"

section \<open>Password Reset Service (app/services/password_reset_service.go)\<close>

definition PasswordResetService_Create :: "Config \<Rightarrow> extern \<Rightarrow> string \<Rightarrow> world \<Rightarrow> error option \<times> world" where
  "PasswordResetService_Create cfg lib email w =
     (case UserRepository_GetByEmail Pool email w of
        (Inl err, w1) \<Rightarrow>
          (if eris_Is err sql_ErrNoRows then (None, w1)
           else (Some (Wrap err ''failed to get user by email''), w1))
      | (Inr user, w1) \<Rightarrow>
          (case GenerateSecureToken 32 w1 of
             (Inl err, w2) \<Rightarrow> (Some (Wrap err ''failed to generate reset token''), w2)
           | (Inr resetToken, w2) \<Rightarrow>
               (let tokenHash = HashToken lib resetToken in
                case time_Now w2 of (now, w3) \<Rightarrow>
                (let expiresAt = Time_Add now (PasswordResetTokenTTL (Auth cfg)) in
                 case PasswordResetRepository_Create Pool (u_ID user) tokenHash expiresAt w3 of
                   (Inl err, w4) \<Rightarrow> (Some (Wrap err ''failed to create password reset''), w4)
                 | (Inr _, w4) \<Rightarrow>
                     \<comment> \<open>the token is hexadecimal, so \<open>url.QueryEscape\<close> leaves it as it is\<close>
                     (let resetLink = App_BaseURL cfg @ ''/reset-password?token='' @ resetToken
                      in (None,
                          EnqueueCtx TypeEmail
                            \<lparr>ep_To = u_Email user,
                             ep_Subject = ''Redefinir Senha - ZapAgenda'',
                             ep_Template = ''password-reset'',
                             ep_Data = [(''Name'', Str (u_Name user)), (''ResetLink'', Str resetLink)]\<rparr>
                            (EmailTaskOptions cfg) w4))))))"

text \<open>The closure that \<open>Execute\<close> runs in the transaction; it captures nothing it assigns.\<close>

definition Execute_tx :: "PasswordReset \<Rightarrow> string \<Rightarrow> unit \<Rightarrow> world \<Rightarrow> error option outcome \<times> unit \<times> world" where
  "Execute_tx reset passwordHash env w =
     (case UserRepository_UpdatePassword Tx (pr_UserID reset) passwordHash w of
        (Some err, w1) \<Rightarrow> (Return (Some (Wrap err ''failed to update password'')), env, w1)
      | (None, w1) \<Rightarrow>
          (case PasswordResetRepository_MarkUsed Tx (pr_ID reset) w1 of
             (Some err, w2) \<Rightarrow> (Return (Some (Wrap err ''failed to mark password reset as used'')), env, w2)
           | (None, w2) \<Rightarrow>
               (case PasswordResetRepository_InvalidateAllForUser Tx (pr_UserID reset) w2 of
                  (Some err, w3) \<Rightarrow>
                    (Return (Some (Wrap err ''failed to invalidate password resets for user'')), env, w3)
                | (None, w3) \<Rightarrow>
                    (case AuthTokenRepository_RevokeAllForUser Tx (pr_UserID reset) w3 of
                       (Some err, w4) \<Rightarrow>
                         (Return (Some (Wrap err ''failed to revoke auth tokens for user'')), env, w4)
                     | (None, w4) \<Rightarrow> (Return None, env, w4)))))"

definition PasswordResetService_Execute ::
  "Config \<Rightarrow> extern \<Rightarrow> string \<Rightarrow> string \<Rightarrow> world \<Rightarrow> error option outcome \<times> world" where
  "PasswordResetService_Execute cfg lib token newPassword w =
     (let tokenHash = HashToken lib token in
      case PasswordResetRepository_GetByTokenHash Pool tokenHash w of
        (Inl err, w1) \<Rightarrow>
          (if eris_Is err sql_ErrNoRows then (Return (Some ErrInvalidResetToken), w1)
           else (Return (Some (Wrap err ''failed to get password reset by token hash'')), w1))
      | (Inr reset, w1) \<Rightarrow>
          (if pr_UsedAt reset \<noteq> None then (Return (Some ErrTokenAlreadyUsed), w1)
           else
             (case time_Now w1 of (now, w2) \<Rightarrow>
                if Time_After now (pr_ExpiresAt reset) then (Return (Some ErrTokenExpired), w2)
                else
                  (case bcrypt_GenerateFromPassword lib newPassword (BcryptCost (Auth cfg)) of
                     Inl err \<Rightarrow> (Return (Some (Wrap err ''failed to hash password'')), w2)
                   | Inr passwordHash \<Rightarrow>
                       (case RunInTx (Execute_tx reset passwordHash) () w2 of
                          (r, _, w3) \<Rightarrow> (r, w3))))))"

section \<open>Account Deletion workflow (app/services/user_service.go)\<close>

text \<open>
  The closure of \<open>ScheduleDeletion\<close> assigns the caller's \<open>userEmail\<close> and \<open>userName\<close>; they
  are its environment, and start as empty strings.
\<close>

definition ScheduleDeletion_tx ::
  "uuid \<Rightarrow> Time \<Rightarrow> string \<times> string \<Rightarrow> world \<Rightarrow> error option outcome \<times> (string \<times> string) \<times> world" where
  "ScheduleDeletion_tx userID scheduledAt env w =
     (case UserRepository_GetByID Tx userID w of
        (Inl err, w1) \<Rightarrow>
          (if eris_Is err sql_ErrNoRows then (Return (Some ErrUserNotFound), env, w1)
           else (Return (Some (Wrap err ''failed to get user by ID'')), env, w1))
      | (Inr user, w1) \<Rightarrow>
          (if u_DeletionScheduledAt user \<noteq> None
           then (Return (Some ErrDeletionAlreadyScheduled), env, w1)
           else
             (let env' = (u_Email user, u_Name user) in
              case UserRepository_ScheduleDeletion Tx userID scheduledAt w1 of
                (Some err, w2) \<Rightarrow> (Return (Some (Wrap err ''failed to schedule user deletion'')), env', w2)
              | (None, w2) \<Rightarrow>
                  (case AuthTokenRepository_RevokeAllForUser Tx userID w2 of
                     (Some err, w3) \<Rightarrow>
                       (Return (Some (Wrap err ''failed to revoke all auth tokens for user'')), env', w3)
                   | (None, w3) \<Rightarrow> (Return None, env', w3)))))"

definition UserService_ScheduleDeletion :: "Config \<Rightarrow> uuid \<Rightarrow> world \<Rightarrow> error option outcome \<times> world" where
  "UserService_ScheduleDeletion cfg userID w =
     (case time_Now w of (now, w0) \<Rightarrow>
      (let scheduledAt = Time_Add now (AccountDeletionDelay (Auth cfg)) in
       case RunInTx (ScheduleDeletion_tx userID scheduledAt) ([], []) w0 of
         (Panic p, _, w1) \<Rightarrow> (Panic p, w1)
       | (Return (Some err), _, w1) \<Rightarrow> (Return (Some err), w1)
       | (Return None, (userEmail, userName), w1) \<Rightarrow>
           (Return None,
            EnqueueCtx TypeEmail
              \<lparr>ep_To = userEmail,
               ep_Subject = ''Sua conta ser'' @ [CHR 0xC3, CHR 0xA1] @ '' exclu''
                            @ [CHR 0xC3, CHR 0xAD] @ ''da - ZapAgenda'',
               ep_Template = ''account-deletion-scheduled'',
               ep_Data = [(''Name'', Str userName),
                          (''ScheduledAt'', Date_02_01_2006 scheduledAt),
                          (''DaysLeft'', Hours_div_24 (AccountDeletionDelay (Auth cfg)))]\<rparr>
              (EmailTaskOptions cfg) w1)))"

section \<open>Email Verification Service (app/services/email_verification_service.go)\<close>

definition EmailVerificationService_Send :: "Config \<Rightarrow> extern \<Rightarrow> uuid \<Rightarrow> world \<Rightarrow> error option \<times> world" where
  "EmailVerificationService_Send cfg lib userID w =
     (case UserRepository_GetByID Pool userID w of
        (Inl err, w1) \<Rightarrow> (Some (Wrap err ''failed to get user by id''), w1)
      | (Inr user, w1) \<Rightarrow>
          (if u_EmailVerifiedAt user \<noteq> None then (Some ErrEmailAlreadyVerified, w1)
           else
             (case GenerateSecureToken 32 w1 of
                (Inl err, w2) \<Rightarrow> (Some (Wrap err ''failed to generate verification token''), w2)
              | (Inr verificationToken, w2) \<Rightarrow>
                  (let tokenHash = HashToken lib verificationToken in
                   case time_Now w2 of (now, w3) \<Rightarrow>
                   (let expiresAt = Time_Add now (EmailConfirmationTokenTTL (Auth cfg)) in
                    case EmailVerificationRepository_InvalidateAllForUser Pool userID w3 of
                      (Some err, w4) \<Rightarrow>
                        (Some (Wrap err ''failed to invalidate email verifications for user''), w4)
                    | (None, w4) \<Rightarrow>
                        (case EmailVerificationRepository_Create Pool userID tokenHash expiresAt w4 of
                           (Inl err, w5) \<Rightarrow> (Some (Wrap err ''failed to create email verification''), w5)
                         | (Inr _, w5) \<Rightarrow>
                             (let verificationLink =
                                    App_BaseURL cfg @ ''/verify-email?token='' @ verificationToken
                              in (None,
                                  EnqueueCtx TypeEmail
                                    \<lparr>ep_To = u_Email user,
                                     ep_Subject = ''Confirme seu Email - ZapAgenda'',
                                     ep_Template = ''email-verification'',
                                     ep_Data = [(''Name'', Str (u_Name user)),
                                                (''VerificationLink'', Str verificationLink)]\<rparr>
                                    (EmailTaskOptions cfg) w5))))))))"

section \<open>Cleanup Job (app/tasks/cleanup.go)\<close>

text \<open>
  The payload of the periodic task is empty and its metadata only feeds the logger, so
  the handler is a function of the world alone.  The four counts are logged, not returned.
\<close>

definition CleanupTask_Handle :: "world \<Rightarrow> error option \<times> world" where
  "CleanupTask_Handle w =
     (case AuthTokenRepository_DeleteExpiredOrRevoked Pool w of
        (Inl err, w1) \<Rightarrow> (Some (Wrap err ''failed to cleanup auth tokens''), w1)
      | (Inr authDeleted, w1) \<Rightarrow>
          (case PasswordResetRepository_DeleteExpiredOrUsed Pool w1 of
             (Inl err, w2) \<Rightarrow> (Some (Wrap err ''failed to cleanup password reset tokens''), w2)
           | (Inr passwordDeleted, w2) \<Rightarrow>
               (case EmailVerificationRepository_DeleteExpiredOrUsed Pool w2 of
                  (Inl err, w3) \<Rightarrow> (Some (Wrap err ''failed to cleanup email verification tokens''), w3)
                | (Inr emailDeleted, w3) \<Rightarrow>
                    (case UserRepository_DeleteScheduledUsers Pool w3 of
                       (Inl err, w4) \<Rightarrow> (Some (Wrap err ''failed to delete scheduled users''), w4)
                     | (Inr usersDeleted, w4) \<Rightarrow> (None, w4)))))"

section \<open>Concrete scenarios\<close>

text \<open>
  Stand-ins for the two libraries, for running the model on concrete inputs only: the
  ``digest'' is the bytes of the token and the ``password hash'' is the password behind
  a fixed prefix.  No theorem about the services depends on them.
\<close>

definition demo_lib :: extern where
  "demo_lib =
     \<lparr>sha256_Sum256 = (\<lambda>s. map (\<lambda>c. of_nat (of_char c)) s),
      bcrypt_GenerateFromPassword = (\<lambda>p cost. Inr (''$2a$'' @ p)),
      bcrypt_CompareHashAndPassword =
        (\<lambda>h p. if h = ''$2a$'' @ p then None
               else Some (bcrypt_error ''crypto/bcrypt: hashedPassword is not the hash of the given password''))\<rparr>"

definition no_settings :: Settings where
  "no_settings =
     \<lparr>set_auth_token_ttl = None, set_password_reset_token_ttl = None,
      set_email_confirmation_token_ttl = None, set_account_deletion_delay = None,
      set_bcrypt_cost = None, set_email_max_retry = None, set_email_timeout = None,
      set_email_retention = None, set_base_url = None\<rparr>"

definition alice :: User where
  "alice =
     \<lparr>u_ID = 1, u_Name = ''Alice'', u_Email = ''alice@example.com'',
      u_PasswordHash = ''$2a$secret123'', u_EmailVerifiedAt = None,
      u_DeletionScheduledAt = None, u_CreatedAt = 0, u_UpdatedAt = 0\<rparr>"

definition alice_leaving :: User where
  "alice_leaving = alice\<lparr>u_DeletionScheduledAt := Some 5000\<rparr>"

definition expired_token :: AuthToken where
  "expired_token =
     \<lparr>at_ID = 7, at_UserID = 1, at_TokenHash = ''746f6b'', at_ExpiresAt = 500,
      at_RevokedAt = None, at_CreatedAt = 100\<rparr>"

definition live_token :: AuthToken where
  "live_token =
     \<lparr>at_ID = 8, at_UserID = 1, at_TokenHash = ''6c697665'', at_ExpiresAt = 9000,
      at_RevokedAt = None, at_CreatedAt = 100\<rparr>"

definition world_of :: "database \<Rightarrow> error option list \<Rightarrow> 8 word list \<Rightarrow> world" where
  \<comment> \<open>a world at time 1000 with the given rows, fault script and entropy\<close>
  "world_of d fs ent =
     \<lparr>store = d, pending = None, faults = fs, clock = 1000, ticks = [1, 2, 3],
      next_uuid = 100, entropy = ent, outbox = [], sentry = [], journal = []\<rparr>"

definition alice_db :: database where
  "alice_db = \<lparr>users = [alice], auth_tokens = [expired_token, live_token],
                password_resets = [], email_verifications = []\<rparr>"

definition alice_leaving_db :: database where
  "alice_leaving_db = alice_db\<lparr>users := [alice_leaving]\<rparr>"


definition reset_one :: PasswordReset where
  \<comment> \<open>the token whose raw value is \<open>reset\<close>\<close>
  "reset_one =
     \<lparr>pr_ID = 20, pr_UserID = 1, pr_TokenHash = ''7265736574'', pr_ExpiresAt = 4000,
      pr_UsedAt = None, pr_CreatedAt = 400\<rparr>"

definition reset_two :: PasswordReset where
  "reset_two =
     \<lparr>pr_ID = 21, pr_UserID = 1, pr_TokenHash = ''6f74686572'', pr_ExpiresAt = 4500,
      pr_UsedAt = None, pr_CreatedAt = 900\<rparr>"

definition reset_db :: database where
  "reset_db = alice_db\<lparr>password_resets := [reset_one, reset_two]\<rparr>"

definition panicking_fn :: "unit \<Rightarrow> world \<Rightarrow> error option outcome \<times> unit \<times> world" where
  \<comment> \<open>a closure that writes on the transaction and then panics\<close>
  "panicking_fn env w =
     (case UserRepository_UpdatePassword Tx 1 ''x'' w of (_, w1) \<Rightarrow> (Panic ''boom'', env, w1))"

definition bob_overdue :: User where
  "bob_overdue =
     \<lparr>u_ID = 2, u_Name = ''Bob'', u_Email = ''bob@example.com'',
      u_PasswordHash = ''$2a$hunter2'', u_EmailVerifiedAt = None,
      u_DeletionScheduledAt = Some 900, u_CreatedAt = 0, u_UpdatedAt = 10\<rparr>"

definition bob_token :: AuthToken where
  "bob_token =
     \<lparr>at_ID = 9, at_UserID = 2, at_TokenHash = ''626f62'', at_ExpiresAt = 9000,
      at_RevokedAt = None, at_CreatedAt = 100\<rparr>"

definition used_reset :: PasswordReset where
  "used_reset =
     \<lparr>pr_ID = 22, pr_UserID = 1, pr_TokenHash = ''75736564'', pr_ExpiresAt = 4500,
      pr_UsedAt = Some 950, pr_CreatedAt = 900\<rparr>"

definition cleanup_db :: database where
  "cleanup_db =
     \<lparr>users = [alice, bob_overdue], auth_tokens = [expired_token, live_token, bob_token],
      password_resets = [reset_one, used_reset], email_verifications = []\<rparr>"

definition signup_db :: database where
  \<comment> \<open>Alice has just signed up: no token of any kind yet\<close>
  "signup_db = \<lparr>users = [alice], auth_tokens = [], password_resets = [], email_verifications = []\<rparr>"

definition after_default_login :: world where
  \<comment> \<open>Alice is issued a session token under the configuration in which nothing is set\<close>
  "after_default_login =
     snd (SessionService_CreateForUser (Load no_settings) demo_lib 1
            (world_of signup_db [] (replicate 32 0)))"

section \<open>Facts about the scenarios\<close>

lemma calls_ok_world_of [simp]:
  "calls_ok n (world_of d [] ent)"
  by (simp add: calls_ok_def world_of_def nth_fault_def list_all_iff)

lemma world_of_simps [simp]:
  "store (world_of d fs ent) = d"
  "pending (world_of d fs ent) = None"
  "faults (world_of d fs ent) = fs"
  "clock (world_of d fs ent) = 1000"
  "ticks (world_of d fs ent) = [1, 2, 3]"
  "next_uuid (world_of d fs ent) = 100"
  "entropy (world_of d fs ent) = ent"
  "outbox (world_of d fs ent) = []"
  "sentry (world_of d fs ent) = []"
  "journal (world_of d fs ent) = []"
  by (simp_all add: world_of_def)

lemma nth_fault_world_of [simp]:
  "nth_fault (world_of d fs ent) k = (if k < length fs then fs ! k else None)"
  by (simp add: nth_fault_def)

lemma HashToken_demo_tok: "HashToken demo_lib ''tok'' = ''746f6b''"
  by (simp add: HashToken_def demo_lib_def hextable_def)

lemma alice_leaving_found:
  "find (\<lambda>x. u_Email x = ''alice@example.com'') (users (store (world_of alice_leaving_db fs ent))) = Some alice_leaving"
  by (simp add: alice_leaving_db_def alice_leaving_def alice_def alice_db_def)

lemma alice_leaving_password:
  "bcrypt_CompareHashAndPassword demo_lib (u_PasswordHash alice_leaving) ''secret123'' = None"
  by (simp add: demo_lib_def alice_leaving_def alice_def)


section \<open>Facts about the world and the driver\<close>

lemma find_SomeD: "find P xs = Some x \<Longrightarrow> P x \<and> x \<in> set xs"
  by (induction xs) (auto split: if_splits)

lemma find_map_preserving:
  assumes "\<And>x. P (f x) = P x"
  shows "find P (map f xs) = map_option f (find P xs)"
  using assms by (induction xs) auto

lemma eris_Is_refl: "eris_Is e e"
  by (induction e) auto

lemma eris_Is_Wrap: "eris_Is e t \<Longrightarrow> eris_Is (Wrap e m) t"
  by simp

lemma calls_okD: "calls_ok n w \<Longrightarrow> k < n \<Longrightarrow> nth_fault w k = None"
  by (simp add: calls_ok_def list_all_iff)

lemma nth_fault_tl: "nth_fault (w\<lparr>faults := tl (faults w)\<rparr>) k = nth_fault w (Suc k)"
  by (cases "faults w") (simp_all add: nth_fault_def)

lemma tick_frame [simp]:
  "store (tick w) = store w"
  "pending (tick w) = pending w"
  "faults (tick w) = faults w"
  "journal (tick w) = journal w"
  "outbox (tick w) = outbox w"
  "sentry (tick w) = sentry w"
  "entropy (tick w) = entropy w"
  "next_uuid (tick w) = next_uuid w"
  "nth_fault (tick w) k = nth_fault w k"
  "clock (tick w) = clock w + (case ticks w of [] \<Rightarrow> 0 | n # ns \<Rightarrow> int n)"
  "ticks (tick w) = tl (ticks w)"
  by (simp_all add: tick_def nth_fault_def split: list.splits)

lemma time_Now_simps [simp]:
  "fst (time_Now w) = clock w"
  "snd (time_Now w) = tick w"
  by (simp_all add: time_Now_def)

lemma uuid_New_frame [simp]:
  "fst (uuid_New w) = next_uuid w"
  "store (snd (uuid_New w)) = store w"
  "pending (snd (uuid_New w)) = pending w"
  "faults (snd (uuid_New w)) = faults w"
  "journal (snd (uuid_New w)) = journal w"
  "outbox (snd (uuid_New w)) = outbox w"
  "sentry (snd (uuid_New w)) = sentry w"
  "entropy (snd (uuid_New w)) = entropy w"
  "clock (snd (uuid_New w)) = clock w"
  "ticks (snd (uuid_New w)) = ticks w"
  "nth_fault (snd (uuid_New w)) k = nth_fault w k"
  by (simp_all add: uuid_New_def nth_fault_def)

lemma rand_Read_frame [simp]:
  "fst (rand_Read n w) = (if length (entropy w) < n then Inl rand_error else Inr (take n (entropy w)))"
  "store (snd (rand_Read n w)) = store w"
  "pending (snd (rand_Read n w)) = pending w"
  "faults (snd (rand_Read n w)) = faults w"
  "journal (snd (rand_Read n w)) = journal w"
  "outbox (snd (rand_Read n w)) = outbox w"
  "sentry (snd (rand_Read n w)) = sentry w"
  "clock (snd (rand_Read n w)) = clock w"
  "ticks (snd (rand_Read n w)) = ticks w"
  "next_uuid (snd (rand_Read n w)) = next_uuid w"
  "nth_fault (snd (rand_Read n w)) k = nth_fault w k"
  by (simp_all add: rand_Read_def nth_fault_def)

lemma GenerateSecureToken_frame [simp]:
  "fst (GenerateSecureToken n w) =
     (if length (entropy w) < n then Inl (Wrap rand_error ''failed to generate secure token'')
      else Inr (hex_EncodeToString (take n (entropy w))))"
  "store (snd (GenerateSecureToken n w)) = store w"
  "pending (snd (GenerateSecureToken n w)) = pending w"
  "faults (snd (GenerateSecureToken n w)) = faults w"
  "journal (snd (GenerateSecureToken n w)) = journal w"
  "outbox (snd (GenerateSecureToken n w)) = outbox w"
  "sentry (snd (GenerateSecureToken n w)) = sentry w"
  "clock (snd (GenerateSecureToken n w)) = clock w"
  "ticks (snd (GenerateSecureToken n w)) = ticks w"
  "next_uuid (snd (GenerateSecureToken n w)) = next_uuid w"
  "nth_fault (snd (GenerateSecureToken n w)) k = nth_fault w k"
  by (simp_all add: GenerateSecureToken_def case_prod_beta split: sum.splits)

lemma next_fault_frame [simp]:
  "fst (next_fault w) = nth_fault w 0"
  "store (snd (next_fault w)) = store w"
  "pending (snd (next_fault w)) = pending w"
  "journal (snd (next_fault w)) = journal w"
  "outbox (snd (next_fault w)) = outbox w"
  "sentry (snd (next_fault w)) = sentry w"
  "entropy (snd (next_fault w)) = entropy w"
  "clock (snd (next_fault w)) = clock w"
  "ticks (snd (next_fault w)) = ticks w"
  "next_uuid (snd (next_fault w)) = next_uuid w"
  "nth_fault (snd (next_fault w)) k = nth_fault w (Suc k)"
  by (simp_all add: next_fault_def nth_fault_tl)

lemma nth_fault_update [simp]:
  "nth_fault (w\<lparr>journal := j\<rparr>) k = nth_fault w k"
  "nth_fault (w\<lparr>store := d\<rparr>) k = nth_fault w k"
  "nth_fault (w\<lparr>pending := p\<rparr>) k = nth_fault w k"
  "nth_fault (w\<lparr>outbox := ob\<rparr>) k = nth_fault w k"
  "nth_fault (w\<lparr>sentry := sn\<rparr>) k = nth_fault w k"
  by (simp_all add: nth_fault_def)

lemma run_query_fst:
  "fst (run_query c name q w) =
     (case nth_fault w 0 of
        Some err \<Rightarrow> Inl err
      | None \<Rightarrow>
          (case c of
             Pool \<Rightarrow> fst (q (store w))
           | Tx \<Rightarrow> (case pending w of None \<Rightarrow> Inl sql_ErrTxDone | Some p \<Rightarrow> fst (q p))))"
  by (simp add: run_query_def case_prod_beta split: option.splits conn.splits)

lemma run_query_frame [simp]:
  "journal (snd (run_query c name q w)) = journal w @ [Stmt c name]"
  "nth_fault (snd (run_query c name q w)) k = nth_fault w (Suc k)"
  "outbox (snd (run_query c name q w)) = outbox w"
  "sentry (snd (run_query c name q w)) = sentry w"
  "entropy (snd (run_query c name q w)) = entropy w"
  "clock (snd (run_query c name q w)) = clock w"
  "ticks (snd (run_query c name q w)) = ticks w"
  "next_uuid (snd (run_query c name q w)) = next_uuid w"
  by (simp_all add: run_query_def case_prod_beta split: option.splits conn.splits)

lemma run_query_store:
  "store (snd (run_query c name q w)) =
     (if nth_fault w 0 = None \<and> c = Pool then snd (q (store w)) else store w)"
  by (simp add: run_query_def case_prod_beta split: option.splits conn.splits)

lemma run_query_pending:
  "pending (snd (run_query c name q w)) =
     (if nth_fault w 0 = None \<and> c = Tx then map_option (\<lambda>p. snd (q p)) (pending w) else pending w)"
  by (simp add: run_query_def case_prod_beta split: option.splits conn.splits)


section \<open>Transactions\<close>

lemma BeginTx_frame [simp]:
  "fst (BeginTx w) = nth_fault w 0"
  "pending (snd (BeginTx w)) = (if nth_fault w 0 = None then Some (store w) else pending w)"
  "store (snd (BeginTx w)) = store w"
  "journal (snd (BeginTx w)) = journal w @ [TxBegin]"
  "nth_fault (snd (BeginTx w)) k = nth_fault w (Suc k)"
  "outbox (snd (BeginTx w)) = outbox w"
  "sentry (snd (BeginTx w)) = sentry w"
  "clock (snd (BeginTx w)) = clock w"
  "ticks (snd (BeginTx w)) = ticks w"
  "entropy (snd (BeginTx w)) = entropy w"
  "next_uuid (snd (BeginTx w)) = next_uuid w"
  by (simp_all add: BeginTx_def case_prod_beta split: option.splits)

lemma Tx_Commit_frame [simp]:
  "fst (Tx_Commit w) =
     (case nth_fault w 0 of
        Some err \<Rightarrow> Some err
      | None \<Rightarrow> (case pending w of None \<Rightarrow> Some sql_ErrTxDone | Some p \<Rightarrow> None))"
  "store (snd (Tx_Commit w)) =
     (if nth_fault w 0 = None then (case pending w of None \<Rightarrow> store w | Some p \<Rightarrow> p) else store w)"
  "pending (snd (Tx_Commit w)) = None"
  "journal (snd (Tx_Commit w)) = journal w @ [TxCommit]"
  "nth_fault (snd (Tx_Commit w)) k = nth_fault w (Suc k)"
  "outbox (snd (Tx_Commit w)) = outbox w"
  "sentry (snd (Tx_Commit w)) = sentry w"
  "clock (snd (Tx_Commit w)) = clock w"
  "ticks (snd (Tx_Commit w)) = ticks w"
  "entropy (snd (Tx_Commit w)) = entropy w"
  "next_uuid (snd (Tx_Commit w)) = next_uuid w"
  by (simp_all add: Tx_Commit_def case_prod_beta split: option.splits)

lemma Tx_Rollback_frame [simp]:
  "fst (Tx_Rollback w) =
     (case nth_fault w 0 of
        Some err \<Rightarrow> Some err
      | None \<Rightarrow> (case pending w of None \<Rightarrow> Some sql_ErrTxDone | Some p \<Rightarrow> None))"
  "store (snd (Tx_Rollback w)) = store w"
  "pending (snd (Tx_Rollback w)) = None"
  "journal (snd (Tx_Rollback w)) = journal w @ [TxRollback]"
  "nth_fault (snd (Tx_Rollback w)) k = nth_fault w (Suc k)"
  "outbox (snd (Tx_Rollback w)) = outbox w"
  "sentry (snd (Tx_Rollback w)) = sentry w"
  "clock (snd (Tx_Rollback w)) = clock w"
  "ticks (snd (Tx_Rollback w)) = ticks w"
  "entropy (snd (Tx_Rollback w)) = entropy w"
  "next_uuid (snd (Tx_Rollback w)) = next_uuid w"
  by (simp_all add: Tx_Rollback_def case_prod_beta split: option.splits)

text \<open>What \<open>RunInTx\<close> does, read off its three exits.\<close>

lemma RunInTx_begin_fails:
  "nth_fault w 0 = Some err \<Longrightarrow>
   RunInTx fn env w = (Return (Some (Wrap err ''failed to begin transaction'')), env, snd (BeginTx w))"
  by (simp add: RunInTx_def case_prod_beta split: option.splits)

lemma RunInTx_panic:
  assumes "nth_fault w 0 = None" and "fst (fn env (snd (BeginTx w))) = Panic p"
  shows "RunInTx fn env w = (Panic p, snd (fn env (snd (BeginTx w))))"
  using assms by (simp add: RunInTx_def case_prod_beta split: option.splits outcome.splits)

lemma RunInTx_error:
  assumes "nth_fault w 0 = None" and "fst (fn env (snd (BeginTx w))) = Return (Some err)"
  shows "fst (RunInTx fn env w) =
           Return (Some (case fst (Tx_Rollback (snd (snd (fn env (snd (BeginTx w)))))) of
                           None \<Rightarrow> err
                         | Some rbErr \<Rightarrow> Wrap err (''rollback also failed: '' @ Error_msg rbErr)))"
    and "snd (snd (RunInTx fn env w)) = snd (Tx_Rollback (snd (snd (fn env (snd (BeginTx w))))))"
    and "fst (snd (RunInTx fn env w)) = fst (snd (fn env (snd (BeginTx w))))"
  using assms by (simp_all add: RunInTx_def case_prod_beta split: option.splits outcome.splits)

lemma RunInTx_success:
  assumes "nth_fault w 0 = None" and "fst (fn env (snd (BeginTx w))) = Return None"
  shows "fst (RunInTx fn env w) =
           Return (case fst (Tx_Commit (snd (snd (fn env (snd (BeginTx w)))))) of
                     None \<Rightarrow> None
                   | Some err \<Rightarrow> Some (Wrap err ''failed to commit transaction''))"
    and "snd (snd (RunInTx fn env w)) = snd (Tx_Commit (snd (snd (fn env (snd (BeginTx w))))))"
    and "fst (snd (RunInTx fn env w)) = fst (snd (fn env (snd (BeginTx w))))"
  using assms by (simp_all add: RunInTx_def case_prod_beta split: option.splits outcome.splits)

lemma RunInTx_keeps_store_unless_committed:
  assumes "\<And>e v. store (snd (snd (fn e v))) = store v"
    and "fst (RunInTx fn env w) \<noteq> Return None"
  shows "store (snd (snd (RunInTx fn env w))) = store w"
  using assms
  by (auto simp: RunInTx_def case_prod_beta split: option.splits outcome.splits)

lemma RunInTx_error_kept:
  assumes "nth_fault w 0 = None" and "fst (fn env (snd (BeginTx w))) = Return (Some err)"
  shows "\<exists>err'. fst (RunInTx fn env w) = Return (Some err') \<and> eris_Is err' err"
  using RunInTx_error(1) [of w fn env err] assms by (auto simp: eris_Is_refl split: option.splits)


section \<open>Repositories: result and effect of each call\<close>

text \<open>
  For each repository call: its result, read off the fault script and the handle, and
  what it leaves of every part of the world.
\<close>

lemma UserRepository_UpdatePassword_fst:
  "fst (UserRepository_UpdatePassword c userID passwordHash w) =
     (case nth_fault w 0 of
        Some err \<Rightarrow> Some (Wrap err ''failed to update user password'')
      | None \<Rightarrow>
          (case c of
             Pool \<Rightarrow> None
           | Tx \<Rightarrow> (case pending w of None \<Rightarrow> Some (Wrap sql_ErrTxDone ''failed to update user password'') | Some p \<Rightarrow> None)))"
  by (simp add: UserRepository_UpdatePassword_def run_query_fst UpdateUserPassword_def case_prod_beta
      split: option.splits sum.splits conn.splits)

lemma UserRepository_UpdatePassword_frame [simp]:
  "store (snd (UserRepository_UpdatePassword c userID passwordHash w)) =
     (if nth_fault w 0 = None \<and> c = Pool then snd (UpdateUserPassword passwordHash (clock w) userID (store w)) else store w)"
  "pending (snd (UserRepository_UpdatePassword c userID passwordHash w)) =
     (if nth_fault w 0 = None \<and> c = Tx then map_option (\<lambda>p. snd (UpdateUserPassword passwordHash (clock w) userID p)) (pending w)
      else pending w)"
  "journal (snd (UserRepository_UpdatePassword c userID passwordHash w)) = journal w @ [Stmt c ''UpdateUserPassword'']"
  "nth_fault (snd (UserRepository_UpdatePassword c userID passwordHash w)) k = nth_fault w (Suc k)"
  "outbox (snd (UserRepository_UpdatePassword c userID passwordHash w)) = outbox w"
  "sentry (snd (UserRepository_UpdatePassword c userID passwordHash w)) = sentry w"
  "clock (snd (UserRepository_UpdatePassword c userID passwordHash w)) = clock (tick w)"
  "ticks (snd (UserRepository_UpdatePassword c userID passwordHash w)) = ticks (tick w)"
  "entropy (snd (UserRepository_UpdatePassword c userID passwordHash w)) = entropy w"
  "next_uuid (snd (UserRepository_UpdatePassword c userID passwordHash w)) = next_uuid w"
  by (simp_all add: UserRepository_UpdatePassword_def run_query_store run_query_pending case_prod_beta
      split: option.splits sum.splits)

lemma UserRepository_ScheduleDeletion_fst:
  "fst (UserRepository_ScheduleDeletion c userID scheduledAt w) =
     (case nth_fault w 0 of
        Some err \<Rightarrow> Some (Wrap err ''failed to schedule user deletion'')
      | None \<Rightarrow>
          (case c of
             Pool \<Rightarrow> None
           | Tx \<Rightarrow> (case pending w of None \<Rightarrow> Some (Wrap sql_ErrTxDone ''failed to schedule user deletion'') | Some p \<Rightarrow> None)))"
  by (simp add: UserRepository_ScheduleDeletion_def run_query_fst ScheduleUserDeletion_def case_prod_beta
      split: option.splits sum.splits conn.splits)

lemma UserRepository_ScheduleDeletion_frame [simp]:
  "store (snd (UserRepository_ScheduleDeletion c userID scheduledAt w)) =
     (if nth_fault w 0 = None \<and> c = Pool then snd (ScheduleUserDeletion (Some scheduledAt) (clock w) userID (store w)) else store w)"
  "pending (snd (UserRepository_ScheduleDeletion c userID scheduledAt w)) =
     (if nth_fault w 0 = None \<and> c = Tx then map_option (\<lambda>p. snd (ScheduleUserDeletion (Some scheduledAt) (clock w) userID p)) (pending w)
      else pending w)"
  "journal (snd (UserRepository_ScheduleDeletion c userID scheduledAt w)) = journal w @ [Stmt c ''ScheduleUserDeletion'']"
  "nth_fault (snd (UserRepository_ScheduleDeletion c userID scheduledAt w)) k = nth_fault w (Suc k)"
  "outbox (snd (UserRepository_ScheduleDeletion c userID scheduledAt w)) = outbox w"
  "sentry (snd (UserRepository_ScheduleDeletion c userID scheduledAt w)) = sentry w"
  "clock (snd (UserRepository_ScheduleDeletion c userID scheduledAt w)) = clock (tick w)"
  "ticks (snd (UserRepository_ScheduleDeletion c userID scheduledAt w)) = ticks (tick w)"
  "entropy (snd (UserRepository_ScheduleDeletion c userID scheduledAt w)) = entropy w"
  "next_uuid (snd (UserRepository_ScheduleDeletion c userID scheduledAt w)) = next_uuid w"
  by (simp_all add: UserRepository_ScheduleDeletion_def run_query_store run_query_pending case_prod_beta
      split: option.splits sum.splits)

lemma AuthTokenRepository_RevokeAllForUser_fst:
  "fst (AuthTokenRepository_RevokeAllForUser c userID w) =
     (case nth_fault w 0 of
        Some err \<Rightarrow> Some (Wrap err ''failed to revoke all auth tokens for user'')
      | None \<Rightarrow>
          (case c of
             Pool \<Rightarrow> None
           | Tx \<Rightarrow> (case pending w of None \<Rightarrow> Some (Wrap sql_ErrTxDone ''failed to revoke all auth tokens for user'') | Some p \<Rightarrow> None)))"
  by (simp add: AuthTokenRepository_RevokeAllForUser_def run_query_fst RevokeAllAuthTokensForUser_def case_prod_beta
      split: option.splits sum.splits conn.splits)

lemma AuthTokenRepository_RevokeAllForUser_frame [simp]:
  "store (snd (AuthTokenRepository_RevokeAllForUser c userID w)) =
     (if nth_fault w 0 = None \<and> c = Pool then snd (RevokeAllAuthTokensForUser (Some (clock w)) userID (store w)) else store w)"
  "pending (snd (AuthTokenRepository_RevokeAllForUser c userID w)) =
     (if nth_fault w 0 = None \<and> c = Tx then map_option (\<lambda>p. snd (RevokeAllAuthTokensForUser (Some (clock w)) userID p)) (pending w)
      else pending w)"
  "journal (snd (AuthTokenRepository_RevokeAllForUser c userID w)) = journal w @ [Stmt c ''RevokeAllAuthTokensForUser'']"
  "nth_fault (snd (AuthTokenRepository_RevokeAllForUser c userID w)) k = nth_fault w (Suc k)"
  "outbox (snd (AuthTokenRepository_RevokeAllForUser c userID w)) = outbox w"
  "sentry (snd (AuthTokenRepository_RevokeAllForUser c userID w)) = sentry w"
  "clock (snd (AuthTokenRepository_RevokeAllForUser c userID w)) = clock (tick w)"
  "ticks (snd (AuthTokenRepository_RevokeAllForUser c userID w)) = ticks (tick w)"
  "entropy (snd (AuthTokenRepository_RevokeAllForUser c userID w)) = entropy w"
  "next_uuid (snd (AuthTokenRepository_RevokeAllForUser c userID w)) = next_uuid w"
  by (simp_all add: AuthTokenRepository_RevokeAllForUser_def run_query_store run_query_pending case_prod_beta
      split: option.splits sum.splits)

lemma PasswordResetRepository_MarkUsed_fst:
  "fst (PasswordResetRepository_MarkUsed c i w) =
     (case nth_fault w 0 of
        Some err \<Rightarrow> Some (Wrap err ''failed to mark password reset as used'')
      | None \<Rightarrow>
          (case c of
             Pool \<Rightarrow> None
           | Tx \<Rightarrow> (case pending w of None \<Rightarrow> Some (Wrap sql_ErrTxDone ''failed to mark password reset as used'') | Some p \<Rightarrow> None)))"
  by (simp add: PasswordResetRepository_MarkUsed_def run_query_fst MarkPasswordResetUsed_def case_prod_beta
      split: option.splits sum.splits conn.splits)

lemma PasswordResetRepository_MarkUsed_frame [simp]:
  "store (snd (PasswordResetRepository_MarkUsed c i w)) =
     (if nth_fault w 0 = None \<and> c = Pool then snd (MarkPasswordResetUsed (Some (clock w)) i (store w)) else store w)"
  "pending (snd (PasswordResetRepository_MarkUsed c i w)) =
     (if nth_fault w 0 = None \<and> c = Tx then map_option (\<lambda>p. snd (MarkPasswordResetUsed (Some (clock w)) i p)) (pending w)
      else pending w)"
  "journal (snd (PasswordResetRepository_MarkUsed c i w)) = journal w @ [Stmt c ''MarkPasswordResetUsed'']"
  "nth_fault (snd (PasswordResetRepository_MarkUsed c i w)) k = nth_fault w (Suc k)"
  "outbox (snd (PasswordResetRepository_MarkUsed c i w)) = outbox w"
  "sentry (snd (PasswordResetRepository_MarkUsed c i w)) = sentry w"
  "clock (snd (PasswordResetRepository_MarkUsed c i w)) = clock (tick w)"
  "ticks (snd (PasswordResetRepository_MarkUsed c i w)) = ticks (tick w)"
  "entropy (snd (PasswordResetRepository_MarkUsed c i w)) = entropy w"
  "next_uuid (snd (PasswordResetRepository_MarkUsed c i w)) = next_uuid w"
  by (simp_all add: PasswordResetRepository_MarkUsed_def run_query_store run_query_pending case_prod_beta
      split: option.splits sum.splits)

lemma PasswordResetRepository_InvalidateAllForUser_fst:
  "fst (PasswordResetRepository_InvalidateAllForUser c userID w) =
     (case nth_fault w 0 of
        Some err \<Rightarrow> Some (Wrap err ''failed to invalidate all password resets for user'')
      | None \<Rightarrow>
          (case c of
             Pool \<Rightarrow> None
           | Tx \<Rightarrow> (case pending w of None \<Rightarrow> Some (Wrap sql_ErrTxDone ''failed to invalidate all password resets for user'') | Some p \<Rightarrow> None)))"
  by (simp add: PasswordResetRepository_InvalidateAllForUser_def run_query_fst InvalidateAllPasswordResetsForUser_def case_prod_beta
      split: option.splits sum.splits conn.splits)

lemma PasswordResetRepository_InvalidateAllForUser_frame [simp]:
  "store (snd (PasswordResetRepository_InvalidateAllForUser c userID w)) =
     (if nth_fault w 0 = None \<and> c = Pool then snd (InvalidateAllPasswordResetsForUser (Some (clock w)) userID (store w)) else store w)"
  "pending (snd (PasswordResetRepository_InvalidateAllForUser c userID w)) =
     (if nth_fault w 0 = None \<and> c = Tx then map_option (\<lambda>p. snd (InvalidateAllPasswordResetsForUser (Some (clock w)) userID p)) (pending w)
      else pending w)"
  "journal (snd (PasswordResetRepository_InvalidateAllForUser c userID w)) = journal w @ [Stmt c ''InvalidateAllPasswordResetsForUser'']"
  "nth_fault (snd (PasswordResetRepository_InvalidateAllForUser c userID w)) k = nth_fault w (Suc k)"
  "outbox (snd (PasswordResetRepository_InvalidateAllForUser c userID w)) = outbox w"
  "sentry (snd (PasswordResetRepository_InvalidateAllForUser c userID w)) = sentry w"
  "clock (snd (PasswordResetRepository_InvalidateAllForUser c userID w)) = clock (tick w)"
  "ticks (snd (PasswordResetRepository_InvalidateAllForUser c userID w)) = ticks (tick w)"
  "entropy (snd (PasswordResetRepository_InvalidateAllForUser c userID w)) = entropy w"
  "next_uuid (snd (PasswordResetRepository_InvalidateAllForUser c userID w)) = next_uuid w"
  by (simp_all add: PasswordResetRepository_InvalidateAllForUser_def run_query_store run_query_pending case_prod_beta
      split: option.splits sum.splits)

lemma EmailVerificationRepository_InvalidateAllForUser_fst:
  "fst (EmailVerificationRepository_InvalidateAllForUser c userID w) =
     (case nth_fault w 0 of
        Some err \<Rightarrow> Some (Wrap err ''failed to invalidate all email verifications for user'')
      | None \<Rightarrow>
          (case c of
             Pool \<Rightarrow> None
           | Tx \<Rightarrow> (case pending w of None \<Rightarrow> Some (Wrap sql_ErrTxDone ''failed to invalidate all email verifications for user'') | Some p \<Rightarrow> None)))"
  by (simp add: EmailVerificationRepository_InvalidateAllForUser_def run_query_fst InvalidateAllEmailVerificationsForUser_def case_prod_beta
      split: option.splits sum.splits conn.splits)

lemma EmailVerificationRepository_InvalidateAllForUser_frame [simp]:
  "store (snd (EmailVerificationRepository_InvalidateAllForUser c userID w)) =
     (if nth_fault w 0 = None \<and> c = Pool then snd (InvalidateAllEmailVerificationsForUser (Some (clock w)) userID (store w)) else store w)"
  "pending (snd (EmailVerificationRepository_InvalidateAllForUser c userID w)) =
     (if nth_fault w 0 = None \<and> c = Tx then map_option (\<lambda>p. snd (InvalidateAllEmailVerificationsForUser (Some (clock w)) userID p)) (pending w)
      else pending w)"
  "journal (snd (EmailVerificationRepository_InvalidateAllForUser c userID w)) = journal w @ [Stmt c ''InvalidateAllEmailVerificationsForUser'']"
  "nth_fault (snd (EmailVerificationRepository_InvalidateAllForUser c userID w)) k = nth_fault w (Suc k)"
  "outbox (snd (EmailVerificationRepository_InvalidateAllForUser c userID w)) = outbox w"
  "sentry (snd (EmailVerificationRepository_InvalidateAllForUser c userID w)) = sentry w"
  "clock (snd (EmailVerificationRepository_InvalidateAllForUser c userID w)) = clock (tick w)"
  "ticks (snd (EmailVerificationRepository_InvalidateAllForUser c userID w)) = ticks (tick w)"
  "entropy (snd (EmailVerificationRepository_InvalidateAllForUser c userID w)) = entropy w"
  "next_uuid (snd (EmailVerificationRepository_InvalidateAllForUser c userID w)) = next_uuid w"
  by (simp_all add: EmailVerificationRepository_InvalidateAllForUser_def run_query_store run_query_pending case_prod_beta
      split: option.splits sum.splits)

lemma AuthTokenRepository_DeleteExpiredOrRevoked_fst:
  "fst (AuthTokenRepository_DeleteExpiredOrRevoked Pool w) =
     (case nth_fault w 0 of
        Some err \<Rightarrow> Inl (Wrap err ''failed to delete expired or revoked auth tokens'')
      | None \<Rightarrow> fst (DeleteExpiredOrRevokedAuthTokens (clock w) (store w)))"
  by (simp add: AuthTokenRepository_DeleteExpiredOrRevoked_def run_query_fst DeleteExpiredOrRevokedAuthTokens_def Let_def case_prod_beta
      split: option.splits sum.splits)

lemma AuthTokenRepository_DeleteExpiredOrRevoked_isl:
  "isl (fst (AuthTokenRepository_DeleteExpiredOrRevoked Pool w)) = (nth_fault w 0 \<noteq> None)"
  by (cases "nth_fault w 0") (simp_all add: AuthTokenRepository_DeleteExpiredOrRevoked_fst DeleteExpiredOrRevokedAuthTokens_def Let_def)

lemma AuthTokenRepository_DeleteExpiredOrRevoked_frame [simp]:
  "store (snd (AuthTokenRepository_DeleteExpiredOrRevoked Pool w)) =
     (if nth_fault w 0 = None then snd (DeleteExpiredOrRevokedAuthTokens (clock w) (store w)) else store w)"
  "pending (snd (AuthTokenRepository_DeleteExpiredOrRevoked Pool w)) = pending w"
  "journal (snd (AuthTokenRepository_DeleteExpiredOrRevoked Pool w)) = journal w @ [Stmt Pool ''DeleteExpiredOrRevokedAuthTokens'']"
  "nth_fault (snd (AuthTokenRepository_DeleteExpiredOrRevoked Pool w)) k = nth_fault w (Suc k)"
  "outbox (snd (AuthTokenRepository_DeleteExpiredOrRevoked Pool w)) = outbox w"
  "sentry (snd (AuthTokenRepository_DeleteExpiredOrRevoked Pool w)) = sentry w"
  "clock (snd (AuthTokenRepository_DeleteExpiredOrRevoked Pool w)) = clock (tick w)"
  "ticks (snd (AuthTokenRepository_DeleteExpiredOrRevoked Pool w)) = ticks (tick w)"
  by (simp_all add: AuthTokenRepository_DeleteExpiredOrRevoked_def run_query_store run_query_pending case_prod_beta
      split: option.splits sum.splits)

lemma PasswordResetRepository_DeleteExpiredOrUsed_fst:
  "fst (PasswordResetRepository_DeleteExpiredOrUsed Pool w) =
     (case nth_fault w 0 of
        Some err \<Rightarrow> Inl (Wrap err ''failed to delete expired or used password resets'')
      | None \<Rightarrow> fst (DeleteExpiredOrUsedPasswordResets (clock w) (store w)))"
  by (simp add: PasswordResetRepository_DeleteExpiredOrUsed_def run_query_fst DeleteExpiredOrUsedPasswordResets_def Let_def case_prod_beta
      split: option.splits sum.splits)

lemma PasswordResetRepository_DeleteExpiredOrUsed_isl:
  "isl (fst (PasswordResetRepository_DeleteExpiredOrUsed Pool w)) = (nth_fault w 0 \<noteq> None)"
  by (cases "nth_fault w 0") (simp_all add: PasswordResetRepository_DeleteExpiredOrUsed_fst DeleteExpiredOrUsedPasswordResets_def Let_def)

lemma PasswordResetRepository_DeleteExpiredOrUsed_frame [simp]:
  "store (snd (PasswordResetRepository_DeleteExpiredOrUsed Pool w)) =
     (if nth_fault w 0 = None then snd (DeleteExpiredOrUsedPasswordResets (clock w) (store w)) else store w)"
  "pending (snd (PasswordResetRepository_DeleteExpiredOrUsed Pool w)) = pending w"
  "journal (snd (PasswordResetRepository_DeleteExpiredOrUsed Pool w)) = journal w @ [Stmt Pool ''DeleteExpiredOrUsedPasswordResets'']"
  "nth_fault (snd (PasswordResetRepository_DeleteExpiredOrUsed Pool w)) k = nth_fault w (Suc k)"
  "outbox (snd (PasswordResetRepository_DeleteExpiredOrUsed Pool w)) = outbox w"
  "sentry (snd (PasswordResetRepository_DeleteExpiredOrUsed Pool w)) = sentry w"
  "clock (snd (PasswordResetRepository_DeleteExpiredOrUsed Pool w)) = clock (tick w)"
  "ticks (snd (PasswordResetRepository_DeleteExpiredOrUsed Pool w)) = ticks (tick w)"
  by (simp_all add: PasswordResetRepository_DeleteExpiredOrUsed_def run_query_store run_query_pending case_prod_beta
      split: option.splits sum.splits)

lemma EmailVerificationRepository_DeleteExpiredOrUsed_fst:
  "fst (EmailVerificationRepository_DeleteExpiredOrUsed Pool w) =
     (case nth_fault w 0 of
        Some err \<Rightarrow> Inl (Wrap err ''failed to delete expired or used email verifications'')
      | None \<Rightarrow> fst (DeleteExpiredOrUsedEmailVerifications (clock w) (store w)))"
  by (simp add: EmailVerificationRepository_DeleteExpiredOrUsed_def run_query_fst DeleteExpiredOrUsedEmailVerifications_def Let_def case_prod_beta
      split: option.splits sum.splits)

lemma EmailVerificationRepository_DeleteExpiredOrUsed_isl:
  "isl (fst (EmailVerificationRepository_DeleteExpiredOrUsed Pool w)) = (nth_fault w 0 \<noteq> None)"
  by (cases "nth_fault w 0") (simp_all add: EmailVerificationRepository_DeleteExpiredOrUsed_fst DeleteExpiredOrUsedEmailVerifications_def Let_def)

lemma EmailVerificationRepository_DeleteExpiredOrUsed_frame [simp]:
  "store (snd (EmailVerificationRepository_DeleteExpiredOrUsed Pool w)) =
     (if nth_fault w 0 = None then snd (DeleteExpiredOrUsedEmailVerifications (clock w) (store w)) else store w)"
  "pending (snd (EmailVerificationRepository_DeleteExpiredOrUsed Pool w)) = pending w"
  "journal (snd (EmailVerificationRepository_DeleteExpiredOrUsed Pool w)) = journal w @ [Stmt Pool ''DeleteExpiredOrUsedEmailVerifications'']"
  "nth_fault (snd (EmailVerificationRepository_DeleteExpiredOrUsed Pool w)) k = nth_fault w (Suc k)"
  "outbox (snd (EmailVerificationRepository_DeleteExpiredOrUsed Pool w)) = outbox w"
  "sentry (snd (EmailVerificationRepository_DeleteExpiredOrUsed Pool w)) = sentry w"
  "clock (snd (EmailVerificationRepository_DeleteExpiredOrUsed Pool w)) = clock (tick w)"
  "ticks (snd (EmailVerificationRepository_DeleteExpiredOrUsed Pool w)) = ticks (tick w)"
  by (simp_all add: EmailVerificationRepository_DeleteExpiredOrUsed_def run_query_store run_query_pending case_prod_beta
      split: option.splits sum.splits)

lemma UserRepository_DeleteScheduledUsers_fst:
  "fst (UserRepository_DeleteScheduledUsers Pool w) =
     (case nth_fault w 0 of
        Some err \<Rightarrow> Inl (Wrap err ''failed to delete scheduled users'')
      | None \<Rightarrow> fst (DeleteScheduledUsers (clock w) (store w)))"
  by (simp add: UserRepository_DeleteScheduledUsers_def run_query_fst DeleteScheduledUsers_def Let_def case_prod_beta
      split: option.splits sum.splits)

lemma UserRepository_DeleteScheduledUsers_isl:
  "isl (fst (UserRepository_DeleteScheduledUsers Pool w)) = (nth_fault w 0 \<noteq> None)"
  by (cases "nth_fault w 0") (simp_all add: UserRepository_DeleteScheduledUsers_fst DeleteScheduledUsers_def Let_def)

lemma UserRepository_DeleteScheduledUsers_frame [simp]:
  "store (snd (UserRepository_DeleteScheduledUsers Pool w)) =
     (if nth_fault w 0 = None then snd (DeleteScheduledUsers (clock w) (store w)) else store w)"
  "pending (snd (UserRepository_DeleteScheduledUsers Pool w)) = pending w"
  "journal (snd (UserRepository_DeleteScheduledUsers Pool w)) = journal w @ [Stmt Pool ''DeleteScheduledUsers'']"
  "nth_fault (snd (UserRepository_DeleteScheduledUsers Pool w)) k = nth_fault w (Suc k)"
  "outbox (snd (UserRepository_DeleteScheduledUsers Pool w)) = outbox w"
  "sentry (snd (UserRepository_DeleteScheduledUsers Pool w)) = sentry w"
  "clock (snd (UserRepository_DeleteScheduledUsers Pool w)) = clock (tick w)"
  "ticks (snd (UserRepository_DeleteScheduledUsers Pool w)) = ticks (tick w)"
  by (simp_all add: UserRepository_DeleteScheduledUsers_def run_query_store run_query_pending case_prod_beta
      split: option.splits sum.splits)

lemma Get_queries_snd [simp]:
  "snd (GetUserByID i d) = d"
  "snd (GetUserByEmail e d) = d"
  "snd (GetAuthTokenByHash h d) = d"
  "snd (GetPasswordResetByTokenHash h d) = d"
  by (simp_all add: GetUserByID_def GetUserByEmail_def GetAuthTokenByHash_def
      GetPasswordResetByTokenHash_def split: option.splits)

lemma UserRepository_GetByID_fst:
  "fst (UserRepository_GetByID c i w) =
     (case nth_fault w 0 of
        Some err \<Rightarrow> Inl (Wrap err ''failed to get user by id'')
      | None \<Rightarrow>
          (case c of
             Pool \<Rightarrow>
               (case find (\<lambda>u. u_ID u = i) (users (store w)) of
                  None \<Rightarrow> Inl (Wrap sql_ErrNoRows ''failed to get user by id'')
                | Some u \<Rightarrow> Inr u)
           | Tx \<Rightarrow>
               (case pending w of
                  None \<Rightarrow> Inl (Wrap sql_ErrTxDone ''failed to get user by id'')
                | Some p \<Rightarrow>
                    (case find (\<lambda>u. u_ID u = i) (users p) of
                       None \<Rightarrow> Inl (Wrap sql_ErrNoRows ''failed to get user by id'')
                     | Some u \<Rightarrow> Inr u))))"
  by (simp add: UserRepository_GetByID_def run_query_fst GetUserByID_def case_prod_beta
      split: option.splits sum.splits conn.splits)

lemma UserRepository_GetByID_frame [simp]:
  "store (snd (UserRepository_GetByID c i w)) = store w"
  "pending (snd (UserRepository_GetByID c i w)) = pending w"
  "journal (snd (UserRepository_GetByID c i w)) = journal w @ [Stmt c ''GetUserByID'']"
  "nth_fault (snd (UserRepository_GetByID c i w)) k = nth_fault w (Suc k)"
  "outbox (snd (UserRepository_GetByID c i w)) = outbox w"
  "sentry (snd (UserRepository_GetByID c i w)) = sentry w"
  "clock (snd (UserRepository_GetByID c i w)) = clock w"
  "ticks (snd (UserRepository_GetByID c i w)) = ticks w"
  "entropy (snd (UserRepository_GetByID c i w)) = entropy w"
  "next_uuid (snd (UserRepository_GetByID c i w)) = next_uuid w"
  by (simp_all add: UserRepository_GetByID_def run_query_store run_query_pending
      case_prod_beta option.map_ident split: option.splits sum.splits conn.splits)

lemma PasswordResetRepository_GetByTokenHash_fst:
  "fst (PasswordResetRepository_GetByTokenHash Pool h w) =
     (case nth_fault w 0 of
        Some err \<Rightarrow> Inl (Wrap err ''failed to get password reset by token hash'')
      | None \<Rightarrow>
          (case find (\<lambda>r. pr_TokenHash r = h) (password_resets (store w)) of
             None \<Rightarrow> Inl (Wrap sql_ErrNoRows ''failed to get password reset by token hash'')
           | Some r \<Rightarrow> Inr r))"
  by (simp add: PasswordResetRepository_GetByTokenHash_def run_query_fst GetPasswordResetByTokenHash_def
      case_prod_beta split: option.splits sum.splits)

lemma PasswordResetRepository_GetByTokenHash_frame [simp]:
  "store (snd (PasswordResetRepository_GetByTokenHash Pool h w)) = store w"
  "pending (snd (PasswordResetRepository_GetByTokenHash Pool h w)) = pending w"
  "journal (snd (PasswordResetRepository_GetByTokenHash Pool h w)) =
     journal w @ [Stmt Pool ''GetPasswordResetByTokenHash'']"
  "nth_fault (snd (PasswordResetRepository_GetByTokenHash Pool h w)) k = nth_fault w (Suc k)"
  "outbox (snd (PasswordResetRepository_GetByTokenHash Pool h w)) = outbox w"
  "sentry (snd (PasswordResetRepository_GetByTokenHash Pool h w)) = sentry w"
  "clock (snd (PasswordResetRepository_GetByTokenHash Pool h w)) = clock w"
  "ticks (snd (PasswordResetRepository_GetByTokenHash Pool h w)) = ticks w"
  by (simp_all add: PasswordResetRepository_GetByTokenHash_def run_query_store run_query_pending
      case_prod_beta split: option.splits sum.splits)

lemma PasswordResetRepository_Create_fst:
  "fst (PasswordResetRepository_Create Pool userID h expiresAt w) =
     (case nth_fault w 0 of
        Some err \<Rightarrow> Inl (Wrap err ''failed to create password reset'')
      | None \<Rightarrow> Inr \<lparr>pr_ID = next_uuid w, pr_UserID = userID, pr_TokenHash = h, pr_ExpiresAt = expiresAt, pr_UsedAt = None, pr_CreatedAt = clock w\<rparr>)"
  by (simp add: PasswordResetRepository_Create_def run_query_fst CreatePasswordReset_def case_prod_beta Let_def
      split: option.splits sum.splits)

lemma PasswordResetRepository_Create_frame [simp]:
  "store (snd (PasswordResetRepository_Create Pool userID h expiresAt w)) =
     (if nth_fault w 0 = None
      then (store w)\<lparr>password_resets := password_resets (store w) @ [\<lparr>pr_ID = next_uuid w, pr_UserID = userID, pr_TokenHash = h, pr_ExpiresAt = expiresAt, pr_UsedAt = None, pr_CreatedAt = clock w\<rparr>]\<rparr>
      else store w)"
  "pending (snd (PasswordResetRepository_Create Pool userID h expiresAt w)) = pending w"
  "journal (snd (PasswordResetRepository_Create Pool userID h expiresAt w)) = journal w @ [Stmt Pool ''CreatePasswordReset'']"
  "nth_fault (snd (PasswordResetRepository_Create Pool userID h expiresAt w)) k = nth_fault w (Suc k)"
  "outbox (snd (PasswordResetRepository_Create Pool userID h expiresAt w)) = outbox w"
  "sentry (snd (PasswordResetRepository_Create Pool userID h expiresAt w)) = sentry w"
  by (simp_all add: PasswordResetRepository_Create_def run_query_store run_query_pending CreatePasswordReset_def
      case_prod_beta Let_def split: option.splits sum.splits)

lemma EmailVerificationRepository_Create_fst:
  "fst (EmailVerificationRepository_Create Pool userID h expiresAt w) =
     (case nth_fault w 0 of
        Some err \<Rightarrow> Inl (Wrap err ''failed to create email verification'')
      | None \<Rightarrow> Inr \<lparr>ev_ID = next_uuid w, ev_UserID = userID, ev_TokenHash = h, ev_ExpiresAt = expiresAt, ev_UsedAt = None, ev_CreatedAt = clock w\<rparr>)"
  by (simp add: EmailVerificationRepository_Create_def run_query_fst CreateEmailVerification_def case_prod_beta Let_def
      split: option.splits sum.splits)

lemma EmailVerificationRepository_Create_frame [simp]:
  "store (snd (EmailVerificationRepository_Create Pool userID h expiresAt w)) =
     (if nth_fault w 0 = None
      then (store w)\<lparr>email_verifications := email_verifications (store w) @ [\<lparr>ev_ID = next_uuid w, ev_UserID = userID, ev_TokenHash = h, ev_ExpiresAt = expiresAt, ev_UsedAt = None, ev_CreatedAt = clock w\<rparr>]\<rparr>
      else store w)"
  "pending (snd (EmailVerificationRepository_Create Pool userID h expiresAt w)) = pending w"
  "journal (snd (EmailVerificationRepository_Create Pool userID h expiresAt w)) = journal w @ [Stmt Pool ''CreateEmailVerification'']"
  "nth_fault (snd (EmailVerificationRepository_Create Pool userID h expiresAt w)) k = nth_fault w (Suc k)"
  "outbox (snd (EmailVerificationRepository_Create Pool userID h expiresAt w)) = outbox w"
  "sentry (snd (EmailVerificationRepository_Create Pool userID h expiresAt w)) = sentry w"
  by (simp_all add: EmailVerificationRepository_Create_def run_query_store run_query_pending CreateEmailVerification_def
      case_prod_beta Let_def split: option.splits sum.splits)

lemma EnqueueCtx_frame [simp]:
  "store (EnqueueCtx ty payload opts w) = store w"
  "pending (EnqueueCtx ty payload opts w) = pending w"
  "journal (EnqueueCtx ty payload opts w) = journal w @ [Enqueue ty]"
  "nth_fault (EnqueueCtx ty payload opts w) k = nth_fault w (Suc k)"
  "outbox (EnqueueCtx ty payload opts w) =
     (if nth_fault w 0 = None
      then outbox w @ [\<lparr>t_Type = ty, t_JobID = next_uuid w, t_Payload = payload,
                         t_MaxRetry = fst opts, t_Timeout = fst (snd opts), t_Retention = snd (snd opts)\<rparr>]
      else outbox w)"
  by (simp_all add: EnqueueCtx_def case_prod_beta split: option.splits)

section \<open>Session Service\<close>

lemma GetByEmail_fst:
  "fst (UserRepository_GetByEmail Pool email w) =
     (case nth_fault w 0 of
        Some err \<Rightarrow> Inl (Wrap err ''failed to get user by email'')
      | None \<Rightarrow>
          (case find (\<lambda>u. u_Email u = email) (users (store w)) of
             None \<Rightarrow> Inl (Wrap sql_ErrNoRows ''failed to get user by email'')
           | Some u \<Rightarrow> Inr u))"
  by (simp add: UserRepository_GetByEmail_def run_query_fst GetUserByEmail_def case_prod_beta
      split: option.splits sum.splits)

lemma GetByEmail_frame [simp]:
  "store (snd (UserRepository_GetByEmail Pool email w)) = store w"
  "pending (snd (UserRepository_GetByEmail Pool email w)) = pending w"
  "journal (snd (UserRepository_GetByEmail Pool email w)) = journal w @ [Stmt Pool ''GetUserByEmail'']"
  "nth_fault (snd (UserRepository_GetByEmail Pool email w)) k = nth_fault w (Suc k)"
  "outbox (snd (UserRepository_GetByEmail Pool email w)) = outbox w"
  "entropy (snd (UserRepository_GetByEmail Pool email w)) = entropy w"
  "clock (snd (UserRepository_GetByEmail Pool email w)) = clock w"
  by (simp_all add: UserRepository_GetByEmail_def run_query_store run_query_pending GetUserByEmail_def
      case_prod_beta split: option.splits sum.splits)

lemma CancelDeletion_Pool_fst:
  "fst (UserRepository_CancelDeletion Pool i w) =
     (case nth_fault w 0 of
        Some err \<Rightarrow> Some (Wrap err ''failed to cancel user deletion'')
      | None \<Rightarrow> None)"
  by (simp add: UserRepository_CancelDeletion_def run_query_fst CancelUserDeletion_def case_prod_beta
      split: option.splits sum.splits)

lemma CancelDeletion_Pool_frame [simp]:
  "store (snd (UserRepository_CancelDeletion Pool i w)) =
     (if nth_fault w 0 = None then snd (CancelUserDeletion (clock w) i (store w)) else store w)"
  "pending (snd (UserRepository_CancelDeletion Pool i w)) = pending w"
  "journal (snd (UserRepository_CancelDeletion Pool i w)) = journal w @ [Stmt Pool ''CancelUserDeletion'']"
  "nth_fault (snd (UserRepository_CancelDeletion Pool i w)) k = nth_fault w (Suc k)"
  "outbox (snd (UserRepository_CancelDeletion Pool i w)) = outbox w"
  "entropy (snd (UserRepository_CancelDeletion Pool i w)) = entropy w"
  by (simp_all add: UserRepository_CancelDeletion_def run_query_store run_query_pending
      case_prod_beta split: option.splits sum.splits)

lemma AuthToken_Create_Pool_fst:
  "fst (AuthTokenRepository_Create Pool userID h expiresAt w) =
     (case nth_fault w 0 of
        Some err \<Rightarrow> Inl (Wrap err ''failed to create auth token'')
      | None \<Rightarrow> Inr \<lparr>at_ID = next_uuid w, at_UserID = userID, at_TokenHash = h,
                      at_ExpiresAt = expiresAt, at_RevokedAt = None, at_CreatedAt = clock w\<rparr>)"
  by (simp add: AuthTokenRepository_Create_def run_query_fst CreateAuthToken_def case_prod_beta Let_def
      split: option.splits sum.splits)

lemma AuthToken_Create_Pool_frame [simp]:
  "store (snd (AuthTokenRepository_Create Pool userID h expiresAt w)) =
     (if nth_fault w 0 = None
      then (store w)\<lparr>auth_tokens := auth_tokens (store w) @
              [\<lparr>at_ID = next_uuid w, at_UserID = userID, at_TokenHash = h,
                at_ExpiresAt = expiresAt, at_RevokedAt = None, at_CreatedAt = clock w\<rparr>]\<rparr>
      else store w)"
  "pending (snd (AuthTokenRepository_Create Pool userID h expiresAt w)) = pending w"
  "journal (snd (AuthTokenRepository_Create Pool userID h expiresAt w)) = journal w @ [Stmt Pool ''CreateAuthToken'']"
  "nth_fault (snd (AuthTokenRepository_Create Pool userID h expiresAt w)) k = nth_fault w (Suc k)"
  "outbox (snd (AuthTokenRepository_Create Pool userID h expiresAt w)) = outbox w"
  by (simp_all add: AuthTokenRepository_Create_def run_query_store run_query_pending CreateAuthToken_def
      case_prod_beta Let_def split: option.splits sum.splits)

lemma generateToken_fst:
  "fst (generateToken cfg lib userID w) =
     (if length (entropy w) < 32
      then Inl (Wrap (Wrap rand_error ''failed to generate secure token'') ''failed to generate secure token'')
      else (case nth_fault w 0 of
              Some err \<Rightarrow> Inl (Wrap (Wrap err ''failed to create auth token'') ''failed to create auth token'')
            | None \<Rightarrow> Inr (hex_EncodeToString (take 32 (entropy w)))))"
  by (simp add: generateToken_def AuthToken_Create_Pool_fst case_prod_beta Let_def
      split: option.splits sum.splits)

lemma generateToken_frame [simp]:
  "store (snd (generateToken cfg lib userID w)) =
     (if length (entropy w) < 32 \<or> nth_fault w 0 \<noteq> None then store w
      else (store w)\<lparr>auth_tokens := auth_tokens (store w) @
              [\<lparr>at_ID = next_uuid w, at_UserID = userID,
                at_TokenHash = HashToken lib (hex_EncodeToString (take 32 (entropy w))),
                at_ExpiresAt = Time_Add (clock w)
                   (if AuthTokenTTL (Auth cfg) = 0 then DefaultAuthTokenTTL else AuthTokenTTL (Auth cfg)),
                at_RevokedAt = None,
                at_CreatedAt = clock (tick w)\<rparr>]\<rparr>)"
  "pending (snd (generateToken cfg lib userID w)) = pending w"
  "journal (snd (generateToken cfg lib userID w)) =
     journal w @ (if length (entropy w) < 32 then [] else [Stmt Pool ''CreateAuthToken''])"
  "outbox (snd (generateToken cfg lib userID w)) = outbox w"
  by (simp_all add: generateToken_def AuthToken_Create_Pool_fst case_prod_beta Let_def
      split: option.splits sum.splits)

lemma Create_no_user:
  assumes "calls_ok 1 w"
    and "\<forall>u \<in> set (users (store w)). u_Email u \<noteq> email"
  shows "fst (SessionService_Create cfg lib email password w) = Inl ErrInvalidCredentials"
proof -
  from assms(1) have "nth_fault w 0 = None" by (rule calls_okD) simp
  moreover from assms(2) have "find (\<lambda>u. u_Email u = email) (users (store w)) = None"
    by (simp add: find_None_iff)
  ultimately show ?thesis
    by (simp add: SessionService_Create_def GetByEmail_fst case_prod_beta split: sum.splits)
qed

lemma Create_wrong_password:
  assumes "calls_ok 1 w"
    and "find (\<lambda>u. u_Email u = email) (users (store w)) = Some u"
    and "bcrypt_CompareHashAndPassword lib (u_PasswordHash u) password \<noteq> None"
  shows "fst (SessionService_Create cfg lib email password w) = Inl ErrInvalidCredentials"
proof -
  from assms(1) have "nth_fault w 0 = None" by (rule calls_okD) simp
  with assms(2,3) show ?thesis
    by (simp add: SessionService_Create_def GetByEmail_fst case_prod_beta split: sum.splits)
qed


lemma GetByHash_fst:
  "fst (AuthTokenRepository_GetByHash Pool h w) =
     (case nth_fault w 0 of
        Some err \<Rightarrow> Inl (Wrap err ''failed to get auth token by hash'')
      | None \<Rightarrow>
          (case find (\<lambda>t. at_TokenHash t = h) (auth_tokens (store w)) of
             None \<Rightarrow> Inl (Wrap sql_ErrNoRows ''failed to get auth token by hash'')
           | Some t \<Rightarrow> Inr t))"
  by (simp add: AuthTokenRepository_GetByHash_def run_query_fst GetAuthTokenByHash_def case_prod_beta
      split: option.splits sum.splits)

lemma GetByHash_frame [simp]:
  "store (snd (AuthTokenRepository_GetByHash Pool h w)) = store w"
  "clock (snd (AuthTokenRepository_GetByHash Pool h w)) = clock w"
  by (simp_all add: AuthTokenRepository_GetByHash_def run_query_store GetAuthTokenByHash_def
      case_prod_beta split: option.splits sum.splits)

lemma ValidateToken_found:
  assumes "calls_ok 1 w"
    and "find (\<lambda>t. at_TokenHash t = HashToken lib token) (auth_tokens (store w)) = Some t"
  shows "fst (SessionService_ValidateToken lib token w) =
           (if at_RevokedAt t \<noteq> None then Inl ErrTokenRevoked
            else if at_ExpiresAt t < clock w then Inl ErrTokenExpired
            else Inr t)"
proof -
  from assms(1) have "nth_fault w 0 = None" by (rule calls_okD) simp
  with assms(2) show ?thesis
    by (simp add: SessionService_ValidateToken_def GetByHash_fst Let_def case_prod_beta Time_After_def)
qed

lemma ValidateToken_missing:
  assumes "calls_ok 1 w"
    and "find (\<lambda>t. at_TokenHash t = HashToken lib token) (auth_tokens (store w)) = None"
  shows "fst (SessionService_ValidateToken lib token w) = Inl ErrInvalidToken"
proof -
  from assms(1) have "nth_fault w 0 = None" by (rule calls_okD) simp
  with assms(2) show ?thesis
    by (simp add: SessionService_ValidateToken_def GetByHash_fst Let_def case_prod_beta)
qed

lemma token_errors_distinct:
  "ErrInvalidToken \<noteq> ErrTokenRevoked" "ErrInvalidToken \<noteq> ErrTokenExpired"
  "ErrTokenRevoked \<noteq> ErrTokenExpired"
  by (simp_all add: ErrInvalidToken_def ErrTokenRevoked_def ErrTokenExpired_def)

text \<open>
  Claim C3.  \<open>ValidateToken\<close> hashes the raw token and looks the hash up.  When the
  lookup is answered by the store (the driver reports no failure of its own): the
  result is \<open>InvalidToken\<close> exactly when no auth token has that hash; \<open>TokenRevoked\<close>
  exactly when the stored token has \<open>revoked_at\<close> set; \<open>TokenExpired\<close> exactly when the
  stored token is not revoked and its \<open>expires_at\<close> is before the current time; and
  otherwise the stored token record is returned.  So an existing, unrevoked token whose
  expiry is in the past gives \<open>TokenExpired\<close> and never \<open>InvalidToken\<close>.
\<close>

theorem C3_validate_token:
  assumes "calls_ok 1 w"
  shows "(fst (SessionService_ValidateToken lib token w) = Inl ErrInvalidToken
            \<longleftrightarrow> (\<forall>t \<in> set (auth_tokens (store w)). at_TokenHash t \<noteq> HashToken lib token))
       \<and> (fst (SessionService_ValidateToken lib token w) = Inl ErrTokenRevoked
            \<longleftrightarrow> (\<exists>t. find (\<lambda>t. at_TokenHash t = HashToken lib token) (auth_tokens (store w)) = Some t
                     \<and> at_RevokedAt t \<noteq> None))
       \<and> (fst (SessionService_ValidateToken lib token w) = Inl ErrTokenExpired
            \<longleftrightarrow> (\<exists>t. find (\<lambda>t. at_TokenHash t = HashToken lib token) (auth_tokens (store w)) = Some t
                     \<and> at_RevokedAt t = None \<and> at_ExpiresAt t < clock w))
       \<and> (\<forall>t. find (\<lambda>t. at_TokenHash t = HashToken lib token) (auth_tokens (store w)) = Some t
                     \<and> at_RevokedAt t = None \<and> \<not> at_ExpiresAt t < clock w
            \<longrightarrow> fst (SessionService_ValidateToken lib token w) = Inr t)"
proof (cases "find (\<lambda>t. at_TokenHash t = HashToken lib token) (auth_tokens (store w))")
  case None
  then have "\<forall>t \<in> set (auth_tokens (store w)). at_TokenHash t \<noteq> HashToken lib token"
    by (simp add: find_None_iff)
  with None ValidateToken_missing [OF assms None] show ?thesis
    by (simp add: token_errors_distinct)
next
  case (Some t)
  from find_SomeD [OF Some]
  have "\<not> (\<forall>t \<in> set (auth_tokens (store w)). at_TokenHash t \<noteq> HashToken lib token)"
    by blast
  with Some ValidateToken_found [OF assms Some] show ?thesis
    using token_errors_distinct by (auto split: if_splits)
qed

text \<open>
  Claim C5.  When the lookup is answered by the store, a login with an email that no
  user has and a login with the email of a user whose stored hash does not match the
  password both fail with \<open>InvalidCredentials\<close>: the two results are the same value.
\<close>

theorem C5_login_failures_same_error:
  assumes "calls_ok 1 w" and "calls_ok 1 w'"
    and absent: "\<forall>x \<in> set (users (store w)). u_Email x \<noteq> email"
    and present: "find (\<lambda>x. u_Email x = email') (users (store w')) = Some u"
    and mismatch: "bcrypt_CompareHashAndPassword lib (u_PasswordHash u) password' \<noteq> None"
  shows "fst (SessionService_Create cfg lib email password w) = Inl ErrInvalidCredentials
       \<and> fst (SessionService_Create cfg lib email' password' w') = Inl ErrInvalidCredentials
       \<and> fst (SessionService_Create cfg lib email password w)
           = fst (SessionService_Create cfg lib email' password' w')"
  using Create_no_user [OF assms(1) absent] Create_wrong_password [OF assms(2) present mismatch]
  by simp

lemma Create_success_inv:
  assumes "fst (SessionService_Create cfg lib email password w) = Inr (u', token)"
    and "find (\<lambda>x. u_Email x = email) (users (store w)) = Some u"
  shows "nth_fault w 0 = None"
    and "bcrypt_CompareHashAndPassword lib (u_PasswordHash u) password = None"
    and "u_DeletionScheduledAt u \<noteq> None \<Longrightarrow> nth_fault w (Suc 0) = None"
    and "u_DeletionScheduledAt u \<noteq> None \<Longrightarrow> u' = u\<lparr>u_DeletionScheduledAt := None\<rparr>"
  using assms
  by (auto simp: SessionService_Create_def GetByEmail_fst CancelDeletion_Pool_fst generateToken_fst
      case_prod_beta split: option.splits sum.splits if_splits)

lemma CancelUserDeletion_users:
  "users (snd (CancelUserDeletion t i d)) =
     map (\<lambda>x. if u_ID x = i then x\<lparr>u_DeletionScheduledAt := None, u_UpdatedAt := t\<rparr> else x) (users d)"
  by (simp add: CancelUserDeletion_def)

lemma Create_store_users:
  assumes "find (\<lambda>x. u_Email x = email) (users (store w)) = Some u"
    and "nth_fault w 0 = None"
    and "bcrypt_CompareHashAndPassword lib (u_PasswordHash u) password = None"
    and "u_DeletionScheduledAt u \<noteq> None"
    and "nth_fault w (Suc 0) = None"
  shows "users (store (snd (SessionService_Create cfg lib email password w))) =
           map (\<lambda>x. if u_ID x = u_ID u
                     then x\<lparr>u_DeletionScheduledAt := None, u_UpdatedAt := clock w\<rparr> else x)
               (users (store w))"
  using assms
  by (simp add: SessionService_Create_def GetByEmail_fst CancelDeletion_Pool_fst
      case_prod_beta CancelUserDeletion_users split: option.splits sum.splits)

text \<open>
  Claim C7.  For a user whose \<open>deletion_scheduled_at\<close> is set, a login that succeeds
  returns the user record with no scheduled deletion, and in the store every row of
  that user has \<open>deletion_scheduled_at\<close> cleared; reading the user again by email shows it.
\<close>

theorem C7_login_cancels_deletion:
  assumes found: "find (\<lambda>x. u_Email x = email) (users (store w)) = Some u"
    and scheduled: "u_DeletionScheduledAt u \<noteq> None"
    and success: "fst (SessionService_Create cfg lib email password w) = Inr (u', token)"
  shows "u_DeletionScheduledAt u' = None
       \<and> u' = u\<lparr>u_DeletionScheduledAt := None\<rparr>
       \<and> (\<forall>x \<in> set (users (store (snd (SessionService_Create cfg lib email password w)))).
             u_ID x = u_ID u \<longrightarrow> u_DeletionScheduledAt x = None)
       \<and> (\<exists>x. find (\<lambda>x. u_Email x = email)
                  (users (store (snd (SessionService_Create cfg lib email password w)))) = Some x
              \<and> u_ID x = u_ID u \<and> u_DeletionScheduledAt x = None)"
proof -
  note inv = Create_success_inv [OF success found]
  have users': "users (store (snd (SessionService_Create cfg lib email password w))) =
           map (\<lambda>x. if u_ID x = u_ID u
                     then x\<lparr>u_DeletionScheduledAt := None, u_UpdatedAt := clock w\<rparr> else x)
               (users (store w))"
    by (rule Create_store_users [OF found inv(1) inv(2) scheduled inv(3) [OF scheduled]])
  have "u' = u\<lparr>u_DeletionScheduledAt := None\<rparr>" by (rule inv(4) [OF scheduled])
  moreover have "\<forall>x \<in> set (users (store (snd (SessionService_Create cfg lib email password w)))).
             u_ID x = u_ID u \<longrightarrow> u_DeletionScheduledAt x = None"
    unfolding users' by (auto split: if_splits)
  moreover have "find (\<lambda>x. u_Email x = email)
                  (users (store (snd (SessionService_Create cfg lib email password w))))
               = Some (u\<lparr>u_DeletionScheduledAt := None, u_UpdatedAt := clock w\<rparr>)"
    unfolding users' by (subst find_map_preserving) (simp_all add: found)
  ultimately show ?thesis by simp
qed

text \<open>
  Claim C10.  Login of a user with a pending deletion and the right password, where the
  lookup and the cancellation go through and then the token cannot be generated (the
  entropy source fails) or cannot be stored (the insert fails): \<open>Create\<close> returns an
  error, yet the store has the user's \<open>deletion_scheduled_at\<close> cleared.  The cancellation
  is sent on the pool handle, not on a transaction, before the insert of the token, no
  transaction is begun, and no auth token is stored.
\<close>

theorem C10_cancellation_not_rolled_back:
  assumes found: "find (\<lambda>x. u_Email x = email) (users (store w)) = Some u"
    and scheduled: "u_DeletionScheduledAt u \<noteq> None"
    and password_ok: "bcrypt_CompareHashAndPassword lib (u_PasswordHash u) password = None"
    and ok: "calls_ok 2 w"
    and token_fails: "length (entropy w) < 32 \<or> nth_fault w 2 \<noteq> None"
  shows "(\<exists>err. fst (SessionService_Create cfg lib email password w) = Inl (Wrap err ''failed to generate token''))
       \<and> (\<forall>x \<in> set (users (store (snd (SessionService_Create cfg lib email password w)))).
             u_ID x = u_ID u \<longrightarrow> u_DeletionScheduledAt x = None)
       \<and> (\<exists>x. find (\<lambda>x. u_Email x = email)
                  (users (store (snd (SessionService_Create cfg lib email password w)))) = Some x
              \<and> u_ID x = u_ID u \<and> u_DeletionScheduledAt x = None)
       \<and> auth_tokens (store (snd (SessionService_Create cfg lib email password w))) = auth_tokens (store w)
       \<and> journal (snd (SessionService_Create cfg lib email password w)) =
           journal w @ [Stmt Pool ''GetUserByEmail'', Stmt Pool ''CancelUserDeletion'']
             @ (if length (entropy w) < 32 then [] else [Stmt Pool ''CreateAuthToken''])
       \<and> pending (snd (SessionService_Create cfg lib email password w)) = pending w"
proof -
  from ok have f0: "nth_fault w 0 = None" by (rule calls_okD) simp
  from ok have f1: "nth_fault w (Suc 0) = None" by (rule calls_okD) simp
  have users': "users (store (snd (SessionService_Create cfg lib email password w))) =
           map (\<lambda>x. if u_ID x = u_ID u
                     then x\<lparr>u_DeletionScheduledAt := None, u_UpdatedAt := clock w\<rparr> else x)
               (users (store w))"
    by (rule Create_store_users [OF found f0 password_ok scheduled f1])
  have err: "\<exists>err. fst (SessionService_Create cfg lib email password w) = Inl (Wrap err ''failed to generate token'')"
    using found scheduled password_ok f0 f1 token_fails
    by (auto simp: SessionService_Create_def GetByEmail_fst CancelDeletion_Pool_fst generateToken_fst
        case_prod_beta numeral_2_eq_2 split: option.splits sum.splits)
  have cleared: "\<forall>x \<in> set (users (store (snd (SessionService_Create cfg lib email password w)))).
             u_ID x = u_ID u \<longrightarrow> u_DeletionScheduledAt x = None"
    unfolding users' by (auto split: if_splits)
  have reread: "find (\<lambda>x. u_Email x = email)
                  (users (store (snd (SessionService_Create cfg lib email password w))))
               = Some (u\<lparr>u_DeletionScheduledAt := None, u_UpdatedAt := clock w\<rparr>)"
    unfolding users' by (subst find_map_preserving) (simp_all add: found)
  have toks: "auth_tokens (store (snd (SessionService_Create cfg lib email password w))) = auth_tokens (store w)"
    using found scheduled password_ok f0 f1 token_fails
    by (auto simp: SessionService_Create_def GetByEmail_fst CancelDeletion_Pool_fst generateToken_fst
        case_prod_beta numeral_2_eq_2 CancelUserDeletion_def split: option.splits sum.splits)
  have jr: "journal (snd (SessionService_Create cfg lib email password w)) =
           journal w @ [Stmt Pool ''GetUserByEmail'', Stmt Pool ''CancelUserDeletion'']
             @ (if length (entropy w) < 32 then [] else [Stmt Pool ''CreateAuthToken''])"
    using found scheduled password_ok f0 f1
    by (simp add: SessionService_Create_def GetByEmail_fst CancelDeletion_Pool_fst
        case_prod_beta split: option.splits sum.splits)
  have pd: "pending (snd (SessionService_Create cfg lib email password w)) = pending w"
    using found scheduled password_ok f0 f1
    by (simp add: SessionService_Create_def GetByEmail_fst CancelDeletion_Pool_fst
        case_prod_beta split: option.splits sum.splits)
  from err cleared reread toks jr pd show ?thesis by simp
qed

text \<open>The expired token of the scenario validates as \<open>TokenExpired\<close>.\<close>

theorem C3_validate_token_witness:
  "calls_ok 1 (world_of alice_db [] [])
   \<and> fst (SessionService_ValidateToken demo_lib ''tok'' (world_of alice_db [] [])) = Inl ErrTokenExpired
   \<and> fst (SessionService_ValidateToken demo_lib ''tok'' (world_of alice_db [] [])) \<noteq> Inl ErrInvalidToken"
proof -
  have h: "calls_ok 1 (world_of alice_db [] [])" by simp
  have f: "find (\<lambda>t. at_TokenHash t = HashToken demo_lib ''tok'')
             (auth_tokens (store (world_of alice_db [] []))) = Some expired_token"
    by (simp add: HashToken_demo_tok alice_db_def expired_token_def)
  have p: "at_RevokedAt expired_token = None \<and> at_ExpiresAt expired_token < clock (world_of alice_db [] [])"
    by (simp add: expired_token_def)
  have q: "\<not> (\<forall>t \<in> set (auth_tokens (store (world_of alice_db [] []))). at_TokenHash t \<noteq> HashToken demo_lib ''tok'')"
    by (simp add: HashToken_demo_tok alice_db_def expired_token_def)
  from C3_validate_token [OF h, of demo_lib "''tok''"] f p q h show ?thesis by blast
qed

theorem C5_login_failures_same_error_witness:
  "calls_ok 1 (world_of alice_db [] [])
   \<and> fst (SessionService_Create (Load no_settings) demo_lib ''bob@example.com'' ''secret123'' (world_of alice_db [] []))
       = Inl ErrInvalidCredentials
   \<and> fst (SessionService_Create (Load no_settings) demo_lib ''alice@example.com'' ''wrong'' (world_of alice_db [] []))
       = Inl ErrInvalidCredentials"
proof -
  have h: "calls_ok 1 (world_of alice_db [] [])" by simp
  have a: "\<forall>x \<in> set (users (store (world_of alice_db [] []))). u_Email x \<noteq> ''bob@example.com''"
    by (simp add: alice_db_def alice_def)
  have p: "find (\<lambda>x. u_Email x = ''alice@example.com'') (users (store (world_of alice_db [] []))) = Some alice"
    by (simp add: alice_db_def alice_def)
  have m: "bcrypt_CompareHashAndPassword demo_lib (u_PasswordHash alice) ''wrong'' \<noteq> None"
    by (simp add: demo_lib_def alice_def)
  from C5_login_failures_same_error [OF h h a p m, of "Load no_settings" "''secret123''"] h
  show ?thesis by simp
qed

theorem C7_login_cancels_deletion_witness:
  "find (\<lambda>x. u_Email x = ''alice@example.com'')
      (users (store (world_of alice_leaving_db [] (replicate 32 0)))) = Some alice_leaving
   \<and> u_DeletionScheduledAt alice_leaving \<noteq> None
   \<and> fst (SessionService_Create (Load no_settings) demo_lib ''alice@example.com'' ''secret123''
            (world_of alice_leaving_db [] (replicate 32 0)))
       = Inr (alice, hex_EncodeToString (replicate 32 0))
   \<and> (\<exists>x. find (\<lambda>x. u_Email x = ''alice@example.com'')
            (users (store (snd (SessionService_Create (Load no_settings) demo_lib ''alice@example.com''
                ''secret123'' (world_of alice_leaving_db [] (replicate 32 0)))))) = Some x
          \<and> u_ID x = u_ID alice_leaving \<and> u_DeletionScheduledAt x = None)"
proof -
  have s: "u_DeletionScheduledAt alice_leaving \<noteq> None" by (simp add: alice_leaving_def)
  have r: "fst (SessionService_Create (Load no_settings) demo_lib ''alice@example.com'' ''secret123''
            (world_of alice_leaving_db [] (replicate 32 0)))
       = Inr (alice, hex_EncodeToString (replicate 32 0))"
    using alice_leaving_found [of "[]" "replicate 32 0"] alice_leaving_password
    by (simp add: SessionService_Create_def GetByEmail_fst CancelDeletion_Pool_fst generateToken_fst
        case_prod_beta alice_leaving_def alice_def)
  from C7_login_cancels_deletion [OF alice_leaving_found s r] alice_leaving_found s r
  show ?thesis by simp
qed

theorem C10_cancellation_not_rolled_back_witness:
  "calls_ok 2 (world_of alice_leaving_db [None, None, Some sql_ErrConnDone] (replicate 32 0))
   \<and> nth_fault (world_of alice_leaving_db [None, None, Some sql_ErrConnDone] (replicate 32 0)) 2 \<noteq> None
   \<and> (\<exists>err. fst (SessionService_Create (Load no_settings) demo_lib ''alice@example.com'' ''secret123''
            (world_of alice_leaving_db [None, None, Some sql_ErrConnDone] (replicate 32 0)))
         = Inl (Wrap err ''failed to generate token''))
   \<and> (\<exists>x. find (\<lambda>x. u_Email x = ''alice@example.com'')
            (users (store (snd (SessionService_Create (Load no_settings) demo_lib ''alice@example.com''
                ''secret123'' (world_of alice_leaving_db [None, None, Some sql_ErrConnDone] (replicate 32 0))))))
            = Some x
          \<and> u_ID x = u_ID alice_leaving \<and> u_DeletionScheduledAt x = None)"
proof -
  have s: "u_DeletionScheduledAt alice_leaving \<noteq> None" by (simp add: alice_leaving_def)
  have ok: "calls_ok 2 (world_of alice_leaving_db [None, None, Some sql_ErrConnDone] (replicate 32 0))"
    by (simp add: calls_ok_def list_all_iff less_Suc_eq numeral_2_eq_2)
  have bad: "nth_fault (world_of alice_leaving_db [None, None, Some sql_ErrConnDone] (replicate 32 0)) 2 \<noteq> None"
    by simp
  then have tf: "length (entropy (world_of alice_leaving_db [None, None, Some sql_ErrConnDone] (replicate 32 0))) < 32
      \<or> nth_fault (world_of alice_leaving_db [None, None, Some sql_ErrConnDone] (replicate 32 0)) 2 \<noteq> None"
    by simp
  from C10_cancellation_not_rolled_back [OF alice_leaving_found s alice_leaving_password ok tf,
      of "Load no_settings"] ok bad
  show ?thesis by blast
qed

text \<open>
  Claim C2.  \<open>RunInTx\<close> commits when \<open>fn\<close> returns success and rolls back and returns
  \<open>fn\<close>'s error when it returns one (lemmas \<open>RunInTx_success\<close>, \<open>RunInTx_error\<close>,
  \<open>RunInTx_error_kept\<close>).  A panic of \<open>fn\<close> is different: \<open>RunInTx\<close> has no deferred
  recovery, so the panic leaves through it before any rollback is issued.  Here a closure
  updates a password on the transaction and panics: the caller sees the panic, the
  journal holds the begin and the update and no rollback, and the transaction is still
  open with the uncommitted update in it.
\<close>

theorem C2_panic_leaves_transaction_open:
  "fst (RunInTx panicking_fn () (world_of alice_db [] [])) = Panic ''boom''
   \<and> journal (snd (snd (RunInTx panicking_fn () (world_of alice_db [] [])))) =
        [TxBegin, Stmt Tx ''UpdateUserPassword'']
   \<and> pending (snd (snd (RunInTx panicking_fn () (world_of alice_db [] [])))) =
        Some (alice_db\<lparr>users := [alice\<lparr>u_PasswordHash := ''x'', u_UpdatedAt := 1000\<rparr>]\<rparr>)
   \<and> store (snd (snd (RunInTx panicking_fn () (world_of alice_db [] [])))) = alice_db"
proof -
  have p: "fst (panicking_fn () (snd (BeginTx (world_of alice_db [] [])))) = Panic ''boom''"
    by (simp add: panicking_fn_def case_prod_beta)
  have r: "RunInTx panicking_fn () (world_of alice_db [] []) =
             (Panic ''boom'', snd (panicking_fn () (snd (BeginTx (world_of alice_db [] [])))))"
    using RunInTx_panic [of "world_of alice_db [] []" panicking_fn "()" "''boom''"] p by simp
  show ?thesis
    unfolding r
    by (simp add: panicking_fn_def case_prod_beta UpdateUserPassword_def alice_db_def alice_def)
qed

section \<open>Cleanup Job\<close>

lemma purge_results [simp]:
  "isl (fst (DeleteExpiredOrRevokedAuthTokens now d)) = False"
  "isl (fst (DeleteExpiredOrUsedPasswordResets now d)) = False"
  "isl (fst (DeleteExpiredOrUsedEmailVerifications now d)) = False"
  "isl (fst (DeleteScheduledUsers now d)) = False"
  by (simp_all add: DeleteExpiredOrRevokedAuthTokens_def DeleteExpiredOrUsedPasswordResets_def
      DeleteExpiredOrUsedEmailVerifications_def DeleteScheduledUsers_def Let_def)

lemma sum_case_not_isl: "\<not> isl x \<Longrightarrow> (case x of Inl a \<Rightarrow> f a | Inr b \<Rightarrow> g b) = g (projr x)"
  by (cases x) simp_all

lemma Handle_unfold:
  "CleanupTask_Handle w =
     (case nth_fault w 0 of
        Some e \<Rightarrow> (Some (Wrap (Wrap e ''failed to delete expired or revoked auth tokens'')
                            ''failed to cleanup auth tokens''),
                   snd (AuthTokenRepository_DeleteExpiredOrRevoked Pool w))
      | None \<Rightarrow>
         (case nth_fault w 1 of
            Some e \<Rightarrow> (Some (Wrap (Wrap e ''failed to delete expired or used password resets'')
                                ''failed to cleanup password reset tokens''),
                       snd (PasswordResetRepository_DeleteExpiredOrUsed Pool
                             (snd (AuthTokenRepository_DeleteExpiredOrRevoked Pool w))))
          | None \<Rightarrow>
             (case nth_fault w 2 of
                Some e \<Rightarrow> (Some (Wrap (Wrap e ''failed to delete expired or used email verifications'')
                                    ''failed to cleanup email verification tokens''),
                           snd (EmailVerificationRepository_DeleteExpiredOrUsed Pool
                                 (snd (PasswordResetRepository_DeleteExpiredOrUsed Pool
                                   (snd (AuthTokenRepository_DeleteExpiredOrRevoked Pool w))))))
              | None \<Rightarrow>
                 (case nth_fault w 3 of
                    Some e \<Rightarrow> (Some (Wrap (Wrap e ''failed to delete scheduled users'')
                                        ''failed to delete scheduled users''),
                               snd (UserRepository_DeleteScheduledUsers Pool
                                 (snd (EmailVerificationRepository_DeleteExpiredOrUsed Pool
                                   (snd (PasswordResetRepository_DeleteExpiredOrUsed Pool
                                     (snd (AuthTokenRepository_DeleteExpiredOrRevoked Pool w))))))))
                  | None \<Rightarrow>
                      (None,
                       snd (UserRepository_DeleteScheduledUsers Pool
                         (snd (EmailVerificationRepository_DeleteExpiredOrUsed Pool
                           (snd (PasswordResetRepository_DeleteExpiredOrUsed Pool
                             (snd (AuthTokenRepository_DeleteExpiredOrRevoked Pool w))))))))))))"
  by (simp add: CleanupTask_Handle_def case_prod_beta
      AuthTokenRepository_DeleteExpiredOrRevoked_fst PasswordResetRepository_DeleteExpiredOrUsed_fst
      EmailVerificationRepository_DeleteExpiredOrUsed_fst UserRepository_DeleteScheduledUsers_fst
      sum_case_not_isl eval_nat_numeral
      split: option.splits)

lemma Handle_fails_first:
  assumes "nth_fault w 0 = Some e"
  shows "fst (CleanupTask_Handle w) =
           Some (Wrap (Wrap e ''failed to delete expired or revoked auth tokens'') ''failed to cleanup auth tokens'')"
    and "store (snd (CleanupTask_Handle w)) = store w"
    and "journal (snd (CleanupTask_Handle w)) = journal w @ [Stmt Pool ''DeleteExpiredOrRevokedAuthTokens'']"
  using assms by (simp_all add: Handle_unfold)

lemma Handle_fails_second:
  assumes "nth_fault w 0 = None" and "nth_fault w 1 = Some e"
  shows "fst (CleanupTask_Handle w) =
           Some (Wrap (Wrap e ''failed to delete expired or used password resets'')
                   ''failed to cleanup password reset tokens'')"
    and "store (snd (CleanupTask_Handle w)) = snd (DeleteExpiredOrRevokedAuthTokens (clock w) (store w))"
    and "journal (snd (CleanupTask_Handle w)) =
           journal w @ [Stmt Pool ''DeleteExpiredOrRevokedAuthTokens'',
                        Stmt Pool ''DeleteExpiredOrUsedPasswordResets'']"
  using assms by (simp_all add: Handle_unfold)

lemma Handle_fails_third:
  assumes "nth_fault w 0 = None" and "nth_fault w 1 = None" and "nth_fault w 2 = Some e"
  shows "fst (CleanupTask_Handle w) =
           Some (Wrap (Wrap e ''failed to delete expired or used email verifications'')
                   ''failed to cleanup email verification tokens'')"
    and "store (snd (CleanupTask_Handle w)) =
           snd (DeleteExpiredOrUsedPasswordResets (clock (tick w))
                 (snd (DeleteExpiredOrRevokedAuthTokens (clock w) (store w))))"
    and "journal (snd (CleanupTask_Handle w)) =
           journal w @ [Stmt Pool ''DeleteExpiredOrRevokedAuthTokens'',
                        Stmt Pool ''DeleteExpiredOrUsedPasswordResets'',
                        Stmt Pool ''DeleteExpiredOrUsedEmailVerifications'']"
  using assms by (simp_all add: Handle_unfold eval_nat_numeral)

lemma Handle_fails_fourth:
  assumes "nth_fault w 0 = None" and "nth_fault w 1 = None" and "nth_fault w 2 = None"
    and "nth_fault w 3 = Some e"
  shows "fst (CleanupTask_Handle w) =
           Some (Wrap (Wrap e ''failed to delete scheduled users'') ''failed to delete scheduled users'')"
    and "store (snd (CleanupTask_Handle w)) =
           snd (DeleteExpiredOrUsedEmailVerifications (clock (tick (tick w)))
                 (snd (DeleteExpiredOrUsedPasswordResets (clock (tick w))
                   (snd (DeleteExpiredOrRevokedAuthTokens (clock w) (store w))))))"
    and "journal (snd (CleanupTask_Handle w)) =
           journal w @ [Stmt Pool ''DeleteExpiredOrRevokedAuthTokens'',
                        Stmt Pool ''DeleteExpiredOrUsedPasswordResets'',
                        Stmt Pool ''DeleteExpiredOrUsedEmailVerifications'',
                        Stmt Pool ''DeleteScheduledUsers'']"
  using assms by (simp_all add: Handle_unfold eval_nat_numeral)

lemma Handle_completes:
  assumes "nth_fault w 0 = None" and "nth_fault w 1 = None" and "nth_fault w 2 = None"
    and "nth_fault w 3 = None"
  shows "fst (CleanupTask_Handle w) = None"
    and "store (snd (CleanupTask_Handle w)) =
           snd (DeleteScheduledUsers (clock (tick (tick (tick w))))
             (snd (DeleteExpiredOrUsedEmailVerifications (clock (tick (tick w)))
               (snd (DeleteExpiredOrUsedPasswordResets (clock (tick w))
                 (snd (DeleteExpiredOrRevokedAuthTokens (clock w) (store w))))))))"
    and "journal (snd (CleanupTask_Handle w)) =
           journal w @ [Stmt Pool ''DeleteExpiredOrRevokedAuthTokens'',
                        Stmt Pool ''DeleteExpiredOrUsedPasswordResets'',
                        Stmt Pool ''DeleteExpiredOrUsedEmailVerifications'',
                        Stmt Pool ''DeleteScheduledUsers'']"
  using assms by (simp_all add: Handle_unfold eval_nat_numeral)

lemma purge_meaning:
  "auth_tokens (snd (DeleteExpiredOrRevokedAuthTokens now d)) =
     filter (\<lambda>t. now \<le> at_ExpiresAt t \<and> at_RevokedAt t = None) (auth_tokens d)"
  "password_resets (snd (DeleteExpiredOrUsedPasswordResets now d)) =
     filter (\<lambda>r. now \<le> pr_ExpiresAt r \<and> pr_UsedAt r = None) (password_resets d)"
  "email_verifications (snd (DeleteExpiredOrUsedEmailVerifications now d)) =
     filter (\<lambda>v. now \<le> ev_ExpiresAt v \<and> ev_UsedAt v = None) (email_verifications d)"
  "users (snd (DeleteScheduledUsers now d)) =
     filter (\<lambda>u. case u_DeletionScheduledAt u of None \<Rightarrow> True | Some t \<Rightarrow> now < t) (users d)"
  by (auto simp: DeleteExpiredOrRevokedAuthTokens_def DeleteExpiredOrUsedPasswordResets_def
      DeleteExpiredOrUsedEmailVerifications_def DeleteScheduledUsers_def Let_def
      auth_token_stale_def password_reset_stale_def email_verification_stale_def deletion_due_def
      not_less intro!: filter_cong split: option.splits)


text \<open>
  Claim C9.  One run of the cleanup handler sends four statements on the pool handle, in
  this order: delete the auth tokens that are expired or revoked, the password resets
  that are expired or used, the email verifications that are expired or used, and the
  users whose \<open>deletion_scheduled_at\<close> is set and not later than the time of that step
  (the deadline has passed; a deadline equal to the current instant counts as passed).
  When the k-th statement fails with \<open>e\<close>, the run returns \<open>e\<close> wrapped twice, the
  earlier statements have taken effect, and no later statement is sent.  When none fails
  the run returns success and the store is the four purges applied one after the other,
  each with the clock reading of its own step.
\<close>

theorem C9_cleanup_order:
  "(nth_fault w 0 = Some e \<longrightarrow>
       fst (CleanupTask_Handle w) =
         Some (Wrap (Wrap e ''failed to delete expired or revoked auth tokens'') ''failed to cleanup auth tokens'')
     \<and> store (snd (CleanupTask_Handle w)) = store w
     \<and> journal (snd (CleanupTask_Handle w)) = journal w @ [Stmt Pool ''DeleteExpiredOrRevokedAuthTokens''])
 \<and> (calls_ok 1 w \<and> nth_fault w 1 = Some e \<longrightarrow>
       fst (CleanupTask_Handle w) =
         Some (Wrap (Wrap e ''failed to delete expired or used password resets'')
                 ''failed to cleanup password reset tokens'')
     \<and> store (snd (CleanupTask_Handle w)) = snd (DeleteExpiredOrRevokedAuthTokens (clock w) (store w))
     \<and> journal (snd (CleanupTask_Handle w)) =
           journal w @ [Stmt Pool ''DeleteExpiredOrRevokedAuthTokens'',
                        Stmt Pool ''DeleteExpiredOrUsedPasswordResets''])
 \<and> (calls_ok 2 w \<and> nth_fault w 2 = Some e \<longrightarrow>
       fst (CleanupTask_Handle w) =
         Some (Wrap (Wrap e ''failed to delete expired or used email verifications'')
                 ''failed to cleanup email verification tokens'')
     \<and> store (snd (CleanupTask_Handle w)) =
           snd (DeleteExpiredOrUsedPasswordResets (clock (tick w))
                 (snd (DeleteExpiredOrRevokedAuthTokens (clock w) (store w))))
     \<and> journal (snd (CleanupTask_Handle w)) =
           journal w @ [Stmt Pool ''DeleteExpiredOrRevokedAuthTokens'',
                        Stmt Pool ''DeleteExpiredOrUsedPasswordResets'',
                        Stmt Pool ''DeleteExpiredOrUsedEmailVerifications''])
 \<and> (calls_ok 3 w \<and> nth_fault w 3 = Some e \<longrightarrow>
       fst (CleanupTask_Handle w) =
         Some (Wrap (Wrap e ''failed to delete scheduled users'') ''failed to delete scheduled users'')
     \<and> store (snd (CleanupTask_Handle w)) =
           snd (DeleteExpiredOrUsedEmailVerifications (clock (tick (tick w)))
                 (snd (DeleteExpiredOrUsedPasswordResets (clock (tick w))
                   (snd (DeleteExpiredOrRevokedAuthTokens (clock w) (store w))))))
     \<and> journal (snd (CleanupTask_Handle w)) =
           journal w @ [Stmt Pool ''DeleteExpiredOrRevokedAuthTokens'',
                        Stmt Pool ''DeleteExpiredOrUsedPasswordResets'',
                        Stmt Pool ''DeleteExpiredOrUsedEmailVerifications'',
                        Stmt Pool ''DeleteScheduledUsers''])
 \<and> (calls_ok 4 w \<longrightarrow>
       fst (CleanupTask_Handle w) = None
     \<and> store (snd (CleanupTask_Handle w)) =
           snd (DeleteScheduledUsers (clock (tick (tick (tick w))))
             (snd (DeleteExpiredOrUsedEmailVerifications (clock (tick (tick w)))
               (snd (DeleteExpiredOrUsedPasswordResets (clock (tick w))
                 (snd (DeleteExpiredOrRevokedAuthTokens (clock w) (store w))))))))
     \<and> journal (snd (CleanupTask_Handle w)) =
           journal w @ [Stmt Pool ''DeleteExpiredOrRevokedAuthTokens'',
                        Stmt Pool ''DeleteExpiredOrUsedPasswordResets'',
                        Stmt Pool ''DeleteExpiredOrUsedEmailVerifications'',
                        Stmt Pool ''DeleteScheduledUsers''])
 \<and> auth_tokens (snd (DeleteExpiredOrRevokedAuthTokens now d)) =
       filter (\<lambda>t. now \<le> at_ExpiresAt t \<and> at_RevokedAt t = None) (auth_tokens d)
 \<and> password_resets (snd (DeleteExpiredOrUsedPasswordResets now d)) =
       filter (\<lambda>r. now \<le> pr_ExpiresAt r \<and> pr_UsedAt r = None) (password_resets d)
 \<and> email_verifications (snd (DeleteExpiredOrUsedEmailVerifications now d)) =
       filter (\<lambda>v. now \<le> ev_ExpiresAt v \<and> ev_UsedAt v = None) (email_verifications d)
 \<and> users (snd (DeleteScheduledUsers now d)) =
       filter (\<lambda>u. case u_DeletionScheduledAt u of None \<Rightarrow> True | Some t \<Rightarrow> now < t) (users d)"
proof -
  have k0: "nth_fault w 0 = Some e \<longrightarrow>
       fst (CleanupTask_Handle w) =
         Some (Wrap (Wrap e ''failed to delete expired or revoked auth tokens'') ''failed to cleanup auth tokens'')
     \<and> store (snd (CleanupTask_Handle w)) = store w
     \<and> journal (snd (CleanupTask_Handle w)) = journal w @ [Stmt Pool ''DeleteExpiredOrRevokedAuthTokens'']"
    using Handle_fails_first [of w e] by simp
  have k1: "calls_ok 1 w \<and> nth_fault w 1 = Some e \<longrightarrow>
       fst (CleanupTask_Handle w) =
         Some (Wrap (Wrap e ''failed to delete expired or used password resets'')
                 ''failed to cleanup password reset tokens'')
     \<and> store (snd (CleanupTask_Handle w)) = snd (DeleteExpiredOrRevokedAuthTokens (clock w) (store w))
     \<and> journal (snd (CleanupTask_Handle w)) =
           journal w @ [Stmt Pool ''DeleteExpiredOrRevokedAuthTokens'',
                        Stmt Pool ''DeleteExpiredOrUsedPasswordResets'']"
    using Handle_fails_second [of w e] calls_okD [of 1 w 0] by simp
  have k2: "calls_ok 2 w \<and> nth_fault w 2 = Some e \<longrightarrow>
       fst (CleanupTask_Handle w) =
         Some (Wrap (Wrap e ''failed to delete expired or used email verifications'')
                 ''failed to cleanup email verification tokens'')
     \<and> store (snd (CleanupTask_Handle w)) =
           snd (DeleteExpiredOrUsedPasswordResets (clock (tick w))
                 (snd (DeleteExpiredOrRevokedAuthTokens (clock w) (store w))))
     \<and> journal (snd (CleanupTask_Handle w)) =
           journal w @ [Stmt Pool ''DeleteExpiredOrRevokedAuthTokens'',
                        Stmt Pool ''DeleteExpiredOrUsedPasswordResets'',
                        Stmt Pool ''DeleteExpiredOrUsedEmailVerifications'']"
    using Handle_fails_third [of w e] calls_okD [of 2 w 0] calls_okD [of 2 w 1] by simp
  have k3: "calls_ok 3 w \<and> nth_fault w 3 = Some e \<longrightarrow>
       fst (CleanupTask_Handle w) =
         Some (Wrap (Wrap e ''failed to delete scheduled users'') ''failed to delete scheduled users'')
     \<and> store (snd (CleanupTask_Handle w)) =
           snd (DeleteExpiredOrUsedEmailVerifications (clock (tick (tick w)))
                 (snd (DeleteExpiredOrUsedPasswordResets (clock (tick w))
                   (snd (DeleteExpiredOrRevokedAuthTokens (clock w) (store w))))))
     \<and> journal (snd (CleanupTask_Handle w)) =
           journal w @ [Stmt Pool ''DeleteExpiredOrRevokedAuthTokens'',
                        Stmt Pool ''DeleteExpiredOrUsedPasswordResets'',
                        Stmt Pool ''DeleteExpiredOrUsedEmailVerifications'',
                        Stmt Pool ''DeleteScheduledUsers'']"
    using Handle_fails_fourth [of w e] calls_okD [of 3 w 0] calls_okD [of 3 w 1] calls_okD [of 3 w 2]
    by simp
  have k4: "calls_ok 4 w \<longrightarrow>
       fst (CleanupTask_Handle w) = None
     \<and> store (snd (CleanupTask_Handle w)) =
           snd (DeleteScheduledUsers (clock (tick (tick (tick w))))
             (snd (DeleteExpiredOrUsedEmailVerifications (clock (tick (tick w)))
               (snd (DeleteExpiredOrUsedPasswordResets (clock (tick w))
                 (snd (DeleteExpiredOrRevokedAuthTokens (clock w) (store w))))))))
     \<and> journal (snd (CleanupTask_Handle w)) =
           journal w @ [Stmt Pool ''DeleteExpiredOrRevokedAuthTokens'',
                        Stmt Pool ''DeleteExpiredOrUsedPasswordResets'',
                        Stmt Pool ''DeleteExpiredOrUsedEmailVerifications'',
                        Stmt Pool ''DeleteScheduledUsers'']"
    using Handle_completes [of w] calls_okD [of 4 w 0] calls_okD [of 4 w 1] calls_okD [of 4 w 2]
      calls_okD [of 4 w 3]
    by simp
  note m = purge_meaning [of now d]
  show ?thesis
    by (rule conjI [OF k0 conjI [OF k1 conjI [OF k2 conjI [OF k3 conjI [OF k4
          conjI [OF m(1) conjI [OF m(2) conjI [OF m(3) m(4)]]]]]]]])
qed

lemma cleanup_db_tables [simp]:
  "users cleanup_db = [alice, bob_overdue]"
  "auth_tokens cleanup_db = [expired_token, live_token, bob_token]"
  "password_resets cleanup_db = [reset_one, used_reset]"
  "email_verifications cleanup_db = []"
  by (simp_all add: cleanup_db_def)

text \<open>
  A run whose second statement fails has purged the auth tokens and nothing else; a run
  with no failure also removes the used reset, the overdue account and, with it, that
  account's token.
\<close>

theorem C9_cleanup_order_witness:
  "calls_ok 1 (world_of cleanup_db [None, Some sql_ErrConnDone] [])
   \<and> nth_fault (world_of cleanup_db [None, Some sql_ErrConnDone] []) 1 = Some sql_ErrConnDone
   \<and> fst (CleanupTask_Handle (world_of cleanup_db [None, Some sql_ErrConnDone] [])) =
        Some (Wrap (Wrap sql_ErrConnDone ''failed to delete expired or used password resets'')
                ''failed to cleanup password reset tokens'')
   \<and> store (snd (CleanupTask_Handle (world_of cleanup_db [None, Some sql_ErrConnDone] []))) =
        cleanup_db\<lparr>auth_tokens := [live_token, bob_token]\<rparr>
   \<and> calls_ok 4 (world_of cleanup_db [] [])
   \<and> fst (CleanupTask_Handle (world_of cleanup_db [] [])) = None
   \<and> store (snd (CleanupTask_Handle (world_of cleanup_db [] []))) =
        \<lparr>users = [alice], auth_tokens = [live_token], password_resets = [reset_one],
         email_verifications = []\<rparr>"
proof -
  let ?x = "world_of cleanup_db [None, Some sql_ErrConnDone] []"
  let ?w = "world_of cleanup_db [] []"
  have h1: "calls_ok 1 ?x \<and> nth_fault ?x 1 = Some sql_ErrConnDone"
    by (simp add: calls_ok_def)
  have h4: "calls_ok 4 ?w" by simp
  have a: "snd (DeleteExpiredOrRevokedAuthTokens (clock ?x) (store ?x)) =
             cleanup_db\<lparr>auth_tokens := [live_token, bob_token]\<rparr>"
    by (simp add: DeleteExpiredOrRevokedAuthTokens_def auth_token_stale_def
        expired_token_def live_token_def bob_token_def)
  have b: "snd (DeleteScheduledUsers (clock (tick (tick (tick ?w))))
             (snd (DeleteExpiredOrUsedEmailVerifications (clock (tick (tick ?w)))
               (snd (DeleteExpiredOrUsedPasswordResets (clock (tick ?w))
                 (snd (DeleteExpiredOrRevokedAuthTokens (clock ?w) (store ?w))))))))
           = \<lparr>users = [alice], auth_tokens = [live_token], password_resets = [reset_one],
              email_verifications = []\<rparr>"
    by (simp add: DeleteExpiredOrRevokedAuthTokens_def auth_token_stale_def
        DeleteExpiredOrUsedPasswordResets_def password_reset_stale_def
        DeleteExpiredOrUsedEmailVerifications_def email_verification_stale_def
        DeleteScheduledUsers_def deletion_due_def Let_def cleanup_db_def
        expired_token_def live_token_def bob_token_def reset_one_def used_reset_def
        alice_def bob_overdue_def)
  from C9_cleanup_order [of ?x sql_ErrConnDone] h1
  have r1: "fst (CleanupTask_Handle ?x) =
        Some (Wrap (Wrap sql_ErrConnDone ''failed to delete expired or used password resets'')
                ''failed to cleanup password reset tokens'')
     \<and> store (snd (CleanupTask_Handle ?x)) = snd (DeleteExpiredOrRevokedAuthTokens (clock ?x) (store ?x))"
    by blast
  from C9_cleanup_order [of ?w] h4
  have r4: "fst (CleanupTask_Handle ?w) = None
     \<and> store (snd (CleanupTask_Handle ?w)) =
           snd (DeleteScheduledUsers (clock (tick (tick (tick ?w))))
             (snd (DeleteExpiredOrUsedEmailVerifications (clock (tick (tick ?w)))
               (snd (DeleteExpiredOrUsedPasswordResets (clock (tick ?w))
                 (snd (DeleteExpiredOrRevokedAuthTokens (clock ?w) (store ?w))))))))"
    by blast
  from r1 r4 h1 h4 show ?thesis unfolding a b by simp
qed

section \<open>Password Reset Service\<close>

lemma Execute_tx_store [simp]:
  "store (snd (snd (Execute_tx reset h env w))) = store w"
  by (simp add: Execute_tx_def case_prod_beta split: option.splits)

lemma Execute_tx_env [simp]:
  "fst (snd (Execute_tx reset h env w)) = env"
  by (simp add: Execute_tx_def case_prod_beta split: option.splits)

lemma Execute_tx_outcome:
  assumes "pending w = Some d"
  shows "fst (Execute_tx reset h env w) =
     (case nth_fault w 0 of
        Some e \<Rightarrow> Return (Some (Wrap (Wrap e ''failed to update user password'') ''failed to update password''))
      | None \<Rightarrow>
         (case nth_fault w 1 of
            Some e \<Rightarrow> Return (Some (Wrap (Wrap e ''failed to mark password reset as used'')
                                      ''failed to mark password reset as used''))
          | None \<Rightarrow>
             (case nth_fault w 2 of
                Some e \<Rightarrow> Return (Some (Wrap (Wrap e ''failed to invalidate all password resets for user'')
                                          ''failed to invalidate password resets for user''))
              | None \<Rightarrow>
                 (case nth_fault w 3 of
                    Some e \<Rightarrow> Return (Some (Wrap (Wrap e ''failed to revoke all auth tokens for user'')
                                              ''failed to revoke auth tokens for user''))
                  | None \<Rightarrow> Return None))))"
  using assms
  by (simp add: Execute_tx_def case_prod_beta eval_nat_numeral
      UserRepository_UpdatePassword_fst PasswordResetRepository_MarkUsed_fst
      PasswordResetRepository_InvalidateAllForUser_fst AuthTokenRepository_RevokeAllForUser_fst
      split: option.splits)

lemma Execute_tx_done:
  assumes "pending w = Some d"
    and "nth_fault w 0 = None" and "nth_fault w 1 = None" and "nth_fault w 2 = None" and "nth_fault w 3 = None"
  shows "pending (snd (snd (Execute_tx reset h env w))) =
           Some (snd (RevokeAllAuthTokensForUser (Some (clock (tick (tick (tick w))))) (pr_UserID reset)
                  (snd (InvalidateAllPasswordResetsForUser (Some (clock (tick (tick w)))) (pr_UserID reset)
                    (snd (MarkPasswordResetUsed (Some (clock (tick w))) (pr_ID reset)
                      (snd (UpdateUserPassword h (clock w) (pr_UserID reset) d))))))))"
    and "journal (snd (snd (Execute_tx reset h env w))) =
           journal w @ [Stmt Tx ''UpdateUserPassword'', Stmt Tx ''MarkPasswordResetUsed'',
                        Stmt Tx ''InvalidateAllPasswordResetsForUser'', Stmt Tx ''RevokeAllAuthTokensForUser'']"
    and "nth_fault (snd (snd (Execute_tx reset h env w))) k = nth_fault w (k + 4)"
  using assms
  by (simp_all add: Execute_tx_def case_prod_beta eval_nat_numeral
      UserRepository_UpdatePassword_fst PasswordResetRepository_MarkUsed_fst
      PasswordResetRepository_InvalidateAllForUser_fst AuthTokenRepository_RevokeAllForUser_fst
      split: option.splits)

lemma Execute_into_tx:
  assumes "nth_fault w 0 = None"
    and "find (\<lambda>r. pr_TokenHash r = HashToken lib token) (password_resets (store w)) = Some reset"
    and "pr_UsedAt reset = None"
    and "\<not> pr_ExpiresAt reset < clock w"
    and "bcrypt_GenerateFromPassword lib newPassword (BcryptCost (Auth cfg)) = Inr h"
  shows "PasswordResetService_Execute cfg lib token newPassword w =
           (fst (RunInTx (Execute_tx reset h) ()
                   (tick (snd (PasswordResetRepository_GetByTokenHash Pool (HashToken lib token) w)))),
            snd (snd (RunInTx (Execute_tx reset h) ()
                   (tick (snd (PasswordResetRepository_GetByTokenHash Pool (HashToken lib token) w))))))"
  using assms
  by (simp add: PasswordResetService_Execute_def PasswordResetRepository_GetByTokenHash_fst
      Let_def case_prod_beta Time_After_def)

lemma Execute_keeps_store_on_error:
  assumes "fst (PasswordResetService_Execute cfg lib token newPassword w) \<noteq> Return None"
  shows "store (snd (PasswordResetService_Execute cfg lib token newPassword w)) = store w"
proof -
  have tx: "\<And>reset h v. fst (RunInTx (Execute_tx reset h) () v) \<noteq> Return None
              \<Longrightarrow> store (snd (snd (RunInTx (Execute_tx reset h) () v))) = store v"
    by (rule RunInTx_keeps_store_unless_committed) simp_all
  from assms show ?thesis
    by (auto simp: PasswordResetService_Execute_def Let_def case_prod_beta tx
        split: sum.splits if_splits)
qed

lemma Execute_success_inv:
  assumes ok: "fst (PasswordResetService_Execute cfg lib token newPassword w) = Return None"
  shows "nth_fault w 0 = None"
    and "\<exists>reset. find (\<lambda>r. pr_TokenHash r = HashToken lib token) (password_resets (store w)) = Some reset
           \<and> pr_UsedAt reset = None \<and> \<not> pr_ExpiresAt reset < clock w"
    and "\<exists>h. bcrypt_GenerateFromPassword lib newPassword (BcryptCost (Auth cfg)) = Inr h"
  using assms
  by (auto simp: PasswordResetService_Execute_def PasswordResetRepository_GetByTokenHash_fst
      Let_def case_prod_beta Time_After_def split: sum.splits if_splits option.splits)

lemma Execute_tx_never_panics: "fst (Execute_tx reset h env w) \<noteq> Panic p"
  by (simp add: Execute_tx_def case_prod_beta split: option.splits)

lemma RunInTx_Execute_tx_returns:
  "\<exists>r. fst (RunInTx (Execute_tx reset h) () v) = Return r"
  using Execute_tx_never_panics [of reset h "()" "snd (BeginTx v)"]
  by (cases "fst (Execute_tx reset h () (snd (BeginTx v)))")
     (auto simp: RunInTx_def case_prod_beta split: option.splits)

lemma RunInTx_Execute_tx_success:
  assumes ok: "fst (RunInTx (Execute_tx reset h) () v) = Return None"
  shows "store (snd (snd (RunInTx (Execute_tx reset h) () v))) =
           snd (RevokeAllAuthTokensForUser (Some (clock (tick (tick (tick v))))) (pr_UserID reset)
             (snd (InvalidateAllPasswordResetsForUser (Some (clock (tick (tick v)))) (pr_UserID reset)
               (snd (MarkPasswordResetUsed (Some (clock (tick v))) (pr_ID reset)
                 (snd (UpdateUserPassword h (clock v) (pr_UserID reset) (store v))))))))"
    and "journal (snd (snd (RunInTx (Execute_tx reset h) () v))) =
           journal v @ [TxBegin, Stmt Tx ''UpdateUserPassword'', Stmt Tx ''MarkPasswordResetUsed'',
                        Stmt Tx ''InvalidateAllPasswordResetsForUser'',
                        Stmt Tx ''RevokeAllAuthTokensForUser'', TxCommit]"
    and "pending (snd (snd (RunInTx (Execute_tx reset h) () v))) = None"
proof -
  let ?w1 = "snd (BeginTx v)"
  let ?w2 = "snd (snd (Execute_tx reset h () ?w1))"
  from ok have b: "nth_fault v 0 = None"
    by (auto simp: RunInTx_def case_prod_beta split: option.splits)
  then have p: "pending ?w1 = Some (store v)" by simp
  from ok b have o: "fst (Execute_tx reset h () ?w1) = Return None"
    by (auto simp: RunInTx_def case_prod_beta split: option.splits outcome.splits)
  from o Execute_tx_outcome [OF p, of reset h "()"]
  have f: "nth_fault ?w1 0 = None" "nth_fault ?w1 1 = None" "nth_fault ?w1 2 = None" "nth_fault ?w1 3 = None"
    by (auto split: option.splits)
  note d = Execute_tx_done [OF p f, of reset h "()"]
  note r = RunInTx_success [of v "Execute_tx reset h" "()", OF b o]
  from ok r(1) have c: "fst (Tx_Commit ?w2) = None"
    by (auto split: option.splits)
  then have c0: "nth_fault ?w2 0 = None"
    by (auto split: option.splits)
  show "store (snd (snd (RunInTx (Execute_tx reset h) () v))) =
           snd (RevokeAllAuthTokensForUser (Some (clock (tick (tick (tick v))))) (pr_UserID reset)
             (snd (InvalidateAllPasswordResetsForUser (Some (clock (tick (tick v)))) (pr_UserID reset)
               (snd (MarkPasswordResetUsed (Some (clock (tick v))) (pr_ID reset)
                 (snd (UpdateUserPassword h (clock v) (pr_UserID reset) (store v))))))))"
    unfolding r(2) using c0 d(1) by simp
  show "journal (snd (snd (RunInTx (Execute_tx reset h) () v))) =
           journal v @ [TxBegin, Stmt Tx ''UpdateUserPassword'', Stmt Tx ''MarkPasswordResetUsed'',
                        Stmt Tx ''InvalidateAllPasswordResetsForUser'',
                        Stmt Tx ''RevokeAllAuthTokensForUser'', TxCommit]"
    unfolding r(2) using d(2) by simp
  show "pending (snd (snd (RunInTx (Execute_tx reset h) () v))) = None"
    unfolding r(2) by simp
qed

lemma reset_statements_tables [simp]:
  "users (snd (UpdateUserPassword h t i d)) =
     map (\<lambda>u. if u_ID u = i then u\<lparr>u_PasswordHash := h, u_UpdatedAt := t\<rparr> else u) (users d)"
  "password_resets (snd (UpdateUserPassword h t i d)) = password_resets d"
  "auth_tokens (snd (UpdateUserPassword h t i d)) = auth_tokens d"
  "users (snd (MarkPasswordResetUsed a i d)) = users d"
  "password_resets (snd (MarkPasswordResetUsed a i d)) =
     map (\<lambda>r. if pr_ID r = i then r\<lparr>pr_UsedAt := a\<rparr> else r) (password_resets d)"
  "auth_tokens (snd (MarkPasswordResetUsed a i d)) = auth_tokens d"
  "users (snd (InvalidateAllPasswordResetsForUser a i d)) = users d"
  "password_resets (snd (InvalidateAllPasswordResetsForUser a i d)) =
     map (\<lambda>r. if pr_UserID r = i \<and> pr_UsedAt r = None then r\<lparr>pr_UsedAt := a\<rparr> else r)
         (password_resets d)"
  "auth_tokens (snd (InvalidateAllPasswordResetsForUser a i d)) = auth_tokens d"
  "users (snd (RevokeAllAuthTokensForUser a i d)) = users d"
  "password_resets (snd (RevokeAllAuthTokensForUser a i d)) = password_resets d"
  "auth_tokens (snd (RevokeAllAuthTokensForUser a i d)) =
     map (\<lambda>t. if at_UserID t = i \<and> at_RevokedAt t = None then t\<lparr>at_RevokedAt := a\<rparr> else t)
         (auth_tokens d)"
  by (simp_all add: RevokeAllAuthTokensForUser_def InvalidateAllPasswordResetsForUser_def
      MarkPasswordResetUsed_def UpdateUserPassword_def)

lemma ball_set_map: "(\<forall>y \<in> set (map f xs). P y) = (\<forall>x \<in> set xs. P (f x))"
  by simp

lemma reset_statements_effect:
  fixes d :: database
  assumes "d' = snd (RevokeAllAuthTokensForUser (Some t3) uid
                  (snd (InvalidateAllPasswordResetsForUser (Some t2) uid
                    (snd (MarkPasswordResetUsed (Some t1) rid
                      (snd (UpdateUserPassword h t0 uid d)))))))"
  shows "\<forall>u \<in> set (users d'). u_ID u = uid \<longrightarrow> u_PasswordHash u = h"
    and "\<forall>p \<in> set (password_resets d'). pr_ID p = rid \<longrightarrow> pr_UsedAt p \<noteq> None"
    and "\<forall>p \<in> set (password_resets d'). pr_UserID p = uid \<longrightarrow> pr_UsedAt p \<noteq> None"
    and "\<forall>t \<in> set (auth_tokens d'). at_UserID t = uid \<longrightarrow> at_RevokedAt t \<noteq> None"
proof -
  show "\<forall>u \<in> set (users d'). u_ID u = uid \<longrightarrow> u_PasswordHash u = h"
    unfolding assms by (simp only: reset_statements_tables ball_set_map) simp
  show "\<forall>p \<in> set (password_resets d'). pr_ID p = rid \<longrightarrow> pr_UsedAt p \<noteq> None"
    unfolding assms by (simp only: reset_statements_tables ball_set_map) simp
  show "\<forall>p \<in> set (password_resets d'). pr_UserID p = uid \<longrightarrow> pr_UsedAt p \<noteq> None"
    unfolding assms by (simp only: reset_statements_tables ball_set_map) simp
  show "\<forall>t \<in> set (auth_tokens d'). at_UserID t = uid \<longrightarrow> at_RevokedAt t \<noteq> None"
    unfolding assms by (simp only: reset_statements_tables ball_set_map) simp
qed

lemma Execute_substep_fails:
  assumes bg: "nth_fault v 0 = None"
    and i: "i < 4"
    and earlier: "\<forall>j<i. nth_fault v (Suc j) = None"
    and hit: "nth_fault v (Suc i) = Some e"
  shows "\<exists>err. fst (RunInTx (Execute_tx reset h) () v) = Return (Some err) \<and> eris_Is err e"
    and "pending (snd (snd (RunInTx (Execute_tx reset h) () v))) = None"
    and "last (journal (snd (snd (RunInTx (Execute_tx reset h) () v)))) = TxRollback"
proof -
  let ?w1 = "snd (BeginTx v)"
  from bg have p: "pending ?w1 = Some (store v)" by simp
  from i consider "i = 0" | "i = 1" | "i = 2" | "i = 3" by linarith
  then have "\<exists>err. fst (Execute_tx reset h () ?w1) = Return (Some err) \<and> eris_Is err e"
  proof cases
    case 1
    with hit show ?thesis by (simp add: Execute_tx_outcome [OF p] eris_Is_refl)
  next
    case 2
    with hit earlier show ?thesis by (simp add: Execute_tx_outcome [OF p] eris_Is_refl)
  next
    case 3
    with hit earlier have "nth_fault v 1 = None" "nth_fault v 2 = None" "nth_fault v 3 = Some e"
      by (simp_all add: eval_nat_numeral)
    then show ?thesis by (simp add: Execute_tx_outcome [OF p] eris_Is_refl eval_nat_numeral)
  next
    case 4
    with hit earlier have "nth_fault v 1 = None" "nth_fault v 2 = None" "nth_fault v 3 = None"
      "nth_fault v 4 = Some e"
      by (simp_all add: eval_nat_numeral)
    then show ?thesis by (simp add: Execute_tx_outcome [OF p] eris_Is_refl eval_nat_numeral)
  qed
  then obtain err where o: "fst (Execute_tx reset h () ?w1) = Return (Some err)" and chain: "eris_Is err e"
    by blast
  note r = RunInTx_error [of v "Execute_tx reset h" "()", OF bg o]
  from r(1) chain show "\<exists>err. fst (RunInTx (Execute_tx reset h) () v) = Return (Some err) \<and> eris_Is err e"
    by (auto split: option.splits)
  show "pending (snd (snd (RunInTx (Execute_tx reset h) () v))) = None"
    unfolding r(2) by simp
  show "last (journal (snd (snd (RunInTx (Execute_tx reset h) () v)))) = TxRollback"
    unfolding r(2) by simp
qed


text \<open>
  Claim C1.  Take a stored password-reset token that is unused and unexpired, found by
  the hash of the raw token, and a new password that \<open>bcrypt\<close> hashes to \<open>h\<close>.
  \<^item> If \<open>Execute\<close> succeeds, then in the committed store every row of the token's user
    has password hash \<open>h\<close>, this token and every other reset token of that user have
    \<open>used_at\<close> set, and every auth token of that user has \<open>revoked_at\<close> set; the four
    statements ran on one transaction, between its begin and its commit.
  \<^item> If \<open>Execute\<close> does not succeed, it returns an error (it does not panic) and the
    committed store is what it was: none of the four statements has taken effect.
  \<^item> If the transaction begins and one of the four statements fails with an error \<open>e\<close>
    (the ones before it having gone through), the returned error has \<open>e\<close> in its chain,
    the transaction is rolled back and closed, and the store is what it was.
\<close>

theorem C1_execute_reset_atomic:
  assumes lookup: "nth_fault w 0 = None"
    and stored: "find (\<lambda>r. pr_TokenHash r = HashToken lib token) (password_resets (store w)) = Some reset"
    and unused: "pr_UsedAt reset = None"
    and unexpired: "\<not> pr_ExpiresAt reset < clock w"
    and hashed: "bcrypt_GenerateFromPassword lib newPassword (BcryptCost (Auth cfg)) = Inr h"
  shows "(fst (PasswordResetService_Execute cfg lib token newPassword w) = Return None \<longrightarrow>
            (\<forall>u \<in> set (users (store (snd (PasswordResetService_Execute cfg lib token newPassword w)))).
                u_ID u = pr_UserID reset \<longrightarrow> u_PasswordHash u = h)
          \<and> (\<forall>p \<in> set (password_resets (store (snd (PasswordResetService_Execute cfg lib token newPassword w)))).
                pr_ID p = pr_ID reset \<longrightarrow> pr_UsedAt p \<noteq> None)
          \<and> (\<forall>p \<in> set (password_resets (store (snd (PasswordResetService_Execute cfg lib token newPassword w)))).
                pr_UserID p = pr_UserID reset \<longrightarrow> pr_UsedAt p \<noteq> None)
          \<and> (\<forall>t \<in> set (auth_tokens (store (snd (PasswordResetService_Execute cfg lib token newPassword w)))).
                at_UserID t = pr_UserID reset \<longrightarrow> at_RevokedAt t \<noteq> None)
          \<and> journal (snd (PasswordResetService_Execute cfg lib token newPassword w)) =
               journal w @ [Stmt Pool ''GetPasswordResetByTokenHash'', TxBegin,
                            Stmt Tx ''UpdateUserPassword'', Stmt Tx ''MarkPasswordResetUsed'',
                            Stmt Tx ''InvalidateAllPasswordResetsForUser'',
                            Stmt Tx ''RevokeAllAuthTokensForUser'', TxCommit]
          \<and> pending (snd (PasswordResetService_Execute cfg lib token newPassword w)) = None)
       \<and> (fst (PasswordResetService_Execute cfg lib token newPassword w) \<noteq> Return None \<longrightarrow>
            (\<exists>err. fst (PasswordResetService_Execute cfg lib token newPassword w) = Return (Some err))
          \<and> store (snd (PasswordResetService_Execute cfg lib token newPassword w)) = store w)
       \<and> (\<forall>i e. i < 4 \<and> nth_fault w 1 = None \<and> (\<forall>j<i. nth_fault w (2 + j) = None)
                 \<and> nth_fault w (2 + i) = Some e \<longrightarrow>
            (\<exists>err. fst (PasswordResetService_Execute cfg lib token newPassword w) = Return (Some err)
                    \<and> eris_Is err e)
          \<and> store (snd (PasswordResetService_Execute cfg lib token newPassword w)) = store w
          \<and> pending (snd (PasswordResetService_Execute cfg lib token newPassword w)) = None
          \<and> last (journal (snd (PasswordResetService_Execute cfg lib token newPassword w))) = TxRollback)"
proof -
  let ?v = "tick (snd (PasswordResetRepository_GetByTokenHash Pool (HashToken lib token) w))"
  let ?run = "PasswordResetService_Execute cfg lib token newPassword w"
  note eq = Execute_into_tx [OF lookup stored unused unexpired hashed]
  have fst_eq: "fst ?run = fst (RunInTx (Execute_tx reset h) () ?v)"
    and snd_eq: "snd ?run = snd (snd (RunInTx (Execute_tx reset h) () ?v))"
    by (simp_all add: eq)
  have a: "fst ?run = Return None \<longrightarrow>
            (\<forall>u \<in> set (users (store (snd ?run))). u_ID u = pr_UserID reset \<longrightarrow> u_PasswordHash u = h)
          \<and> (\<forall>p \<in> set (password_resets (store (snd ?run))). pr_ID p = pr_ID reset \<longrightarrow> pr_UsedAt p \<noteq> None)
          \<and> (\<forall>p \<in> set (password_resets (store (snd ?run))). pr_UserID p = pr_UserID reset \<longrightarrow> pr_UsedAt p \<noteq> None)
          \<and> (\<forall>t \<in> set (auth_tokens (store (snd ?run))). at_UserID t = pr_UserID reset \<longrightarrow> at_RevokedAt t \<noteq> None)
          \<and> journal (snd ?run) =
               journal w @ [Stmt Pool ''GetPasswordResetByTokenHash'', TxBegin,
                            Stmt Tx ''UpdateUserPassword'', Stmt Tx ''MarkPasswordResetUsed'',
                            Stmt Tx ''InvalidateAllPasswordResetsForUser'',
                            Stmt Tx ''RevokeAllAuthTokensForUser'', TxCommit]
          \<and> pending (snd ?run) = None"
  proof
    assume "fst ?run = Return None"
    then have ok: "fst (RunInTx (Execute_tx reset h) () ?v) = Return None" by (simp add: fst_eq)
    note s = RunInTx_Execute_tx_success [OF ok]
    note e = reset_statements_effect [OF s(1)]
    from e s(2) s(3) show "(\<forall>u \<in> set (users (store (snd ?run))). u_ID u = pr_UserID reset \<longrightarrow> u_PasswordHash u = h)
          \<and> (\<forall>p \<in> set (password_resets (store (snd ?run))). pr_ID p = pr_ID reset \<longrightarrow> pr_UsedAt p \<noteq> None)
          \<and> (\<forall>p \<in> set (password_resets (store (snd ?run))). pr_UserID p = pr_UserID reset \<longrightarrow> pr_UsedAt p \<noteq> None)
          \<and> (\<forall>t \<in> set (auth_tokens (store (snd ?run))). at_UserID t = pr_UserID reset \<longrightarrow> at_RevokedAt t \<noteq> None)
          \<and> journal (snd ?run) =
               journal w @ [Stmt Pool ''GetPasswordResetByTokenHash'', TxBegin,
                            Stmt Tx ''UpdateUserPassword'', Stmt Tx ''MarkPasswordResetUsed'',
                            Stmt Tx ''InvalidateAllPasswordResetsForUser'',
                            Stmt Tx ''RevokeAllAuthTokensForUser'', TxCommit]
          \<and> pending (snd ?run) = None"
      unfolding snd_eq by simp
  qed
  have b: "fst ?run \<noteq> Return None \<longrightarrow>
            (\<exists>err. fst ?run = Return (Some err)) \<and> store (snd ?run) = store w"
  proof
    assume n: "fst ?run \<noteq> Return None"
    from RunInTx_Execute_tx_returns [of reset h ?v] obtain r where "fst ?run = Return r"
      by (auto simp: fst_eq)
    with n have "\<exists>err. fst ?run = Return (Some err)" by (cases r) auto
    with Execute_keeps_store_on_error [OF n]
    show "(\<exists>err. fst ?run = Return (Some err)) \<and> store (snd ?run) = store w" by simp
  qed
  have c: "\<forall>i e. i < 4 \<and> nth_fault w 1 = None \<and> (\<forall>j<i. nth_fault w (2 + j) = None)
                 \<and> nth_fault w (2 + i) = Some e \<longrightarrow>
            (\<exists>err. fst ?run = Return (Some err) \<and> eris_Is err e)
          \<and> store (snd ?run) = store w
          \<and> pending (snd ?run) = None
          \<and> last (journal (snd ?run)) = TxRollback"
  proof (intro allI impI)
    fix i e
    assume h: "i < 4 \<and> nth_fault w 1 = None \<and> (\<forall>j<i. nth_fault w (2 + j) = None)
                 \<and> nth_fault w (2 + i) = Some e"
    then have bg: "nth_fault ?v 0 = None"
      and earlier: "\<forall>j<i. nth_fault ?v (Suc j) = None"
      and hit: "nth_fault ?v (Suc i) = Some e"
      by simp_all
    from h have i: "i < 4" by simp
    note f = Execute_substep_fails [OF bg i earlier hit, of reset h]
    from f(1) have "fst ?run \<noteq> Return None" unfolding fst_eq by auto
    then have st: "store (snd ?run) = store w" by (rule Execute_keeps_store_on_error)
    from f(1) have c1: "\<exists>err. fst ?run = Return (Some err) \<and> eris_Is err e" unfolding fst_eq .
    from f(2) have c2: "pending (snd ?run) = None" unfolding snd_eq .
    from f(3) have c3: "last (journal (snd ?run)) = TxRollback" unfolding snd_eq .
    show "(\<exists>err. fst ?run = Return (Some err) \<and> eris_Is err e)
          \<and> store (snd ?run) = store w
          \<and> pending (snd ?run) = None
          \<and> last (journal (snd ?run)) = TxRollback"
      by (rule conjI [OF c1 conjI [OF st conjI [OF c2 c3]]])
  qed
  show ?thesis by (rule conjI [OF a conjI [OF b c]])
qed

lemma Execute_succeeds:
  assumes lookup: "nth_fault w 0 = None"
    and stored: "find (\<lambda>r. pr_TokenHash r = HashToken lib token) (password_resets (store w)) = Some reset"
    and unused: "pr_UsedAt reset = None"
    and unexpired: "\<not> pr_ExpiresAt reset < clock w"
    and hashed: "bcrypt_GenerateFromPassword lib newPassword (BcryptCost (Auth cfg)) = Inr h"
    and ok: "calls_ok 7 w"
  shows "fst (PasswordResetService_Execute cfg lib token newPassword w) = Return None"
proof -
  let ?v = "tick (snd (PasswordResetRepository_GetByTokenHash Pool (HashToken lib token) w))"
  let ?w1 = "snd (BeginTx ?v)"
  let ?w2 = "snd (snd (Execute_tx reset h () ?w1))"
  note f = calls_okD [OF ok]
  have b: "nth_fault ?v 0 = None" by (simp add: f)
  then have p: "pending ?w1 = Some (store ?v)" by simp
  have g: "nth_fault ?w1 0 = None" "nth_fault ?w1 1 = None" "nth_fault ?w1 2 = None" "nth_fault ?w1 3 = None"
    by (simp_all add: f)
  have o: "fst (Execute_tx reset h () ?w1) = Return None"
    by (simp add: Execute_tx_outcome [OF p] f)
  note d = Execute_tx_done [OF p g, of reset h "()"]
  have c: "fst (Tx_Commit ?w2) = None"
    using d(1) d(3) [of 0] by (simp add: f)
  from RunInTx_success(1) [of ?v "Execute_tx reset h" "()", OF b o] c
  have "fst (RunInTx (Execute_tx reset h) () ?v) = Return None" by simp
  then show ?thesis
    by (simp add: Execute_into_tx [OF lookup stored unused unexpired hashed])
qed

lemma HashToken_demo_reset: "HashToken demo_lib ''reset'' = ''7265736574''"
  by (simp add: HashToken_def demo_lib_def hextable_def)

lemma reset_one_found:
  "find (\<lambda>r. pr_TokenHash r = HashToken demo_lib ''reset'')
     (password_resets (store (world_of reset_db fs ent))) = Some reset_one"
  by (simp add: HashToken_demo_reset reset_db_def reset_one_def)

lemma demo_bcrypt:
  "bcrypt_GenerateFromPassword demo_lib ''newpass'' (BcryptCost (Auth (Load no_settings))) = Inr ''$2a$newpass''"
  by (simp add: demo_lib_def)

text \<open>
  A reset that goes through, and the same reset with the second statement of the
  transaction failing.
\<close>

theorem C1_execute_reset_atomic_witness:
  "nth_fault (world_of reset_db [] []) 0 = None
   \<and> find (\<lambda>r. pr_TokenHash r = HashToken demo_lib ''reset'')
        (password_resets (store (world_of reset_db [] []))) = Some reset_one
   \<and> pr_UsedAt reset_one = None
   \<and> \<not> pr_ExpiresAt reset_one < clock (world_of reset_db [] [])
   \<and> fst (PasswordResetService_Execute (Load no_settings) demo_lib ''reset'' ''newpass''
           (world_of reset_db [] [])) = Return None
   \<and> journal (snd (PasswordResetService_Execute (Load no_settings) demo_lib ''reset'' ''newpass''
           (world_of reset_db [] []))) =
        [Stmt Pool ''GetPasswordResetByTokenHash'', TxBegin,
         Stmt Tx ''UpdateUserPassword'', Stmt Tx ''MarkPasswordResetUsed'',
         Stmt Tx ''InvalidateAllPasswordResetsForUser'',
         Stmt Tx ''RevokeAllAuthTokensForUser'', TxCommit]
   \<and> nth_fault (world_of reset_db [None, None, None, Some sql_ErrConnDone] []) 3 = Some sql_ErrConnDone
   \<and> (\<exists>err. fst (PasswordResetService_Execute (Load no_settings) demo_lib ''reset'' ''newpass''
                 (world_of reset_db [None, None, None, Some sql_ErrConnDone] [])) = Return (Some err)
             \<and> eris_Is err sql_ErrConnDone)
   \<and> store (snd (PasswordResetService_Execute (Load no_settings) demo_lib ''reset'' ''newpass''
                 (world_of reset_db [None, None, None, Some sql_ErrConnDone] []))) = reset_db"
proof -
  let ?w = "world_of reset_db [] []"
  let ?x = "world_of reset_db [None, None, None, Some sql_ErrConnDone] []"
  have l: "nth_fault ?w 0 = None" by simp
  have u: "pr_UsedAt reset_one = None" by (simp add: reset_one_def)
  have e: "\<not> pr_ExpiresAt reset_one < clock ?w" by (simp add: reset_one_def)
  have ok: "fst (PasswordResetService_Execute (Load no_settings) demo_lib ''reset'' ''newpass'' ?w) = Return None"
    by (rule Execute_succeeds [OF l reset_one_found u e demo_bcrypt]) simp
  note t = C1_execute_reset_atomic [OF l reset_one_found u e demo_bcrypt]
  from t ok have j: "journal (snd (PasswordResetService_Execute (Load no_settings) demo_lib ''reset'' ''newpass'' ?w)) =
        journal ?w @ [Stmt Pool ''GetPasswordResetByTokenHash'', TxBegin,
         Stmt Tx ''UpdateUserPassword'', Stmt Tx ''MarkPasswordResetUsed'',
         Stmt Tx ''InvalidateAllPasswordResetsForUser'',
         Stmt Tx ''RevokeAllAuthTokensForUser'', TxCommit]"
    by blast
  have lx: "nth_fault ?x 0 = None" by simp
  have ex: "\<not> pr_ExpiresAt reset_one < clock ?x" by (simp add: reset_one_def)
  have fx: "nth_fault ?x 3 = Some sql_ErrConnDone" by (simp add: eval_nat_numeral)
  have hx: "(1::nat) < 4 \<and> nth_fault ?x 1 = None \<and> (\<forall>j<1. nth_fault ?x (2 + j) = None)
            \<and> nth_fault ?x (2 + 1) = Some sql_ErrConnDone"
    by (simp add: eval_nat_numeral)
  note tx = C1_execute_reset_atomic [OF lx reset_one_found u ex demo_bcrypt]
  from tx hx have
    "(\<exists>err. fst (PasswordResetService_Execute (Load no_settings) demo_lib ''reset'' ''newpass'' ?x) = Return (Some err)
             \<and> eris_Is err sql_ErrConnDone)
     \<and> store (snd (PasswordResetService_Execute (Load no_settings) demo_lib ''reset'' ''newpass'' ?x)) = store ?x"
    by blast
  with l reset_one_found [of "[]" "[]"] u e ok j fx show ?thesis by simp
qed

section \<open>Account Deletion workflow\<close>

lemma ScheduleDeletion_tx_frame [simp]:
  "store (snd (snd (ScheduleDeletion_tx userID at env w))) = store w"
  "outbox (snd (snd (ScheduleDeletion_tx userID at env w))) = outbox w"
  "sentry (snd (snd (ScheduleDeletion_tx userID at env w))) = sentry w"
  "count_list (journal (snd (snd (ScheduleDeletion_tx userID at env w)))) (Enqueue ty) =
     count_list (journal w) (Enqueue ty)"
  by (simp_all add: ScheduleDeletion_tx_def case_prod_beta Let_def split: option.splits sum.splits)

lemma ScheduleDeletion_tx_never_panics: "fst (ScheduleDeletion_tx userID at env w) \<noteq> Panic p"
  by (simp add: ScheduleDeletion_tx_def case_prod_beta Let_def split: option.splits sum.splits)

lemma ScheduleDeletion_tx_absent:
  assumes "pending w = Some d" and "nth_fault w 0 = None"
    and "find (\<lambda>x. u_ID x = userID) (users d) = None"
  shows "fst (ScheduleDeletion_tx userID at env w) = Return (Some ErrUserNotFound)"
  using assms
  by (simp add: ScheduleDeletion_tx_def case_prod_beta Let_def UserRepository_GetByID_fst)

lemma ScheduleDeletion_tx_already:
  assumes "pending w = Some d" and "nth_fault w 0 = None"
    and "find (\<lambda>x. u_ID x = userID) (users d) = Some u" and "u_DeletionScheduledAt u \<noteq> None"
  shows "fst (ScheduleDeletion_tx userID at env w) = Return (Some ErrDeletionAlreadyScheduled)"
  using assms
  by (simp add: ScheduleDeletion_tx_def case_prod_beta Let_def UserRepository_GetByID_fst)

lemma ScheduleDeletion_tx_outcome:
  assumes "pending w = Some d" and "nth_fault w 0 = None"
    and "find (\<lambda>x. u_ID x = userID) (users d) = Some u" and "u_DeletionScheduledAt u = None"
  shows "fst (ScheduleDeletion_tx userID at env w) =
     (case nth_fault w 1 of
        Some e \<Rightarrow> Return (Some (Wrap (Wrap e ''failed to schedule user deletion'')
                                  ''failed to schedule user deletion''))
      | None \<Rightarrow>
         (case nth_fault w 2 of
            Some e \<Rightarrow> Return (Some (Wrap (Wrap e ''failed to revoke all auth tokens for user'')
                                      ''failed to revoke all auth tokens for user''))
          | None \<Rightarrow> Return None))"
  using assms
  by (simp add: ScheduleDeletion_tx_def case_prod_beta Let_def UserRepository_GetByID_fst
      UserRepository_ScheduleDeletion_fst AuthTokenRepository_RevokeAllForUser_fst eval_nat_numeral
      split: option.splits)

lemma ScheduleDeletion_tx_success_inv:
  assumes p: "pending w = Some d"
    and ok: "fst (ScheduleDeletion_tx userID at env w) = Return None"
  shows "nth_fault w 0 = None" and "nth_fault w 1 = None" and "nth_fault w 2 = None"
    and "\<exists>u. find (\<lambda>x. u_ID x = userID) (users d) = Some u \<and> u_DeletionScheduledAt u = None"
  using assms
  by (auto simp: ScheduleDeletion_tx_def case_prod_beta Let_def UserRepository_GetByID_fst
      UserRepository_ScheduleDeletion_fst AuthTokenRepository_RevokeAllForUser_fst eval_nat_numeral
      split: option.splits sum.splits if_splits)

lemma ScheduleDeletion_tx_done:
  assumes "pending w = Some d" and "nth_fault w 0 = None"
    and "find (\<lambda>x. u_ID x = userID) (users d) = Some u" and "u_DeletionScheduledAt u = None"
    and "nth_fault w 1 = None" and "nth_fault w 2 = None"
  shows "pending (snd (snd (ScheduleDeletion_tx userID at env w))) =
           Some (snd (RevokeAllAuthTokensForUser (Some (clock (tick w))) userID
                  (snd (ScheduleUserDeletion (Some at) (clock w) userID d))))"
    and "journal (snd (snd (ScheduleDeletion_tx userID at env w))) =
           journal w @ [Stmt Tx ''GetUserByID'', Stmt Tx ''ScheduleUserDeletion'',
                        Stmt Tx ''RevokeAllAuthTokensForUser'']"
    and "nth_fault (snd (snd (ScheduleDeletion_tx userID at env w))) k = nth_fault w (k + 3)"
    and "fst (snd (ScheduleDeletion_tx userID at env w)) = (u_Email u, u_Name u)"
    and "next_uuid (snd (snd (ScheduleDeletion_tx userID at env w))) = next_uuid w"
  using assms
  by (simp_all add: ScheduleDeletion_tx_def case_prod_beta Let_def UserRepository_GetByID_fst
      UserRepository_ScheduleDeletion_fst AuthTokenRepository_RevokeAllForUser_fst eval_nat_numeral
      split: option.splits)

lemma RunInTx_keeps_outbox:
  assumes "\<And>e v. outbox (snd (snd (fn e v))) = outbox v"
  shows "outbox (snd (snd (RunInTx fn env w))) = outbox w"
  using assms
  by (auto simp: RunInTx_def case_prod_beta split: option.splits outcome.splits)

lemma RunInTx_no_enqueue:
  assumes "\<And>e v. count_list (journal (snd (snd (fn e v)))) (Enqueue ty) = count_list (journal v) (Enqueue ty)"
  shows "count_list (journal (snd (snd (RunInTx fn env w)))) (Enqueue ty) = count_list (journal w) (Enqueue ty)"
  using assms
  by (auto simp: RunInTx_def case_prod_beta split: option.splits outcome.splits)

lemma RunInTx_ScheduleDeletion_returns:
  "\<exists>r. fst (RunInTx (ScheduleDeletion_tx userID at) env v) = Return r"
  using ScheduleDeletion_tx_never_panics [of userID at env "snd (BeginTx v)"]
  by (cases "fst (ScheduleDeletion_tx userID at env (snd (BeginTx v)))")
     (auto simp: RunInTx_def case_prod_beta split: option.splits)

lemma ScheduleDeletion_unfold:
  "UserService_ScheduleDeletion cfg userID w =
     (case fst (RunInTx (ScheduleDeletion_tx userID (clock w + AccountDeletionDelay (Auth cfg))) ([], []) (tick w)) of
        Panic p \<Rightarrow> (Panic p, snd (snd (RunInTx (ScheduleDeletion_tx userID (clock w + AccountDeletionDelay (Auth cfg))) ([], []) (tick w))))
      | Return (Some err) \<Rightarrow>
          (Return (Some err), snd (snd (RunInTx (ScheduleDeletion_tx userID (clock w + AccountDeletionDelay (Auth cfg))) ([], []) (tick w))))
      | Return None \<Rightarrow>
          (Return None,
           EnqueueCtx TypeEmail
              \<lparr>ep_To = fst (fst (snd (RunInTx (ScheduleDeletion_tx userID (clock w + AccountDeletionDelay (Auth cfg))) ([], []) (tick w)))),
               ep_Subject = ''Sua conta ser'' @ [CHR 0xC3, CHR 0xA1] @ '' exclu''
                            @ [CHR 0xC3, CHR 0xAD] @ ''da - ZapAgenda'',
               ep_Template = ''account-deletion-scheduled'',
               ep_Data = [(''Name'', Str (snd (fst (snd (RunInTx (ScheduleDeletion_tx userID (clock w + AccountDeletionDelay (Auth cfg))) ([], []) (tick w)))))),
                          (''ScheduledAt'', Date_02_01_2006 (clock w + AccountDeletionDelay (Auth cfg))),
                          (''DaysLeft'', Hours_div_24 (AccountDeletionDelay (Auth cfg)))]\<rparr>
              (EmailTaskOptions cfg)
              (snd (snd (RunInTx (ScheduleDeletion_tx userID (clock w + AccountDeletionDelay (Auth cfg))) ([], []) (tick w))))))"
  by (simp add: UserService_ScheduleDeletion_def Let_def case_prod_beta Time_Add_def
      split: outcome.splits option.splits)


lemma schedule_statements_tables [simp]:
  "users (snd (ScheduleUserDeletion a t i d)) =
     map (\<lambda>u. if u_ID u = i then u\<lparr>u_DeletionScheduledAt := a, u_UpdatedAt := t\<rparr> else u) (users d)"
  "auth_tokens (snd (ScheduleUserDeletion a t i d)) = auth_tokens d"
  "password_resets (snd (ScheduleUserDeletion a t i d)) = password_resets d"
  by (simp_all add: ScheduleUserDeletion_def)

lemma RunInTx_ScheduleDeletion_success:
  assumes ok: "fst (RunInTx (ScheduleDeletion_tx userID at) env v) = Return None"
  shows "\<exists>u. find (\<lambda>x. u_ID x = userID) (users (store v)) = Some u \<and> u_DeletionScheduledAt u = None
             \<and> fst (snd (RunInTx (ScheduleDeletion_tx userID at) env v)) = (u_Email u, u_Name u)"
    and "store (snd (snd (RunInTx (ScheduleDeletion_tx userID at) env v))) =
           snd (RevokeAllAuthTokensForUser (Some (clock (tick v))) userID
                  (snd (ScheduleUserDeletion (Some at) (clock v) userID (store v))))"
    and "journal (snd (snd (RunInTx (ScheduleDeletion_tx userID at) env v))) =
           journal v @ [TxBegin, Stmt Tx ''GetUserByID'', Stmt Tx ''ScheduleUserDeletion'',
                        Stmt Tx ''RevokeAllAuthTokensForUser'', TxCommit]"
    and "pending (snd (snd (RunInTx (ScheduleDeletion_tx userID at) env v))) = None"
proof -
  let ?w1 = "snd (BeginTx v)"
  let ?w2 = "snd (snd (ScheduleDeletion_tx userID at env ?w1))"
  from ok have b: "nth_fault v 0 = None"
    by (auto simp: RunInTx_def case_prod_beta split: option.splits)
  then have p: "pending ?w1 = Some (store v)" by simp
  from ok b have o: "fst (ScheduleDeletion_tx userID at env ?w1) = Return None"
    by (auto simp: RunInTx_def case_prod_beta split: option.splits outcome.splits)
  note i = ScheduleDeletion_tx_success_inv [OF p o]
  from i(4) obtain u where u: "find (\<lambda>x. u_ID x = userID) (users (store v)) = Some u"
    "u_DeletionScheduledAt u = None" by blast
  note d = ScheduleDeletion_tx_done [OF p i(1) u i(2) i(3), of at env]
  note r = RunInTx_success [of v "ScheduleDeletion_tx userID at" env, OF b o]
  from ok r(1) have "fst (Tx_Commit ?w2) = None" by (auto split: option.splits)
  then have c0: "nth_fault ?w2 0 = None" by (auto split: option.splits)
  from u d(4) r(3)
  show "\<exists>u. find (\<lambda>x. u_ID x = userID) (users (store v)) = Some u \<and> u_DeletionScheduledAt u = None
             \<and> fst (snd (RunInTx (ScheduleDeletion_tx userID at) env v)) = (u_Email u, u_Name u)"
    by simp
  show "store (snd (snd (RunInTx (ScheduleDeletion_tx userID at) env v))) =
           snd (RevokeAllAuthTokensForUser (Some (clock (tick v))) userID
                  (snd (ScheduleUserDeletion (Some at) (clock v) userID (store v))))"
    unfolding r(2) using c0 d(1) by simp
  show "journal (snd (snd (RunInTx (ScheduleDeletion_tx userID at) env v))) =
           journal v @ [TxBegin, Stmt Tx ''GetUserByID'', Stmt Tx ''ScheduleUserDeletion'',
                        Stmt Tx ''RevokeAllAuthTokensForUser'', TxCommit]"
    unfolding r(2) using d(2) by simp
  show "pending (snd (snd (RunInTx (ScheduleDeletion_tx userID at) env v))) = None"
    unfolding r(2) by simp
qed

lemma RunInTx_ScheduleDeletion_succeeds:
  assumes ok: "calls_ok 5 v"
    and u: "find (\<lambda>x. u_ID x = userID) (users (store v)) = Some u" "u_DeletionScheduledAt u = None"
  shows "fst (RunInTx (ScheduleDeletion_tx userID at) env v) = Return None"
    and "nth_fault (snd (snd (RunInTx (ScheduleDeletion_tx userID at) env v))) k = nth_fault v (k + 5)"
    and "next_uuid (snd (snd (RunInTx (ScheduleDeletion_tx userID at) env v))) = next_uuid v"
proof -
  let ?w1 = "snd (BeginTx v)"
  let ?w2 = "snd (snd (ScheduleDeletion_tx userID at env ?w1))"
  note f = calls_okD [OF ok]
  have b: "nth_fault v 0 = None" by (simp add: f)
  then have p: "pending ?w1 = Some (store v)" by simp
  have g: "nth_fault ?w1 0 = None" "nth_fault ?w1 1 = None" "nth_fault ?w1 2 = None"
    by (simp_all add: f)
  have o: "fst (ScheduleDeletion_tx userID at env ?w1) = Return None"
    by (simp add: ScheduleDeletion_tx_outcome [OF p g(1) u] f)
  note d = ScheduleDeletion_tx_done [OF p g(1) u g(2) g(3), of at env]
  have c: "fst (Tx_Commit ?w2) = None"
    using d(1) d(3) [of 0] by (simp add: f)
  note r = RunInTx_success [of v "ScheduleDeletion_tx userID at" env, OF b o]
  from r(1) c show "fst (RunInTx (ScheduleDeletion_tx userID at) env v) = Return None" by simp
  show "nth_fault (snd (snd (RunInTx (ScheduleDeletion_tx userID at) env v))) k = nth_fault v (k + 5)"
    unfolding r(2) using d(3) [of "Suc k"] by (simp add: eval_nat_numeral)
  show "next_uuid (snd (snd (RunInTx (ScheduleDeletion_tx userID at) env v))) = next_uuid v"
    unfolding r(2) using d(5) by simp
qed

lemma RunInTx_ScheduleDeletion_rejects:
  assumes b: "nth_fault v 0 = None" and l: "nth_fault v 1 = None"
  shows "find (\<lambda>x. u_ID x = userID) (users (store v)) = None \<Longrightarrow>
           \<exists>err. fst (RunInTx (ScheduleDeletion_tx userID at) env v) = Return (Some err)
                 \<and> eris_Is err ErrUserNotFound"
    and "find (\<lambda>x. u_ID x = userID) (users (store v)) = Some u \<Longrightarrow> u_DeletionScheduledAt u \<noteq> None \<Longrightarrow>
           \<exists>err. fst (RunInTx (ScheduleDeletion_tx userID at) env v) = Return (Some err)
                 \<and> eris_Is err ErrDeletionAlreadyScheduled"
proof -
  let ?w1 = "snd (BeginTx v)"
  from b have p: "pending ?w1 = Some (store v)" by simp
  from l have g: "nth_fault ?w1 0 = None" by simp
  show "\<exists>err. fst (RunInTx (ScheduleDeletion_tx userID at) env v) = Return (Some err)
                 \<and> eris_Is err ErrUserNotFound"
    if "find (\<lambda>x. u_ID x = userID) (users (store v)) = None"
    using RunInTx_error_kept [of v "ScheduleDeletion_tx userID at" env ErrUserNotFound, OF b]
      ScheduleDeletion_tx_absent [OF p g that, of at env] by simp
  show "\<exists>err. fst (RunInTx (ScheduleDeletion_tx userID at) env v) = Return (Some err)
                 \<and> eris_Is err ErrDeletionAlreadyScheduled"
    if "find (\<lambda>x. u_ID x = userID) (users (store v)) = Some u" "u_DeletionScheduledAt u \<noteq> None"
    using RunInTx_error_kept [of v "ScheduleDeletion_tx userID at" env ErrDeletionAlreadyScheduled, OF b]
      ScheduleDeletion_tx_already [OF p g that, of at env] by simp
qed


lemma ScheduleDeletion_fst:
  "fst (UserService_ScheduleDeletion cfg userID w) =
     fst (RunInTx (ScheduleDeletion_tx userID (clock w + AccountDeletionDelay (Auth cfg))) ([], []) (tick w))"
  by (simp add: ScheduleDeletion_unfold split: outcome.splits option.splits)

lemma ScheduleDeletion_snd_failed:
  assumes "fst (UserService_ScheduleDeletion cfg userID w) \<noteq> Return None"
  shows "snd (UserService_ScheduleDeletion cfg userID w) =
     snd (snd (RunInTx (ScheduleDeletion_tx userID (clock w + AccountDeletionDelay (Auth cfg))) ([], []) (tick w)))"
  using assms unfolding ScheduleDeletion_fst
  by (simp add: ScheduleDeletion_unfold split: outcome.splits option.splits)

lemma ScheduleDeletion_snd_done:
  assumes "fst (UserService_ScheduleDeletion cfg userID w) = Return None"
  shows "store (snd (UserService_ScheduleDeletion cfg userID w)) =
     store (snd (snd (RunInTx (ScheduleDeletion_tx userID (clock w + AccountDeletionDelay (Auth cfg))) ([], []) (tick w))))"
   and "journal (snd (UserService_ScheduleDeletion cfg userID w)) =
     journal (snd (snd (RunInTx (ScheduleDeletion_tx userID (clock w + AccountDeletionDelay (Auth cfg))) ([], []) (tick w))))
       @ [Enqueue TypeEmail]"
   and "outbox (snd (UserService_ScheduleDeletion cfg userID w)) =
     (if nth_fault (snd (snd (RunInTx (ScheduleDeletion_tx userID (clock w + AccountDeletionDelay (Auth cfg))) ([], []) (tick w)))) 0 = None
      then outbox w @
        [\<lparr>t_Type = TypeEmail,
          t_JobID = next_uuid (snd (snd (RunInTx (ScheduleDeletion_tx userID (clock w + AccountDeletionDelay (Auth cfg))) ([], []) (tick w)))),
          t_Payload =
            \<lparr>ep_To = fst (fst (snd (RunInTx (ScheduleDeletion_tx userID (clock w + AccountDeletionDelay (Auth cfg))) ([], []) (tick w)))),
             ep_Subject = ''Sua conta ser'' @ [CHR 0xC3, CHR 0xA1] @ '' exclu''
                            @ [CHR 0xC3, CHR 0xAD] @ ''da - ZapAgenda'',
             ep_Template = ''account-deletion-scheduled'',
             ep_Data = [(''Name'', Str (snd (fst (snd (RunInTx (ScheduleDeletion_tx userID (clock w + AccountDeletionDelay (Auth cfg))) ([], []) (tick w)))))),
                        (''ScheduledAt'', Date_02_01_2006 (clock w + AccountDeletionDelay (Auth cfg))),
                        (''DaysLeft'', Hours_div_24 (AccountDeletionDelay (Auth cfg)))]\<rparr>,
          t_MaxRetry = fst (EmailTaskOptions cfg), t_Timeout = fst (snd (EmailTaskOptions cfg)),
          t_Retention = snd (snd (EmailTaskOptions cfg))\<rparr>]
      else outbox w)"
  using assms unfolding ScheduleDeletion_fst
  by (simp_all add: ScheduleDeletion_unfold RunInTx_keeps_outbox)

text \<open>
  Claim C6.  \<open>ScheduleDeletion\<close> reads the user inside the transaction it runs.
  \<^item> With the begin and the lookup going through: when no user has the id the call fails
    with \<open>UserNotFound\<close>, and when the user already has \<open>deletion_scheduled_at\<close> set it
    fails with \<open>DeletionAlreadyScheduled\<close> (the returned error matches the sentinel
    under \<open>errors.Is\<close>; a failed rollback only wraps it).
  \<^item> When the call succeeds, the user was found with no schedule, the committed store has
    \<open>deletion_scheduled_at\<close> of that user set to the time of the call plus the configured
    delay, every auth token of the user is revoked, and the journal is the begin, the
    lookup, the two updates on the transaction, the commit and only then the enqueue.
  \<^item> When the call does not succeed it returns an error, the store and the queue are what
    they were and no enqueue was attempted.
  \<^item> With no failure in the five database calls and a user without a schedule the call
    succeeds; when the broker accepts the task as well, the queue gains one task, addressed
    to the user's email, for the template \<open>account-deletion-scheduled\<close>.
\<close>

theorem C6_schedule_deletion:
  "(calls_ok 2 w \<and> (\<forall>x \<in> set (users (store w)). u_ID x \<noteq> userID) \<longrightarrow>
      (\<exists>err. fst (UserService_ScheduleDeletion cfg userID w) = Return (Some err)
             \<and> eris_Is err ErrUserNotFound))
 \<and> (calls_ok 2 w \<and> find (\<lambda>x. u_ID x = userID) (users (store w)) = Some u
       \<and> u_DeletionScheduledAt u \<noteq> None \<longrightarrow>
      (\<exists>err. fst (UserService_ScheduleDeletion cfg userID w) = Return (Some err)
             \<and> eris_Is err ErrDeletionAlreadyScheduled))
 \<and> (fst (UserService_ScheduleDeletion cfg userID w) = Return None \<longrightarrow>
      (\<exists>x. find (\<lambda>x. u_ID x = userID) (users (store w)) = Some x \<and> u_DeletionScheduledAt x = None)
    \<and> users (store (snd (UserService_ScheduleDeletion cfg userID w))) =
         map (\<lambda>x. if u_ID x = userID
                   then x\<lparr>u_DeletionScheduledAt := Some (clock w + AccountDeletionDelay (Auth cfg)),
                          u_UpdatedAt := clock (tick w)\<rparr>
                   else x) (users (store w))
    \<and> (\<forall>t \<in> set (auth_tokens (store (snd (UserService_ScheduleDeletion cfg userID w)))).
          at_UserID t = userID \<longrightarrow> at_RevokedAt t \<noteq> None)
    \<and> journal (snd (UserService_ScheduleDeletion cfg userID w)) =
         journal w @ [TxBegin, Stmt Tx ''GetUserByID'', Stmt Tx ''ScheduleUserDeletion'',
                      Stmt Tx ''RevokeAllAuthTokensForUser'', TxCommit, Enqueue TypeEmail])
 \<and> (fst (UserService_ScheduleDeletion cfg userID w) \<noteq> Return None \<longrightarrow>
      (\<exists>err. fst (UserService_ScheduleDeletion cfg userID w) = Return (Some err))
    \<and> store (snd (UserService_ScheduleDeletion cfg userID w)) = store w
    \<and> outbox (snd (UserService_ScheduleDeletion cfg userID w)) = outbox w
    \<and> count_list (journal (snd (UserService_ScheduleDeletion cfg userID w))) (Enqueue TypeEmail)
         = count_list (journal w) (Enqueue TypeEmail))
 \<and> (calls_ok 5 w \<and> find (\<lambda>x. u_ID x = userID) (users (store w)) = Some u
       \<and> u_DeletionScheduledAt u = None \<longrightarrow>
      fst (UserService_ScheduleDeletion cfg userID w) = Return None)
 \<and> (calls_ok 6 w \<and> find (\<lambda>x. u_ID x = userID) (users (store w)) = Some u
       \<and> u_DeletionScheduledAt u = None \<longrightarrow>
      (\<exists>t. outbox (snd (UserService_ScheduleDeletion cfg userID w)) = outbox w @ [t]
           \<and> t_Type t = TypeEmail \<and> ep_To (t_Payload t) = u_Email u
           \<and> ep_Template (t_Payload t) = ''account-deletion-scheduled''))"
proof -
  let ?at = "clock w + AccountDeletionDelay (Auth cfg)"
  let ?T = "RunInTx (ScheduleDeletion_tx userID ?at) ([], []) (tick w)"
  let ?R = "UserService_ScheduleDeletion cfg userID w"
  have p1: "calls_ok 2 w \<and> (\<forall>x \<in> set (users (store w)). u_ID x \<noteq> userID) \<longrightarrow>
      (\<exists>err. fst ?R = Return (Some err) \<and> eris_Is err ErrUserNotFound)"
  proof
    assume h: "calls_ok 2 w \<and> (\<forall>x \<in> set (users (store w)). u_ID x \<noteq> userID)"
    then have ok2: "calls_ok 2 w" by simp
    have b: "nth_fault (tick w) 0 = None" "nth_fault (tick w) 1 = None"
      by (simp_all add: calls_okD [OF ok2])
    from h have n: "find (\<lambda>x. u_ID x = userID) (users (store (tick w))) = None"
      by (simp add: find_None_iff)
    from RunInTx_ScheduleDeletion_rejects(1) [OF b n]
    show "\<exists>err. fst ?R = Return (Some err) \<and> eris_Is err ErrUserNotFound"
      unfolding ScheduleDeletion_fst .
  qed
  have p2: "calls_ok 2 w \<and> find (\<lambda>x. u_ID x = userID) (users (store w)) = Some u
       \<and> u_DeletionScheduledAt u \<noteq> None \<longrightarrow>
      (\<exists>err. fst ?R = Return (Some err) \<and> eris_Is err ErrDeletionAlreadyScheduled)"
  proof
    assume h: "calls_ok 2 w \<and> find (\<lambda>x. u_ID x = userID) (users (store w)) = Some u
       \<and> u_DeletionScheduledAt u \<noteq> None"
    then have ok2: "calls_ok 2 w" by simp
    have b: "nth_fault (tick w) 0 = None" "nth_fault (tick w) 1 = None"
      by (simp_all add: calls_okD [OF ok2])
    from h have f: "find (\<lambda>x. u_ID x = userID) (users (store (tick w))) = Some u"
      and s: "u_DeletionScheduledAt u \<noteq> None" by simp_all
    from RunInTx_ScheduleDeletion_rejects(2) [OF b f s]
    show "\<exists>err. fst ?R = Return (Some err) \<and> eris_Is err ErrDeletionAlreadyScheduled"
      unfolding ScheduleDeletion_fst .
  qed
  have p3: "fst ?R = Return None \<longrightarrow>
      (\<exists>x. find (\<lambda>x. u_ID x = userID) (users (store w)) = Some x \<and> u_DeletionScheduledAt x = None)
    \<and> users (store (snd ?R)) =
         map (\<lambda>x. if u_ID x = userID
                   then x\<lparr>u_DeletionScheduledAt := Some ?at, u_UpdatedAt := clock (tick w)\<rparr>
                   else x) (users (store w))
    \<and> (\<forall>t \<in> set (auth_tokens (store (snd ?R))). at_UserID t = userID \<longrightarrow> at_RevokedAt t \<noteq> None)
    \<and> journal (snd ?R) =
         journal w @ [TxBegin, Stmt Tx ''GetUserByID'', Stmt Tx ''ScheduleUserDeletion'',
                      Stmt Tx ''RevokeAllAuthTokensForUser'', TxCommit, Enqueue TypeEmail]"
  proof
    assume ok: "fst ?R = Return None"
    then have okT: "fst ?T = Return None" by (simp add: ScheduleDeletion_fst)
    note s = RunInTx_ScheduleDeletion_success [OF okT]
    note d = ScheduleDeletion_snd_done [OF ok]
    from s(1) have a: "\<exists>x. find (\<lambda>x. u_ID x = userID) (users (store w)) = Some x \<and> u_DeletionScheduledAt x = None"
      by auto
    have b: "users (store (snd ?R)) =
         map (\<lambda>x. if u_ID x = userID
                   then x\<lparr>u_DeletionScheduledAt := Some ?at, u_UpdatedAt := clock (tick w)\<rparr>
                   else x) (users (store w))"
      unfolding d(1) s(2) by simp
    have c: "\<forall>t \<in> set (auth_tokens (store (snd ?R))). at_UserID t = userID \<longrightarrow> at_RevokedAt t \<noteq> None"
      unfolding d(1) s(2) by (simp only: reset_statements_tables schedule_statements_tables ball_set_map) simp
    have j: "journal (snd ?R) =
         journal w @ [TxBegin, Stmt Tx ''GetUserByID'', Stmt Tx ''ScheduleUserDeletion'',
                      Stmt Tx ''RevokeAllAuthTokensForUser'', TxCommit, Enqueue TypeEmail]"
      unfolding d(2) s(3) by simp
    show "(\<exists>x. find (\<lambda>x. u_ID x = userID) (users (store w)) = Some x \<and> u_DeletionScheduledAt x = None)
    \<and> users (store (snd ?R)) =
         map (\<lambda>x. if u_ID x = userID
                   then x\<lparr>u_DeletionScheduledAt := Some ?at, u_UpdatedAt := clock (tick w)\<rparr>
                   else x) (users (store w))
    \<and> (\<forall>t \<in> set (auth_tokens (store (snd ?R))). at_UserID t = userID \<longrightarrow> at_RevokedAt t \<noteq> None)
    \<and> journal (snd ?R) =
         journal w @ [TxBegin, Stmt Tx ''GetUserByID'', Stmt Tx ''ScheduleUserDeletion'',
                      Stmt Tx ''RevokeAllAuthTokensForUser'', TxCommit, Enqueue TypeEmail]"
      by (rule conjI [OF a conjI [OF b conjI [OF c j]]])
  qed
  have p4: "fst ?R \<noteq> Return None \<longrightarrow>
      (\<exists>err. fst ?R = Return (Some err))
    \<and> store (snd ?R) = store w
    \<and> outbox (snd ?R) = outbox w
    \<and> count_list (journal (snd ?R)) (Enqueue TypeEmail) = count_list (journal w) (Enqueue TypeEmail)"
  proof
    assume n: "fst ?R \<noteq> Return None"
    then have nT: "fst ?T \<noteq> Return None" by (simp add: ScheduleDeletion_fst)
    from RunInTx_ScheduleDeletion_returns [of userID ?at "([], [])" "tick w"]
    obtain r where "fst ?R = Return r" by (auto simp: ScheduleDeletion_fst)
    with n have a: "\<exists>err. fst ?R = Return (Some err)" by (cases r) auto
    have b: "store (snd ?R) = store w"
      unfolding ScheduleDeletion_snd_failed [OF n]
      using RunInTx_keeps_store_unless_committed [of "ScheduleDeletion_tx userID ?at" "([], [])" "tick w"] nT
      by simp
    have c: "outbox (snd ?R) = outbox w"
      unfolding ScheduleDeletion_snd_failed [OF n] by (simp add: RunInTx_keeps_outbox)
    have d: "count_list (journal (snd ?R)) (Enqueue TypeEmail) = count_list (journal w) (Enqueue TypeEmail)"
      unfolding ScheduleDeletion_snd_failed [OF n] by (simp add: RunInTx_no_enqueue)
    show "(\<exists>err. fst ?R = Return (Some err))
    \<and> store (snd ?R) = store w
    \<and> outbox (snd ?R) = outbox w
    \<and> count_list (journal (snd ?R)) (Enqueue TypeEmail) = count_list (journal w) (Enqueue TypeEmail)"
      by (rule conjI [OF a conjI [OF b conjI [OF c d]]])
  qed
  have p5: "calls_ok 5 w \<and> find (\<lambda>x. u_ID x = userID) (users (store w)) = Some u
       \<and> u_DeletionScheduledAt u = None \<longrightarrow> fst ?R = Return None"
  proof
    assume h: "calls_ok 5 w \<and> find (\<lambda>x. u_ID x = userID) (users (store w)) = Some u
       \<and> u_DeletionScheduledAt u = None"
    then have ok: "calls_ok 5 (tick w)" by (simp add: calls_ok_def)
    from h have f: "find (\<lambda>x. u_ID x = userID) (users (store (tick w))) = Some u"
      and s: "u_DeletionScheduledAt u = None" by simp_all
    from RunInTx_ScheduleDeletion_succeeds(1) [OF ok f s]
    show "fst ?R = Return None" unfolding ScheduleDeletion_fst .
  qed
  have p6: "calls_ok 6 w \<and> find (\<lambda>x. u_ID x = userID) (users (store w)) = Some u
       \<and> u_DeletionScheduledAt u = None \<longrightarrow>
      (\<exists>t. outbox (snd ?R) = outbox w @ [t]
           \<and> t_Type t = TypeEmail \<and> ep_To (t_Payload t) = u_Email u
           \<and> ep_Template (t_Payload t) = ''account-deletion-scheduled'')"
  proof
    assume h: "calls_ok 6 w \<and> find (\<lambda>x. u_ID x = userID) (users (store w)) = Some u
       \<and> u_DeletionScheduledAt u = None"
    then have ok6: "calls_ok 6 w" by simp
    then have ok: "calls_ok 5 (tick w)" by (simp add: calls_ok_def list_all_iff)
    from h have f: "find (\<lambda>x. u_ID x = userID) (users (store (tick w))) = Some u"
      and s: "u_DeletionScheduledAt u = None" by simp_all
    note r = RunInTx_ScheduleDeletion_succeeds [OF ok f s, of ?at "([], [])"]
    from r(1) have okR: "fst ?R = Return None" unfolding ScheduleDeletion_fst .
    then have okT: "fst ?T = Return None" by (simp add: ScheduleDeletion_fst)
    from RunInTx_ScheduleDeletion_success(1) [OF okT] f
    have env: "fst (snd ?T) = (u_Email u, u_Name u)" by auto
    have q: "nth_fault (snd (snd ?T)) 0 = None"
      using r(2) [of 0] calls_okD [OF ok6, of 5] by simp
    show "\<exists>t. outbox (snd ?R) = outbox w @ [t]
           \<and> t_Type t = TypeEmail \<and> ep_To (t_Payload t) = u_Email u
           \<and> ep_Template (t_Payload t) = ''account-deletion-scheduled''"
      unfolding ScheduleDeletion_snd_done(3) [OF okR] using q env by simp
  qed
  show ?thesis
    by (rule conjI [OF p1 conjI [OF p2 conjI [OF p3 conjI [OF p4 conjI [OF p5 p6]]]]])
qed

lemma alice_found_by_id:
  "find (\<lambda>x. u_ID x = 1) (users (store (world_of alice_db fs ent))) = Some alice"
  by (simp add: alice_db_def alice_def)

lemma alice_leaving_found_by_id:
  "find (\<lambda>x. u_ID x = 1) (users (store (world_of alice_leaving_db fs ent))) = Some alice_leaving"
  by (simp add: alice_leaving_db_def alice_leaving_def alice_def alice_db_def)

text \<open>
  Scheduling the deletion of Alice's account at time 1000 with the default delay, and
  scheduling it again when her account already carries a schedule.
\<close>

theorem C6_schedule_deletion_witness:
  "calls_ok 5 (world_of alice_db [] [])
   \<and> find (\<lambda>x. u_ID x = 1) (users (store (world_of alice_db [] []))) = Some alice
   \<and> u_DeletionScheduledAt alice = None
   \<and> fst (UserService_ScheduleDeletion (Load no_settings) 1 (world_of alice_db [] [])) = Return None
   \<and> users (store (snd (UserService_ScheduleDeletion (Load no_settings) 1 (world_of alice_db [] [])))) =
        [alice\<lparr>u_DeletionScheduledAt := Some (1000 + 720 * Hour), u_UpdatedAt := 1001\<rparr>]
   \<and> journal (snd (UserService_ScheduleDeletion (Load no_settings) 1 (world_of alice_db [] []))) =
        [TxBegin, Stmt Tx ''GetUserByID'', Stmt Tx ''ScheduleUserDeletion'',
         Stmt Tx ''RevokeAllAuthTokensForUser'', TxCommit, Enqueue TypeEmail]
   \<and> calls_ok 2 (world_of alice_leaving_db [] [])
   \<and> find (\<lambda>x. u_ID x = 1) (users (store (world_of alice_leaving_db [] []))) = Some alice_leaving
   \<and> u_DeletionScheduledAt alice_leaving \<noteq> None
   \<and> (\<exists>err. fst (UserService_ScheduleDeletion (Load no_settings) 1 (world_of alice_leaving_db [] []))
               = Return (Some err)
             \<and> eris_Is err ErrDeletionAlreadyScheduled)"
proof -
  let ?w = "world_of alice_db [] []"
  let ?x = "world_of alice_leaving_db [] []"
  have s: "u_DeletionScheduledAt alice = None" by (simp add: alice_def)
  have sx: "u_DeletionScheduledAt alice_leaving \<noteq> None" by (simp add: alice_leaving_def)
  have h5: "calls_ok 5 ?w \<and> find (\<lambda>x. u_ID x = 1) (users (store ?w)) = Some alice
       \<and> u_DeletionScheduledAt alice = None"
    using alice_found_by_id [of "[]" "[]"] s by simp
  have h2: "calls_ok 2 ?x \<and> find (\<lambda>x. u_ID x = 1) (users (store ?x)) = Some alice_leaving
       \<and> u_DeletionScheduledAt alice_leaving \<noteq> None"
    using alice_leaving_found_by_id [of "[]" "[]"] sx by simp
  note t = C6_schedule_deletion [where w = ?w and userID = 1 and u = alice and cfg = "Load no_settings"]
  from t h5 have ok: "fst (UserService_ScheduleDeletion (Load no_settings) 1 ?w) = Return None"
    by blast
  from t ok have e: "users (store (snd (UserService_ScheduleDeletion (Load no_settings) 1 ?w))) =
         map (\<lambda>x. if u_ID x = 1
                   then x\<lparr>u_DeletionScheduledAt := Some (clock ?w + AccountDeletionDelay (Auth (Load no_settings))),
                          u_UpdatedAt := clock (tick ?w)\<rparr>
                   else x) (users (store ?w))
    \<and> journal (snd (UserService_ScheduleDeletion (Load no_settings) 1 ?w)) =
         journal ?w @ [TxBegin, Stmt Tx ''GetUserByID'', Stmt Tx ''ScheduleUserDeletion'',
                      Stmt Tx ''RevokeAllAuthTokensForUser'', TxCommit, Enqueue TypeEmail]"
    by blast
  have m: "map (\<lambda>x. if u_ID x = 1
                   then x\<lparr>u_DeletionScheduledAt := Some (clock ?w + AccountDeletionDelay (Auth (Load no_settings))),
                          u_UpdatedAt := clock (tick ?w)\<rparr>
                   else x) (users (store ?w))
           = [alice\<lparr>u_DeletionScheduledAt := Some (1000 + 720 * Hour), u_UpdatedAt := 1001\<rparr>]"
    by (simp add: alice_db_def alice_def Load_def or_default_def no_settings_def)
  from C6_schedule_deletion [where w = ?x and userID = 1 and u = alice_leaving and cfg = "Load no_settings"] h2
  have r: "\<exists>err. fst (UserService_ScheduleDeletion (Load no_settings) 1 ?x) = Return (Some err)
             \<and> eris_Is err ErrDeletionAlreadyScheduled"
    by blast
  from h5 h2 ok e r show ?thesis unfolding m by simp
qed

section \<open>Requesting a password reset\<close>

lemma GetByEmail_frame_more [simp]:
  "sentry (snd (UserRepository_GetByEmail Pool email w)) = sentry w"
  "ticks (snd (UserRepository_GetByEmail Pool email w)) = ticks w"
  "next_uuid (snd (UserRepository_GetByEmail Pool email w)) = next_uuid w"
  by (simp_all add: UserRepository_GetByEmail_def case_prod_beta split: sum.splits)

lemma Reset_Create_absent:
  assumes "nth_fault w 0 = None"
    and "find (\<lambda>x. u_Email x = email) (users (store w)) = None"
  shows "PasswordResetService_Create cfg lib email w = (None, snd (UserRepository_GetByEmail Pool email w))"
  using assms
  by (simp add: PasswordResetService_Create_def GetByEmail_fst case_prod_beta)

lemma Reset_Create_present:
  assumes "nth_fault w 0 = None"
    and "find (\<lambda>x. u_Email x = email) (users (store w)) = Some u"
    and "\<not> length (entropy w) < 32"
  shows "fst (PasswordResetService_Create cfg lib email w) =
           (case nth_fault w (Suc 0) of
              Some err \<Rightarrow> Some (Wrap (Wrap err ''failed to create password reset'')
                                  ''failed to create password reset'')
            | None \<Rightarrow> None)"
    and "nth_fault w (Suc 0) = None \<Longrightarrow>
           password_resets (store (snd (PasswordResetService_Create cfg lib email w))) =
             password_resets (store w) @
               [\<lparr>pr_ID = next_uuid w, pr_UserID = u_ID u,
                 pr_TokenHash = HashToken lib (hex_EncodeToString (take 32 (entropy w))),
                 pr_ExpiresAt = clock w + PasswordResetTokenTTL (Auth cfg),
                 pr_UsedAt = None, pr_CreatedAt = clock (tick w)\<rparr>]"
    and "nth_fault w (Suc 0) = None \<Longrightarrow>
           journal (snd (PasswordResetService_Create cfg lib email w)) =
             journal w @ [Stmt Pool ''GetUserByEmail'', Stmt Pool ''CreatePasswordReset'', Enqueue TypeEmail]"
  using assms
  by (simp_all add: PasswordResetService_Create_def GetByEmail_fst case_prod_beta Let_def
      PasswordResetRepository_Create_fst Time_Add_def time_Now_simps split: option.splits)

text \<open>
  Claim C4.  Take a request for an email that no user has, with the lookup answered by
  the store, and a request for the email of an existing user in which nothing fails (the
  lookup and the insert go through and the entropy source delivers).  The first returns
  success after the lookup alone: no row is written, nothing is enqueued and nothing is
  reported.  The second returns success as well: the two returned values are the same,
  so the result does not tell the caller which case it was.
\<close>

theorem C4_request_reset_enumeration_resistant:
  assumes "calls_ok 1 w"
    and absent: "\<forall>x \<in> set (users (store w)). u_Email x \<noteq> email"
    and "calls_ok 2 w'"
    and present: "find (\<lambda>x. u_Email x = email') (users (store w')) = Some u"
    and entropy: "32 \<le> length (entropy w')"
  shows "fst (PasswordResetService_Create cfg lib email w) = None
       \<and> store (snd (PasswordResetService_Create cfg lib email w)) = store w
       \<and> outbox (snd (PasswordResetService_Create cfg lib email w)) = outbox w
       \<and> sentry (snd (PasswordResetService_Create cfg lib email w)) = sentry w
       \<and> journal (snd (PasswordResetService_Create cfg lib email w)) =
            journal w @ [Stmt Pool ''GetUserByEmail'']
       \<and> fst (PasswordResetService_Create cfg lib email' w') = None
       \<and> fst (PasswordResetService_Create cfg lib email w)
            = fst (PasswordResetService_Create cfg lib email' w')"
proof -
  from assms(1) have l: "nth_fault w 0 = None" by (rule calls_okD) simp
  from absent have n: "find (\<lambda>x. u_Email x = email) (users (store w)) = None"
    by (simp add: find_None_iff)
  note a = Reset_Create_absent [OF l n, of cfg lib]
  from assms(3) have l': "nth_fault w' 0 = None" and i': "nth_fault w' (Suc 0) = None"
    by (simp_all add: calls_okD)
  from entropy have e: "\<not> length (entropy w') < 32" by simp
  from Reset_Create_present(1) [OF l' present e, of cfg lib] i'
  have b: "fst (PasswordResetService_Create cfg lib email' w') = None" by simp
  from b show ?thesis unfolding a by simp
qed

lemma alice_found:
  "find (\<lambda>x. u_Email x = ''alice@example.com'') (users (store (world_of alice_db fs ent))) = Some alice"
  by (simp add: alice_db_def alice_def)

text \<open>A request for an unknown address beside a request for Alice's.\<close>

theorem C4_request_reset_enumeration_resistant_witness:
  "calls_ok 1 (world_of alice_db [] [])
   \<and> calls_ok 2 (world_of alice_db [] (replicate 32 0))
   \<and> find (\<lambda>x. u_Email x = ''alice@example.com'')
        (users (store (world_of alice_db [] (replicate 32 0)))) = Some alice
   \<and> fst (PasswordResetService_Create (Load no_settings) demo_lib ''nonexistent@example.com''
          (world_of alice_db [] [])) = None
   \<and> store (snd (PasswordResetService_Create (Load no_settings) demo_lib ''nonexistent@example.com''
          (world_of alice_db [] []))) = alice_db
   \<and> outbox (snd (PasswordResetService_Create (Load no_settings) demo_lib ''nonexistent@example.com''
          (world_of alice_db [] []))) = []
   \<and> fst (PasswordResetService_Create (Load no_settings) demo_lib ''alice@example.com''
          (world_of alice_db [] (replicate 32 0))) = None"
proof -
  have a: "\<forall>x \<in> set (users (store (world_of alice_db [] []))). u_Email x \<noteq> ''nonexistent@example.com''"
    by (simp add: alice_db_def alice_def)
  have e: "32 \<le> length (entropy (world_of alice_db [] (replicate 32 0)))" by simp
  from C4_request_reset_enumeration_resistant
         [OF calls_ok_world_of a calls_ok_world_of alice_found e, of "Load no_settings" demo_lib]
    alice_found [of "[]" "replicate 32 0"]
  show ?thesis by simp
qed

section \<open>Token lifetimes under the default configuration\<close>

lemma nth_fault_clock_update [simp]:
  "nth_fault (w\<lparr>clock := c\<rparr>) k = nth_fault w k"
  by (simp add: nth_fault_def)

lemma generateToken_faults [simp]:
  "nth_fault (snd (generateToken cfg lib userID w)) k =
     (if length (entropy w) < 32 then nth_fault w k else nth_fault w (Suc k))"
  by (simp add: generateToken_def AuthTokenRepository_Create_def case_prod_beta Let_def
      split: option.splits sum.splits)

lemma Load_defaults:
  "set_auth_token_ttl s = None \<Longrightarrow> AuthTokenTTL (Auth (Load s)) = 0"
  "set_password_reset_token_ttl s = None \<Longrightarrow> PasswordResetTokenTTL (Auth (Load s)) = 1 * Hour"
  "set_email_confirmation_token_ttl s = None \<Longrightarrow> EmailConfirmationTokenTTL (Auth (Load s)) = 24 * Hour"
  by (simp_all add: Load_def or_default_def)

lemma generateToken_issued:
  assumes "fst (generateToken cfg lib userID w) = Inr token"
  shows "store (snd (generateToken cfg lib userID w)) =
           (store w)\<lparr>auth_tokens := auth_tokens (store w) @
              [\<lparr>at_ID = next_uuid w, at_UserID = userID, at_TokenHash = HashToken lib token,
                at_ExpiresAt = clock w + (if AuthTokenTTL (Auth cfg) = 0 then DefaultAuthTokenTTL
                                           else AuthTokenTTL (Auth cfg)),
                at_RevokedAt = None, at_CreatedAt = clock (tick w)\<rparr>]\<rparr>"
proof -
  from assms have e: "\<not> length (entropy w) < 32"
    by (auto simp add: generateToken_fst split: if_splits)
  with assms have f: "nth_fault w 0 = None" and t: "token = hex_EncodeToString (take 32 (entropy w))"
    by (auto simp add: generateToken_fst split: option.splits)
  from e f show ?thesis unfolding t by (simp add: Time_Add_def)
qed

lemma Reset_Create_issued:
  assumes "nth_fault w 0 = None"
    and "find (\<lambda>x. u_Email x = email) (users (store w)) = Some u"
    and "fst (PasswordResetService_Create cfg lib email w) = None"
  shows "password_resets (store (snd (PasswordResetService_Create cfg lib email w))) =
           password_resets (store w) @
             [\<lparr>pr_ID = next_uuid w, pr_UserID = u_ID u,
               pr_TokenHash = HashToken lib (hex_EncodeToString (take 32 (entropy w))),
               pr_ExpiresAt = clock w + PasswordResetTokenTTL (Auth cfg),
               pr_UsedAt = None, pr_CreatedAt = clock (tick w)\<rparr>]"
proof -
  have e: "\<not> length (entropy w) < 32"
  proof
    assume "length (entropy w) < 32"
    with assms(1,2) have "fst (PasswordResetService_Create cfg lib email w) \<noteq> None"
      by (simp add: PasswordResetService_Create_def GetByEmail_fst case_prod_beta)
    with assms(3) show False by simp
  qed
  from Reset_Create_present(1) [OF assms(1,2) e, of cfg lib] assms(3)
  have "nth_fault w (Suc 0) = None" by (simp split: option.splits)
  then show ?thesis by (rule Reset_Create_present(2) [OF assms(1,2) e])
qed

lemma Verification_Send_issued:
  assumes "fst (EmailVerificationService_Send cfg lib userID w) = None"
  shows "email_verifications (store (snd (EmailVerificationService_Send cfg lib userID w))) =
           map (\<lambda>v. if ev_UserID v = userID \<and> ev_UsedAt v = None
                    then v\<lparr>ev_UsedAt := Some (clock (tick w))\<rparr> else v)
               (email_verifications (store w)) @
             [\<lparr>ev_ID = next_uuid w, ev_UserID = userID,
               ev_TokenHash = HashToken lib (hex_EncodeToString (take 32 (entropy w))),
               ev_ExpiresAt = clock w + EmailConfirmationTokenTTL (Auth cfg),
               ev_UsedAt = None, ev_CreatedAt = clock (tick (tick w))\<rparr>]"
  using assms
  by (auto simp add: EmailVerificationService_Send_def UserRepository_GetByID_fst case_prod_beta Let_def
      EmailVerificationRepository_InvalidateAllForUser_fst EmailVerificationRepository_Create_fst
      InvalidateAllEmailVerificationsForUser_def Time_Add_def
      split: option.splits sum.splits if_splits)

text \<open>
  Claim C8, as the code has it.  When the three lifetimes are unset, the configuration
  that is loaded carries 0 for the session token, 1 hour for the reset token and 24 hours
  for the verification token.  The 0 does not mean "no expiry": \<open>generateToken\<close> replaces it
  by \<open>DefaultAuthTokenTTL\<close>, so a session token that is issued expires 365 days after the
  moment of issue.  A reset token that is issued to an existing user expires 1 hour after
  the moment of issue, and a verification token 24 hours after it.
\<close>

theorem C8_default_token_lifetimes:
  assumes "set_auth_token_ttl s = None"
    and "set_password_reset_token_ttl s = None"
    and "set_email_confirmation_token_ttl s = None"
  shows "AuthTokenTTL (Auth (Load s)) = 0
       \<and> (fst (generateToken (Load s) lib userID w) = Inr token \<longrightarrow>
            store (snd (generateToken (Load s) lib userID w)) =
              (store w)\<lparr>auth_tokens := auth_tokens (store w) @
                 [\<lparr>at_ID = next_uuid w, at_UserID = userID, at_TokenHash = HashToken lib token,
                   at_ExpiresAt = clock w + 365 * 24 * Hour,
                   at_RevokedAt = None, at_CreatedAt = clock (tick w)\<rparr>]\<rparr>)
       \<and> PasswordResetTokenTTL (Auth (Load s)) = 1 * Hour
       \<and> (nth_fault w 0 = None \<longrightarrow>
          find (\<lambda>x. u_Email x = email) (users (store w)) = Some u \<longrightarrow>
          fst (PasswordResetService_Create (Load s) lib email w) = None \<longrightarrow>
            password_resets (store (snd (PasswordResetService_Create (Load s) lib email w))) =
              password_resets (store w) @
                [\<lparr>pr_ID = next_uuid w, pr_UserID = u_ID u,
                  pr_TokenHash = HashToken lib (hex_EncodeToString (take 32 (entropy w))),
                  pr_ExpiresAt = clock w + 1 * Hour,
                  pr_UsedAt = None, pr_CreatedAt = clock (tick w)\<rparr>])
       \<and> EmailConfirmationTokenTTL (Auth (Load s)) = 24 * Hour
       \<and> (fst (EmailVerificationService_Send (Load s) lib userID w) = None \<longrightarrow>
            email_verifications (store (snd (EmailVerificationService_Send (Load s) lib userID w))) =
              map (\<lambda>v. if ev_UserID v = userID \<and> ev_UsedAt v = None
                       then v\<lparr>ev_UsedAt := Some (clock (tick w))\<rparr> else v)
                  (email_verifications (store w)) @
                [\<lparr>ev_ID = next_uuid w, ev_UserID = userID,
                  ev_TokenHash = HashToken lib (hex_EncodeToString (take 32 (entropy w))),
                  ev_ExpiresAt = clock w + 24 * Hour,
                  ev_UsedAt = None, ev_CreatedAt = clock (tick (tick w))\<rparr>])"
proof -
  note d = Load_defaults(1) [OF assms(1)] Load_defaults(2) [OF assms(2)] Load_defaults(3) [OF assms(3)]
  have session: "fst (generateToken (Load s) lib userID w) = Inr token \<longrightarrow>
            store (snd (generateToken (Load s) lib userID w)) =
              (store w)\<lparr>auth_tokens := auth_tokens (store w) @
                 [\<lparr>at_ID = next_uuid w, at_UserID = userID, at_TokenHash = HashToken lib token,
                   at_ExpiresAt = clock w + 365 * 24 * Hour,
                   at_RevokedAt = None, at_CreatedAt = clock (tick w)\<rparr>]\<rparr>"
  proof
    assume "fst (generateToken (Load s) lib userID w) = Inr token"
    from generateToken_issued [OF this] show "store (snd (generateToken (Load s) lib userID w)) =
              (store w)\<lparr>auth_tokens := auth_tokens (store w) @
                 [\<lparr>at_ID = next_uuid w, at_UserID = userID, at_TokenHash = HashToken lib token,
                   at_ExpiresAt = clock w + 365 * 24 * Hour,
                   at_RevokedAt = None, at_CreatedAt = clock (tick w)\<rparr>]\<rparr>"
      by (simp add: d DefaultAuthTokenTTL_def)
  qed
  have reset: "nth_fault w 0 = None \<longrightarrow>
          find (\<lambda>x. u_Email x = email) (users (store w)) = Some u \<longrightarrow>
          fst (PasswordResetService_Create (Load s) lib email w) = None \<longrightarrow>
            password_resets (store (snd (PasswordResetService_Create (Load s) lib email w))) =
              password_resets (store w) @
                [\<lparr>pr_ID = next_uuid w, pr_UserID = u_ID u,
                  pr_TokenHash = HashToken lib (hex_EncodeToString (take 32 (entropy w))),
                  pr_ExpiresAt = clock w + 1 * Hour,
                  pr_UsedAt = None, pr_CreatedAt = clock (tick w)\<rparr>]"
    using Reset_Create_issued [of w email u "Load s" lib] by (simp only: d) blast
  have verification: "fst (EmailVerificationService_Send (Load s) lib userID w) = None \<longrightarrow>
            email_verifications (store (snd (EmailVerificationService_Send (Load s) lib userID w))) =
              map (\<lambda>v. if ev_UserID v = userID \<and> ev_UsedAt v = None
                       then v\<lparr>ev_UsedAt := Some (clock (tick w))\<rparr> else v)
                  (email_verifications (store w)) @
                [\<lparr>ev_ID = next_uuid w, ev_UserID = userID,
                  ev_TokenHash = HashToken lib (hex_EncodeToString (take 32 (entropy w))),
                  ev_ExpiresAt = clock w + 24 * Hour,
                  ev_UsedAt = None, ev_CreatedAt = clock (tick (tick w))\<rparr>]"
    using Verification_Send_issued [of "Load s" lib userID w] by (simp only: d) blast
  show ?thesis
    by (rule conjI [OF d(1) conjI [OF session conjI [OF d(2) conjI [OF reset conjI [OF d(3) verification]]]]])
qed

lemma alice_signed_up:
  "find (\<lambda>x. u_Email x = ''alice@example.com'') (users signup_db) = Some alice"
  "find (\<lambda>x. u_ID x = Suc 0) (users signup_db) = Some alice"
  "auth_tokens signup_db = []"
  "password_resets signup_db = []"
  "email_verifications signup_db = []"
  "u_EmailVerifiedAt alice = None"
  by (simp_all add: signup_db_def alice_def)

lemma default_login_issued:
  "fst (generateToken cfg lib i (world_of d [] (replicate 32 0))) = Inr (hex_EncodeToString (replicate 32 0))"
  by (simp add: generateToken_fst)

lemma default_reset_issued:
  "fst (PasswordResetService_Create cfg lib ''alice@example.com'' (world_of signup_db [] (replicate 32 0))) = None"
  using Reset_Create_present(1) [of "world_of signup_db [] (replicate 32 0)" "''alice@example.com''" alice cfg lib]
  by (simp add: alice_signed_up)

lemma default_verification_issued:
  "fst (EmailVerificationService_Send cfg lib 1 (world_of signup_db [] (replicate 32 0))) = None"
  by (simp add: EmailVerificationService_Send_def UserRepository_GetByID_fst case_prod_beta Let_def
      EmailVerificationRepository_InvalidateAllForUser_fst EmailVerificationRepository_Create_fst
      alice_signed_up)

text \<open>
  Alice, just signed up, is issued one token of each kind at time 1000 under the
  configuration in which nothing is set.
\<close>

theorem C8_default_token_lifetimes_witness:
  "set_auth_token_ttl no_settings = None
   \<and> set_password_reset_token_ttl no_settings = None
   \<and> set_email_confirmation_token_ttl no_settings = None
   \<and> fst (generateToken (Load no_settings) demo_lib 1 (world_of signup_db [] (replicate 32 0)))
        = Inr (hex_EncodeToString (replicate 32 0))
   \<and> map at_ExpiresAt (auth_tokens (store (snd (generateToken (Load no_settings) demo_lib 1
        (world_of signup_db [] (replicate 32 0)))))) = [1000 + 365 * 24 * Hour]
   \<and> fst (PasswordResetService_Create (Load no_settings) demo_lib ''alice@example.com''
        (world_of signup_db [] (replicate 32 0))) = None
   \<and> map pr_ExpiresAt (password_resets (store (snd (PasswordResetService_Create (Load no_settings)
        demo_lib ''alice@example.com'' (world_of signup_db [] (replicate 32 0)))))) = [1000 + 1 * Hour]
   \<and> fst (EmailVerificationService_Send (Load no_settings) demo_lib 1
        (world_of signup_db [] (replicate 32 0))) = None
   \<and> map ev_ExpiresAt (email_verifications (store (snd (EmailVerificationService_Send (Load no_settings)
        demo_lib 1 (world_of signup_db [] (replicate 32 0)))))) = [1000 + 24 * Hour]"
proof -
  have unset: "set_auth_token_ttl no_settings = None"
    "set_password_reset_token_ttl no_settings = None"
    "set_email_confirmation_token_ttl no_settings = None"
    by (simp_all add: no_settings_def)
  from C8_default_token_lifetimes [OF unset,
      where lib = demo_lib and userID = 1 and w = "world_of signup_db [] (replicate 32 0)"
        and token = "hex_EncodeToString (replicate 32 0)" and email = "''alice@example.com''"
        and u = alice]
    unset default_login_issued [of "Load no_settings" demo_lib 1 signup_db]
    default_reset_issued [of "Load no_settings" demo_lib]
    default_verification_issued [of "Load no_settings" demo_lib]
  show ?thesis by (simp add: alice_signed_up Time_Add_def DefaultAuthTokenTTL_def)
qed

text \<open>
  Claim C8, the counterexample.  Nothing is set, Alice is issued a session token at time
  1000, and the row that is stored expires at 1000 plus 365 days; presented one
  nanosecond after that instant, the token is refused as expired.
\<close>

theorem C8_unset_auth_ttl_counterexample:
  "set_auth_token_ttl no_settings = None
   \<and> fst (SessionService_CreateForUser (Load no_settings) demo_lib 1
            (world_of signup_db [] (replicate 32 0))) = Inr (hex_EncodeToString (replicate 32 0))
   \<and> map at_ExpiresAt (auth_tokens (store after_default_login)) = [1000 + 365 * 24 * Hour]
   \<and> fst (SessionService_ValidateToken demo_lib (hex_EncodeToString (replicate 32 0))
            (after_default_login\<lparr>clock := 1001 + 365 * 24 * Hour\<rparr>)) = Inl ErrTokenExpired"
proof -
  let ?w = "world_of signup_db [] (replicate 32 0)"
  let ?t = "\<lparr>at_ID = 100, at_UserID = 1,
             at_TokenHash = HashToken demo_lib (hex_EncodeToString (replicate 32 0)),
             at_ExpiresAt = 1000 + 365 * 24 * Hour, at_RevokedAt = None,
             at_CreatedAt = clock (tick ?w)\<rparr>"
  have unset: "set_auth_token_ttl no_settings = None" by (simp add: no_settings_def)
  have issued: "fst (SessionService_CreateForUser (Load no_settings) demo_lib 1 ?w)
                  = Inr (hex_EncodeToString (replicate 32 0))"
    by (simp add: SessionService_CreateForUser_def generateToken_fst)
  have rows: "auth_tokens (store after_default_login) = [?t]"
    by (simp add: after_default_login_def SessionService_CreateForUser_def alice_signed_up
        Load_defaults(1) [OF unset] DefaultAuthTokenTTL_def Time_Add_def)
  have ok: "calls_ok 1 (after_default_login\<lparr>clock := 1001 + 365 * 24 * Hour\<rparr>)"
    by (simp add: calls_ok_def after_default_login_def SessionService_CreateForUser_def)
  have found: "find (\<lambda>t. at_TokenHash t = HashToken demo_lib (hex_EncodeToString (replicate 32 0)))
                 (auth_tokens (store (after_default_login\<lparr>clock := 1001 + 365 * 24 * Hour\<rparr>))) = Some ?t"
    by (simp add: rows)
  from ValidateToken_found [OF ok found]
  have refused: "fst (SessionService_ValidateToken demo_lib (hex_EncodeToString (replicate 32 0))
            (after_default_login\<lparr>clock := 1001 + 365 * 24 * Hour\<rparr>)) = Inl ErrTokenExpired"
    by simp
  from unset issued rows refused show ?thesis by simp
qed

end
